theory Spec2Isabelle
  imports Complex_Main "HOL-Library.AList" "HOL-Library.Sublist"
begin

section \<open>JavaScript values the code relies on\<close>

text \<open>
  What a \<^verbatim>\<open>catch (error)\<close> can receive.  The code reads three things of a thrown
  value: whether it is falsy (\<^verbatim>\<open>!error\<close>), whether it is an \<^verbatim>\<open>Error\<close> instance, and its
  \<^verbatim>\<open>message\<close> property and \<^verbatim>\<open>toString()\<close>.
  \<^item> \<open>Nullish\<close>: \<^verbatim>\<open>null\<close> or \<^verbatim>\<open>undefined\<close> (falsy; reading a property of it throws);
  \<^item> \<open>FalsyPrimitive\<close>: \<^verbatim>\<open>0\<close>, \<^verbatim>\<open>NaN\<close>, \<^verbatim>\<open>false\<close> or the empty string (falsy; its
    \<^verbatim>\<open>message\<close> property is \<^verbatim>\<open>undefined\<close>);
  \<^item> \<open>ErrorInstance msg str\<close>: an \<^verbatim>\<open>Error\<close> object with \<^verbatim>\<open>message\<close> \<open>msg\<close> and
    \<^verbatim>\<open>toString()\<close> \<open>str\<close>;
  \<^item> \<open>NonError msg str\<close>: any other truthy value, with its \<^verbatim>\<open>message\<close> property when
    it has one and its \<^verbatim>\<open>toString()\<close>.
\<close>

datatype thrown =
    Nullish
  | FalsyPrimitive
  | ErrorInstance string string
  | NonError "string option" string

text \<open>\<^verbatim>\<open>new Error(msg)\<close>; \<^verbatim>\<open>Error.prototype.toString\<close> prints the name and the message.\<close>

definition newError :: "string \<Rightarrow> thrown" where
  "newError msg = ErrorInstance msg (if msg = [] then ''Error'' else ''Error: '' @ msg)"

text \<open>\<^verbatim>\<open>new TypeError(msg)\<close>, which the runtime throws on a property read of \<^verbatim>\<open>undefined\<close>.\<close>

definition newTypeError :: "string \<Rightarrow> thrown" where
  "newTypeError msg = ErrorInstance msg (if msg = [] then ''TypeError'' else ''TypeError: '' @ msg)"

text \<open>
  \<^verbatim>\<open>error.message || error.toString()\<close> of a truthy value (a falsy one never gets
  there).
\<close>

fun messageOrToString :: "thrown \<Rightarrow> string" where
  "messageOrToString Nullish = []"
| "messageOrToString FalsyPrimitive = []"
| "messageOrToString (ErrorInstance msg str) = (if msg \<noteq> [] then msg else str)"
| "messageOrToString (NonError None str) = str"
| "messageOrToString (NonError (Some msg) str) = (if msg \<noteq> [] then msg else str)"

text \<open>\<^verbatim>\<open>error instanceof Error ? error.message : 'Unknown error'\<close>.\<close>

fun instanceofErrorMessage :: "thrown \<Rightarrow> string" where
  "instanceofErrorMessage (ErrorInstance msg str) = msg"
| "instanceofErrorMessage Nullish = ''Unknown error''"
| "instanceofErrorMessage FalsyPrimitive = ''Unknown error''"
| "instanceofErrorMessage (NonError msg str) = ''Unknown error''"

text \<open>
  \<^verbatim>\<open>String.prototype.toLowerCase\<close> on the characters a \<^typ>\<open>char\<close> holds (code units
  0 to 255): the letters A to Z and the upper-case letters of Latin-1 (192 to 222
  without the multiplication sign 215) move up by 32.
\<close>

definition toLowerCaseChar :: "char \<Rightarrow> char" where
  "toLowerCaseChar c =
     (let n = (of_char c :: nat) in
      if (65 \<le> n \<and> n \<le> 90) \<or> (192 \<le> n \<and> n \<le> 222 \<and> n \<noteq> 215)
      then char_of (n + 32) else c)"

definition toLowerCase :: "string \<Rightarrow> string" where
  "toLowerCase s = map toLowerCaseChar s"

text \<open>\<^verbatim>\<open>s.includes(pat)\<close>: \<open>pat\<close> occurs in \<open>s\<close> as a contiguous substring.\<close>

fun includesStr :: "string \<Rightarrow> string \<Rightarrow> bool" where
  "includesStr [] pat = (pat = [])"
| "includesStr (c # cs) pat = (take (length pat) (c # cs) = pat \<or> includesStr cs pat)"

text \<open>\<^verbatim>\<open>xs.join(sep)\<close>.\<close>

fun join :: "string \<Rightarrow> string list \<Rightarrow> string" where
  "join sep [] = []"
| "join sep [x] = x"
| "join sep (x # y # ys) = x @ sep @ join sep (y # ys)"

text \<open>
  \<^verbatim>\<open>`${error.message}`\<close>: the message as a template literal prints it.  On \<^verbatim>\<open>null\<close>
  and \<^verbatim>\<open>undefined\<close> the property read throws a \<^verbatim>\<open>TypeError\<close>.
\<close>

fun messageInTemplate :: "thrown \<Rightarrow> thrown + string" where
  "messageInTemplate Nullish =
     Inl (newTypeError ''Cannot read properties of undefined (reading 'message')'')"
| "messageInTemplate FalsyPrimitive = Inr ''undefined''"
| "messageInTemplate (ErrorInstance msg str) = Inr msg"
| "messageInTemplate (NonError None str) = Inr ''undefined''"
| "messageInTemplate (NonError (Some msg) str) = Inr msg"

text \<open>
  \<^verbatim>\<open>String.prototype.trim\<close>: white space and line terminators go from both ends (on the
  code units 0 to 255: tab, line feed, vertical tab, form feed, carriage return, space,
  no-break space).
\<close>

definition isTrimmed :: "char \<Rightarrow> bool" where
  "isTrimmed c =
     (let n = (of_char c :: nat) in (9 \<le> n \<and> n \<le> 13) \<or> n = 32 \<or> n = 160)"

definition trim :: "string \<Rightarrow> string" where
  "trim s = rev (dropWhile isTrimmed (rev (dropWhile isTrimmed s)))"

text \<open>The line feed of a multi-line template literal.\<close>

definition NL :: string where
  "NL = [CHR 0x0A]"

section \<open>Data model\<close>

text \<open>
  The shared types of the backend (\<^verbatim>\<open>types/shared\<close>) as the controller and the
  gateway use them.  JavaScript strings are modelled as \<^typ>\<open>string\<close>, a \<^verbatim>\<open>Date\<close> as
  its millisecond timestamp (\<^verbatim>\<open>getTime()\<close>, \<^verbatim>\<open>Date.now()\<close>), an optional field as an
  \<^typ>\<open>'a option\<close>; the optional \<^verbatim>\<open>metadata\<close> of a message is passed through as it is and
  never looked into, so it is kept as its text.
\<close>

datatype MessageRole = USER | ASSISTANT | SYSTEM

record Message =
  message_id :: string
  message_chatId :: string
  message_role :: MessageRole
  message_content :: string
  message_metadata :: "string option"
  message_createdAt :: int

record Chat =
  chat_id :: string
  chat_title :: string
  chat_messages :: "Message list"
  chat_createdAt :: int
  chat_updatedAt :: int

type_synonym AnonymousChat = Chat

text \<open>
  \<^verbatim>\<open>private anonymousChats: Map<string, AnonymousChat>\<close>: a JavaScript \<^verbatim>\<open>Map\<close> keeps
  its entries in insertion order and holds every key once.  It is an association list
  whose keys are distinct: \<^verbatim>\<open>get\<close> is \<^const>\<open>map_of\<close>, \<^verbatim>\<open>set\<close> is
  \<^const>\<open>AList.update\<close>, \<^verbatim>\<open>delete\<close> is \<^const>\<open>AList.delete\<close>.
\<close>

type_synonym registry = "(string \<times> AnonymousChat) list"

definition registry_has :: "registry \<Rightarrow> string \<Rightarrow> bool" where
  "registry_has reg chatId = (map_of reg chatId \<noteq> None)"

section \<open>Ephemeral chat registry: the periodic sweep\<close>

text \<open>\<^verbatim>\<open>ANONYMOUS_CHAT_TIMEOUT = 60 * 60 * 1000\<close>, one hour in milliseconds.\<close>

definition ANONYMOUS_CHAT_TIMEOUT :: int where
  "ANONYMOUS_CHAT_TIMEOUT = 60 * 60 * 1000"

text \<open>
  The callback that \<^verbatim>\<open>startAnonymousChatCleanup\<close> hands to \<^verbatim>\<open>setInterval\<close>, run at
  the time \<open>now\<close> (\<^verbatim>\<open>Date.now()\<close>).  Its first loop collects the ids whose age
  \<^verbatim>\<open>now - chat.createdAt.getTime()\<close> is greater than the timeout, its second loop
  deletes them.
\<close>

definition chatsToDelete :: "int \<Rightarrow> registry \<Rightarrow> string list" where
  "chatsToDelete now reg =
     map fst (filter (\<lambda>(chatId, chat). now - chat_createdAt chat > ANONYMOUS_CHAT_TIMEOUT) reg)"

definition startAnonymousChatCleanup :: "int \<Rightarrow> registry \<Rightarrow> registry" where
  "startAnonymousChatCleanup now reg =
     foldl (\<lambda>r chatId. AList.delete chatId r) reg (chatsToDelete now reg)"

section \<open>LLM gateway (GeminiService)\<close>

text \<open>
  The generative model handle that \<^verbatim>\<open>genAI.getGenerativeModel\<close> returns: the model name
  and the generation configuration it was created with.
\<close>

record GenerativeModel =
  model_name :: string
  temperature :: rat
  topP :: rat
  topK :: nat
  maxOutputTokens :: nat

definition getGenerativeModel :: "string \<Rightarrow> GenerativeModel" where
  "getGenerativeModel modelName =
     \<lparr>model_name = modelName, temperature = 7 / 10, topP = 8 / 10, topK = 40,
      maxOutputTokens = 2048\<rparr>"

text \<open>One turn of the upstream protocol, \<^verbatim>\<open>{role: string, parts: string[]}\<close>.\<close>

record Content =
  content_role :: string
  content_parts :: "string list"

record Usage =
  promptTokens :: nat
  responseTokens :: nat
  totalTokens :: nat

record GeminiResponse =
  response_content :: string
  response_usage :: "Usage option"

text \<open>
  The fields of the class.  \<^verbatim>\<open>genAI\<close> is the client (the API key it was built from) or
  \<^verbatim>\<open>null\<close>; \<^verbatim>\<open>retryAttempts\<close> and \<^verbatim>\<open>retryDelay\<close> are what the constructor parsed from
  the environment (3 and 1000 when the variables are unset).  An unparsable variable
  makes \<^verbatim>\<open>parseInt\<close> return NaN; \<^verbatim>\<open>attempt < NaN\<close> is false, as \<^verbatim>\<open>attempt < 0\<close> is.
\<close>

record GeminiService =
  genAI :: "string option"
  model :: "GenerativeModel option"
  retryAttempts :: int
  retryDelay :: int
  systemInstruction :: string

text \<open>
  What the service does not own.  \<open>GEMINI_API_KEY\<close> is the environment variable;
  \<open>upstream n m history content\<close> is the outcome of the \<open>n\<close>-th upstream exchange of the
  process (\<^verbatim>\<open>chat.sendMessage(content)\<close> on a chat of model \<open>m\<close> started with
  \<open>history\<close>, then \<^verbatim>\<open>response.text()\<close>): the text, or the value thrown;
  \<open>upstreamStream n m history content\<close> is the outcome of the \<open>n\<close>-th exchange when it
  is a streaming one (\<^verbatim>\<open>chat.sendMessageStream(content)\<close> and the iteration of
  \<^verbatim>\<open>result.stream\<close>): the texts of the chunks that arrive and, when the exchange ends by
  throwing, the value thrown; \<open>random n\<close> is the \<open>n\<close>-th result of \<^verbatim>\<open>Math.random()\<close>.
\<close>

record env =
  GEMINI_API_KEY :: "string option"
  upstream :: "nat \<Rightarrow> GenerativeModel \<Rightarrow> Content list \<Rightarrow> string \<Rightarrow> thrown + string"
  upstreamStream ::
    "nat \<Rightarrow> GenerativeModel \<Rightarrow> Content list \<Rightarrow> string \<Rightarrow> string list \<times> thrown option"
  random :: "nat \<Rightarrow> real"

text \<open>
  The effects of the service on the world so far: how many upstream exchanges were
  started, how many random numbers were drawn, and the delays (in milliseconds) awaited
  through \<^verbatim>\<open>setTimeout\<close>, oldest first.
\<close>

record effects =
  upstreamCalls :: nat
  randomDraws :: nat
  delays :: "real list"

definition initialize :: "env \<Rightarrow> GeminiService \<Rightarrow> thrown + GeminiService" where
  "initialize e this =
     (if genAI this \<noteq> None \<and> model this \<noteq> None then Inr this
      else case GEMINI_API_KEY e of
        None \<Rightarrow> Inl (newError ''GEMINI_API_KEY environment variable is required'')
      | Some apiKey \<Rightarrow>
          if apiKey = [] then Inl (newError ''GEMINI_API_KEY environment variable is required'')
          else Inr (this\<lparr>genAI := Some apiKey,
                         model := Some (getGenerativeModel ''gemini-2.5-flash'')\<rparr>))"

definition convertMessagesToHistory :: "Message list \<Rightarrow> Content list" where
  "convertMessagesToHistory messages =
     map (\<lambda>msg. \<lparr>content_role = (if message_role msg = USER then ''user'' else ''model''),
                 content_parts = [message_content msg]\<rparr>)
       (filter (\<lambda>msg. message_role msg \<noteq> SYSTEM) messages)"

definition understood :: string where
  "understood = ''Understood! I will create interactive charts using the chart syntax you provided. Whenever users ask for visualizations, I will use the special markdown code blocks with chart:line, chart:bar, chart:pie, or chart:area followed by properly formatted JSON data. I will not suggest Python code or external tools. The charts will render directly in the interface.''"

definition historyWithSystemInstruction :: "GeminiService \<Rightarrow> Message list \<Rightarrow> Content list" where
  "historyWithSystemInstruction this messages =
     \<lparr>content_role = ''user'', content_parts = [systemInstruction this]\<rparr>
     # \<lparr>content_role = ''model'', content_parts = [understood]\<rparr>
     # convertMessagesToHistory messages"

definition retryablePatterns :: "string list" where
  "retryablePatterns =
     [''503 Service Unavailable'', ''The model is overloaded'', ''Rate limit exceeded'',
      ''Quota exceeded'', ''Internal server error'', ''Bad Gateway'', ''Gateway Timeout'',
      ''Service Unavailable'', ''Too Many Requests'']"

definition isRetryableError :: "thrown \<Rightarrow> bool" where
  "isRetryableError error =
     (if error = Nullish \<or> error = FalsyPrimitive then False
      else let errorMessage = messageOrToString error
           in list_ex (\<lambda>pattern. includesStr (toLowerCase errorMessage) (toLowerCase pattern))
                retryablePatterns)"

text \<open>
  \<^verbatim>\<open>Math.min(this.retryDelay * Math.pow(2, attempt) + Math.random() * 1000, 30000)\<close>,
  with the random number drawn passed in.  The base delay and the power of two are exact
  integers in JavaScript's numbers; the sum is taken exactly here.
\<close>

definition calculateRetryDelay :: "GeminiService \<Rightarrow> nat \<Rightarrow> real \<Rightarrow> real" where
  "calculateRetryDelay this attempt rnd =
     (let exponentialDelay = real_of_int (retryDelay this) * 2 ^ attempt;
          jitter = rnd * 1000
      in min (exponentialDelay + jitter) 30000)"

text \<open>
  The \<^verbatim>\<open>try\<close> block of \<^verbatim>\<open>sendMessageWithRetry\<close>: one attempt.  \<^verbatim>\<open>initialize\<close> may throw;
  reading \<^verbatim>\<open>role\<close> of the last message of an empty array throws a \<^verbatim>\<open>TypeError\<close>; a last
  message that is not the user's throws; the upstream exchange returns the text or
  throws.
\<close>

definition sendMessageWithRetry_try ::
  "env \<Rightarrow> Message list \<Rightarrow> GeminiService \<times> effects \<Rightarrow> (thrown + GeminiResponse) \<times> GeminiService \<times> effects"
where
  "sendMessageWithRetry_try e messages st =
     (case st of (this, fx) \<Rightarrow>
      (case initialize e this of
         Inl err \<Rightarrow> (Inl err, this, fx)
       | Inr this' \<Rightarrow>
          (case model this' of
             None \<Rightarrow> (Inl (newTypeError ''Cannot read properties of null (reading 'startChat')''), this', fx)
           | Some m \<Rightarrow>
              if messages = []
              then (Inl (newTypeError ''Cannot read properties of undefined (reading 'role')''), this', fx)
              else if message_role (last messages) \<noteq> USER
              then (Inl (newError ''Last message must be from user''), this', fx)
              else
                (case upstream e (upstreamCalls fx) m (historyWithSystemInstruction this' messages)
                        (message_content (last messages)) of
                   Inl err \<Rightarrow> (Inl err, this', fx\<lparr>upstreamCalls := upstreamCalls fx + 1\<rparr>)
                 | Inr text \<Rightarrow>
                     (Inr \<lparr>response_content = text,
                           response_usage = Some \<lparr>promptTokens = 0, responseTokens = 0, totalTokens = 0\<rparr>\<rparr>,
                      this', fx\<lparr>upstreamCalls := upstreamCalls fx + 1\<rparr>)))))"

lemma initialize_retryAttempts:
  "initialize e this = Inr this' \<Longrightarrow> retryAttempts this' = retryAttempts this"
  by (auto simp: initialize_def split: if_splits option.splits)

lemma sendMessageWithRetry_try_retryAttempts:
  "sendMessageWithRetry_try e messages (this, fx) = (r, this', fx') \<Longrightarrow>
     retryAttempts this' = retryAttempts this"
  by (auto simp: sendMessageWithRetry_try_def dest: initialize_retryAttempts
      split: sum.splits option.splits if_splits)

text \<open>
  \<^verbatim>\<open>sendMessageWithRetry(messages, attempt)\<close>: the attempt, and in the \<^verbatim>\<open>catch\<close> block
  either the wait and the next attempt, or the final error.
\<close>

function sendMessageWithRetry ::
  "env \<Rightarrow> Message list \<Rightarrow> nat \<Rightarrow> GeminiService \<times> effects \<Rightarrow> (thrown + GeminiResponse) \<times> GeminiService \<times> effects"
where
  "sendMessageWithRetry e messages attempt st =
     (case sendMessageWithRetry_try e messages st of
        (Inr response, this', fx') \<Rightarrow> (Inr response, this', fx')
      | (Inl error, this', fx') \<Rightarrow>
          if isRetryableError error \<and> int attempt < retryAttempts this'
          then
            let delay = calculateRetryDelay this' attempt (random e (randomDraws fx'));
                fx'' = fx'\<lparr>randomDraws := randomDraws fx' + 1, delays := delays fx' @ [delay]\<rparr>
            in sendMessageWithRetry e messages (attempt + 1) (this', fx'')
          else
            (Inl (newError (''Failed to get response from Gemini: '' @ instanceofErrorMessage error)),
             this', fx'))"
  by pat_completeness auto
termination
proof (relation "measure (\<lambda>(e, messages, attempt, this, fx). nat (retryAttempts this - int attempt))")
  show "wf (measure (\<lambda>(e, messages, attempt, this, fx). nat (retryAttempts this - int attempt)))"
    by simp
next
  fix e messages attempt st x1 error x2 this' fx' delay fx''
  assume a: "(x1, x2) = sendMessageWithRetry_try e messages st" "x1 = Inl error"
    "(this', fx') = x2" "isRetryableError error \<and> int attempt < retryAttempts this'"
  obtain this fx where st: "st = (this, fx)" by (cases st)
  from a st have "sendMessageWithRetry_try e messages (this, fx) = (Inl error, this', fx')"
    by simp
  then have "retryAttempts this' = retryAttempts this"
    by (rule sendMessageWithRetry_try_retryAttempts)
  with a(4) st
  show "((e, messages, attempt + 1, this', fx''), e, messages, attempt, st)
        \<in> measure (\<lambda>(e, messages, attempt, this, fx). nat (retryAttempts this - int attempt))"
    by simp
qed

definition sendMessage ::
  "env \<Rightarrow> Message list \<Rightarrow> GeminiService \<times> effects \<Rightarrow> (thrown + GeminiResponse) \<times> GeminiService \<times> effects"
where
  "sendMessage e messages st = sendMessageWithRetry e messages 0 st"

definition sendMessageWithFallback ::
  "env \<Rightarrow> Message list \<Rightarrow> GeminiService \<times> effects \<Rightarrow> (thrown + GeminiResponse) \<times> GeminiService \<times> effects"
where
  "sendMessageWithFallback e messages st = sendMessage e messages st"

text \<open>
  \<^verbatim>\<open>sendMessageStream(messages)\<close>, an asynchronous generator: the fragments it yields, in
  order, and the value it throws if it ends by throwing.  The checks before the
  exchange are those of \<^verbatim>\<open>sendMessageWithRetry\<close>; there is no retry.  A chunk whose text
  is empty is not yielded.
\<close>

definition sendMessageStream ::
  "env \<Rightarrow> Message list \<Rightarrow> GeminiService \<times> effects
     \<Rightarrow> (string list \<times> thrown option) \<times> GeminiService \<times> effects"
where
  "sendMessageStream e messages st =
     (case st of (this, fx) \<Rightarrow>
      (case initialize e this of
         Inl err \<Rightarrow> (([], Some err), this, fx)
       | Inr this' \<Rightarrow>
          (case model this' of
             None \<Rightarrow> (([], Some (newTypeError ''Cannot read properties of null (reading 'startChat')'')),
                       this', fx)
           | Some m \<Rightarrow>
              if messages = []
              then (([], Some (newTypeError ''Cannot read properties of undefined (reading 'role')'')),
                    this', fx)
              else if message_role (last messages) \<noteq> USER
              then (([], Some (newError ''Last message must be from user'')), this', fx)
              else
                (case upstreamStream e (upstreamCalls fx) m (historyWithSystemInstruction this' messages)
                        (message_content (last messages)) of
                   (texts, failure) \<Rightarrow>
                     ((filter (\<lambda>text. text \<noteq> []) texts, failure),
                      this', fx\<lparr>upstreamCalls := upstreamCalls fx + 1\<rparr>)))))"

definition getAvailableModels :: "string list" where
  "getAvailableModels = [''gemini-2.5-flash'', ''gemini-2.5-pro'']"

definition switchModel :: "env \<Rightarrow> string \<Rightarrow> GeminiService \<Rightarrow> (thrown + unit) \<times> GeminiService" where
  "switchModel e modelName this =
     (case initialize e this of
        Inl err \<Rightarrow> (Inl err, this)
      | Inr this' \<Rightarrow>
          let availableModels = getAvailableModels in
          if modelName \<notin> set availableModels
          then (Inl (newError (''Model '' @ modelName @ '' is not available. Available models: ''
                               @ join '', '' availableModels)), this')
          else (Inr (), this'\<lparr>model := Some (getGenerativeModel modelName)\<rparr>))"

section \<open>JSON.parse\<close>

text \<open>
  \<^verbatim>\<open>JSON.parse\<close> is the platform's, not the repository's; \<^verbatim>\<open>extractToolCalls\<close> below takes
  it as a parameter.  The model of it given here follows the JSON grammar of
  ECMA-404, which \<^verbatim>\<open>JSON.parse\<close> implements: a value between optional white space
  (space, tab, line feed, carriage return) and nothing else.  A number is kept as
  its text, a string as its UTF-16 code units (an escape \<^verbatim>\<open>\uXXXX\<close> can denote a unit
  above 255), an object as its members in the order written.
\<close>

datatype json =
    JNull
  | JBool bool
  | JNumber string
  | JString "nat list"
  | JArray "json list"
  | JObject "(nat list \<times> json) list"

definition isJsonWhitespace :: "char \<Rightarrow> bool" where
  "isJsonWhitespace c = (c = CHR '' '' \<or> c = CHR 0x09 \<or> c = CHR 0x0A \<or> c = CHR 0x0D)"

definition skipJsonWhitespace :: "string \<Rightarrow> string" where
  "skipJsonWhitespace s = dropWhile isJsonWhitespace s"

definition isDigit :: "char \<Rightarrow> bool" where
  "isDigit c = (48 \<le> (of_char c :: nat) \<and> (of_char c :: nat) \<le> 57)"

definition hexDigit :: "char \<Rightarrow> nat option" where
  "hexDigit c =
     (let n = (of_char c :: nat) in
      if 48 \<le> n \<and> n \<le> 57 then Some (n - 48)
      else if 65 \<le> n \<and> n \<le> 70 then Some (n - 55)
      else if 97 \<le> n \<and> n \<le> 102 then Some (n - 87)
      else None)"

fun hex4 :: "string \<Rightarrow> nat option" where
  "hex4 [a, b, c, d] =
     (case (hexDigit a, hexDigit b, hexDigit c, hexDigit d) of
        (Some x, Some y, Some z, Some w) \<Rightarrow> Some (((x * 16 + y) * 16 + z) * 16 + w)
      | _ \<Rightarrow> None)"
| "hex4 _ = None"

text \<open>The escape \<^verbatim>\<open>\e\<close> for a single character \<open>e\<close>.\<close>

definition simpleEscape :: "char \<Rightarrow> nat option" where
  "simpleEscape e =
     (if e = CHR 0x22 then Some 34
      else if e = CHR 0x5C then Some 92
      else if e = CHR ''/'' then Some 47
      else if e = CHR ''b'' then Some 8
      else if e = CHR ''f'' then Some 12
      else if e = CHR ''n'' then Some 10
      else if e = CHR ''r'' then Some 13
      else if e = CHR ''t'' then Some 9
      else None)"

text \<open>
  The characters of a string after its opening quote, up to the closing quote: the
  code units (latest first in \<open>acc\<close>) and the rest of the input.
\<close>

fun parseChars :: "string \<Rightarrow> nat list \<Rightarrow> (nat list \<times> string) option" where
  "parseChars [] acc = None"
| "parseChars (c # cs) acc =
     (if c = CHR 0x22 then Some (rev acc, cs)
      else if c = CHR 0x5C then
        (case cs of
           [] \<Rightarrow> None
         | e # r \<Rightarrow>
             if e = CHR ''u'' then
               (case hex4 (take 4 r) of
                  None \<Rightarrow> None
                | Some u \<Rightarrow> parseChars (drop 4 r) (u # acc))
             else
               (case simpleEscape e of
                  None \<Rightarrow> None
                | Some u \<Rightarrow> parseChars r (u # acc)))
      else if (of_char c :: nat) < 32 then None
      else parseChars cs (of_char c # acc))"

text \<open>
  A number: an optional minus, \<^verbatim>\<open>0\<close> or a digit from 1 to 9 followed by digits, an
  optional fraction, an optional exponent.  The result is the text of the number and
  the rest of the input.
\<close>

definition parseNumber :: "string \<Rightarrow> (string \<times> string) option" where
  "parseNumber s =
     (let minus = (if s \<noteq> [] \<and> hd s = CHR ''-'' then ''-'' else []);
          s1 = drop (length minus) s
      in if s1 = [] \<or> \<not> isDigit (hd s1) then None
         else
           let intPart = (if hd s1 = CHR ''0'' then ''0'' else takeWhile isDigit s1);
               s2 = drop (length intPart) s1;
               fracDigits = (if s2 \<noteq> [] \<and> hd s2 = CHR ''.'' then takeWhile isDigit (tl s2) else [])
           in if s2 \<noteq> [] \<and> hd s2 = CHR ''.'' \<and> fracDigits = [] then None
              else
                let fracPart = (if s2 \<noteq> [] \<and> hd s2 = CHR ''.'' then CHR ''.'' # fracDigits else []);
                    s3 = drop (length fracPart) s2
                in if s3 \<noteq> [] \<and> (hd s3 = CHR ''e'' \<or> hd s3 = CHR ''E'') then
                     let s4 = tl s3;
                         sign = (if s4 \<noteq> [] \<and> (hd s4 = CHR ''+'' \<or> hd s4 = CHR ''-'') then [hd s4] else []);
                         expDigits = takeWhile isDigit (drop (length sign) s4)
                     in if expDigits = [] then None
                        else Some (minus @ intPart @ fracPart @ [hd s3] @ sign @ expDigits,
                                   drop (length sign + length expDigits) s4)
                   else Some (minus @ intPart @ fracPart, s3))"

text \<open>
  Values, array elements and object members.  The first argument bounds the nesting
  depth; \<open>JSON_parse\<close> passes more than the length of the text, and every level of
  nesting consumes a character.
\<close>

fun parseValue :: "nat \<Rightarrow> string \<Rightarrow> (json \<times> string) option"
  and parseElements :: "nat \<Rightarrow> string \<Rightarrow> json list \<Rightarrow> (json \<times> string) option"
  and parseMembers :: "nat \<Rightarrow> string \<Rightarrow> (nat list \<times> json) list \<Rightarrow> (json \<times> string) option"
where
  "parseValue 0 s = None"
| "parseValue (Suc n) s =
     (case s of
        [] \<Rightarrow> None
      | c # cs \<Rightarrow>
          if c = CHR ''{'' then
            (case skipJsonWhitespace cs of
               [] \<Rightarrow> None
             | d # r \<Rightarrow> if d = CHR ''}'' then Some (JObject [], r) else parseMembers n (d # r) [])
          else if c = CHR ''['' then
            (case skipJsonWhitespace cs of
               [] \<Rightarrow> None
             | d # r \<Rightarrow> if d = CHR '']'' then Some (JArray [], r) else parseElements n (d # r) [])
          else if c = CHR 0x22 then
            (case parseChars cs [] of
               None \<Rightarrow> None
             | Some (units, r) \<Rightarrow> Some (JString units, r))
          else if take 4 s = ''true'' then Some (JBool True, drop 4 s)
          else if take 5 s = ''false'' then Some (JBool False, drop 5 s)
          else if take 4 s = ''null'' then Some (JNull, drop 4 s)
          else
            (case parseNumber s of
               None \<Rightarrow> None
             | Some (text, r) \<Rightarrow> Some (JNumber text, r)))"
| "parseElements 0 s acc = None"
| "parseElements (Suc n) s acc =
     (case parseValue n (skipJsonWhitespace s) of
        None \<Rightarrow> None
      | Some (v, r) \<Rightarrow>
          (case skipJsonWhitespace r of
             [] \<Rightarrow> None
           | d # r' \<Rightarrow>
               if d = CHR '','' then parseElements n r' (v # acc)
               else if d = CHR '']'' then Some (JArray (rev (v # acc)), r')
               else None))"
| "parseMembers 0 s acc = None"
| "parseMembers (Suc n) s acc =
     (case skipJsonWhitespace s of
        [] \<Rightarrow> None
      | q # r \<Rightarrow>
          if q \<noteq> CHR 0x22 then None
          else
            (case parseChars r [] of
               None \<Rightarrow> None
             | Some (key, r1) \<Rightarrow>
                 (case skipJsonWhitespace r1 of
                    [] \<Rightarrow> None
                  | colon # r2 \<Rightarrow>
                      if colon \<noteq> CHR '':'' then None
                      else
                        (case parseValue n (skipJsonWhitespace r2) of
                           None \<Rightarrow> None
                         | Some (v, r3) \<Rightarrow>
                             (case skipJsonWhitespace r3 of
                                [] \<Rightarrow> None
                              | d # r4 \<Rightarrow>
                                  if d = CHR '','' then parseMembers n r4 ((key, v) # acc)
                                  else if d = CHR ''}'' then Some (JObject (rev ((key, v) # acc)), r4)
                                  else None)))))"

text \<open>\<^verbatim>\<open>JSON.parse(text)\<close>: the value, or \<open>None\<close> where it throws a \<^verbatim>\<open>SyntaxError\<close>.\<close>

definition JSON_parse :: "string \<Rightarrow> json option" where
  "JSON_parse text =
     (case parseValue (Suc (length text)) (skipJsonWhitespace text) of
        None \<Rightarrow> None
      | Some (v, r) \<Rightarrow> if skipJsonWhitespace r = [] then Some v else None)"

text \<open>The code units of a string constant.\<close>

definition units :: "string \<Rightarrow> nat list" where
  "units s = map of_char s"

section \<open>Tool invocation loop: extracting tool calls\<close>

text \<open>A tool call, \<^verbatim>\<open>{toolName: string, arguments: any}\<close>; \<open>'j\<close> is the type of parsed JSON.\<close>

record 'j ToolCall =
  toolName :: string
  arguments :: 'j

text \<open>
  The character classes of the regular expressions: \<^verbatim>\<open>\w\<close> is a letter of A to Z or a to
  z, a digit or the underscore; \<^verbatim>\<open>\s\<close>, on the code units 0 to 255, is tab, line feed,
  vertical tab, form feed, carriage return, space and the no-break space.
\<close>

definition isWordChar :: "char \<Rightarrow> bool" where
  "isWordChar c =
     (let n = (of_char c :: nat) in
      (65 \<le> n \<and> n \<le> 90) \<or> (97 \<le> n \<and> n \<le> 122) \<or> (48 \<le> n \<and> n \<le> 57) \<or> n = 95)"

definition isWhitespace :: "char \<Rightarrow> bool" where
  "isWhitespace c =
     (let n = (of_char c :: nat) in (9 \<le> n \<and> n \<le> 13) \<or> n = 32 \<or> n = 160)"

text \<open>
  \<^verbatim>\<open>/TOOL_CALL:(\w+):/\<close> matched at the start of \<open>s\<close>: the name captured and the length
  of the match.  \<^verbatim>\<open>\w+\<close> is greedy and a colon is no word character, so the name is
  the longest run of word characters, which must not be empty and must be followed by
  a colon.
\<close>

definition matchMarkerAt :: "string \<Rightarrow> (string \<times> nat) option" where
  "matchMarkerAt s =
     (if take 10 s = ''TOOL_CALL:'' then
        let name = takeWhile isWordChar (drop 10 s);
            after = drop (10 + length name) s
        in if name \<noteq> [] \<and> after \<noteq> [] \<and> hd after = CHR '':''
           then Some (name, 10 + length name + 1)
           else None
      else None)"

text \<open>
  \<^verbatim>\<open>toolCallMarkerRegex.exec(response)\<close> with the global flag and \<^verbatim>\<open>lastIndex = i\<close>: the
  leftmost match at or after \<open>i\<close>, as \<^verbatim>\<open>(match.index, match[1], match[0].length)\<close>, or
  \<open>None\<close> for \<^verbatim>\<open>null\<close>.
\<close>

function regexExec :: "string \<Rightarrow> nat \<Rightarrow> (nat \<times> string \<times> nat) option" where
  "regexExec response i =
     (if i \<ge> length response then None
      else case matchMarkerAt (drop i response) of
             Some (name, len) \<Rightarrow> Some (i, name, len)
           | None \<Rightarrow> regexExec response (i + 1))"
  by pat_completeness auto
termination
  by (relation "measure (\<lambda>(response, i). length response - i)") auto

text \<open>\<^verbatim>\<open>while (jsonStart < response.length && /\s/.test(response[jsonStart])) jsonStart++\<close>.\<close>

function skipWhitespace :: "string \<Rightarrow> nat \<Rightarrow> nat" where
  "skipWhitespace response jsonStart =
     (if jsonStart < length response \<and> isWhitespace (response ! jsonStart)
      then skipWhitespace response (jsonStart + 1)
      else jsonStart)"
  by pat_completeness auto
termination
  by (relation "measure (\<lambda>(response, jsonStart). length response - jsonStart)") auto

text \<open>
  The \<^verbatim>\<open>for\<close> loop that counts braces from \<open>i\<close> on: the final \<^verbatim>\<open>braceCount\<close> and
  \<^verbatim>\<open>jsonEnd\<close>.  It breaks at the closing brace that brings the count to 0.
\<close>

function countBraces :: "string \<Rightarrow> nat \<Rightarrow> int \<Rightarrow> nat \<Rightarrow> int \<times> nat" where
  "countBraces response i braceCount jsonEnd =
     (if i < length response then
        if response ! i = CHR ''{'' then countBraces response (i + 1) (braceCount + 1) jsonEnd
        else if response ! i = CHR ''}'' then
          (if braceCount - 1 = 0 then (braceCount - 1, i)
           else countBraces response (i + 1) (braceCount - 1) jsonEnd)
        else countBraces response (i + 1) braceCount jsonEnd
      else (braceCount, jsonEnd))"
  by pat_completeness auto
termination
  by (relation "measure (\<lambda>(response, i, braceCount, jsonEnd). length response - i)") auto

text \<open>\<^verbatim>\<open>response.substring(a, b)\<close> for \<open>a \<le> b\<close>.\<close>

definition substring :: "string \<Rightarrow> nat \<Rightarrow> nat \<Rightarrow> string" where
  "substring response a b = take (b - a) (drop a response)"

text \<open>
  The body of the \<^verbatim>\<open>while\<close> loop for one match of the marker: the tool call it pushes,
  or \<open>None\<close> where it goes on without one (no opening brace, unmatched braces, or
  \<^verbatim>\<open>JSON.parse\<close> throws and the \<^verbatim>\<open>catch\<close> logs the error).
\<close>

definition toolCallOfMatch ::
  "(string \<Rightarrow> 'j option) \<Rightarrow> string \<Rightarrow> nat \<times> string \<times> nat \<Rightarrow> 'j ToolCall option"
where
  "toolCallOfMatch parse response match =
     (case match of (index, name, len) \<Rightarrow>
        let colonIndex = index + len;
            jsonStart = skipWhitespace response colonIndex
        in if jsonStart \<ge> length response \<or> response ! jsonStart \<noteq> CHR ''{'' then None
           else
             (case countBraces response jsonStart 0 jsonStart of
                (braceCount, jsonEnd) \<Rightarrow>
                  if braceCount \<noteq> 0 then None
                  else
                    (case parse (substring response jsonStart (jsonEnd + 1)) of
                       None \<Rightarrow> None
                     | Some args \<Rightarrow> Some \<lparr>toolName = name, arguments = args\<rparr>)))"

lemma regexExec_bounds:
  "regexExec response i = Some (index, name, len) \<Longrightarrow>
     i \<le> index \<and> index < length response \<and> 0 < len
     \<and> matchMarkerAt (drop index response) = Some (name, len)"
proof (induction response i rule: regexExec.induct)
  case (1 response i)
  show ?case
  proof (cases "i \<ge> length response")
    case True
    with "1.prems" show ?thesis by simp
  next
    case False
    show ?thesis
    proof (cases "matchMarkerAt (drop i response)")
      case None
      with False "1.prems" have "regexExec response (i + 1) = Some (index, name, len)"
        by simp
      from "1.IH" [OF False None this] show ?thesis by simp
    next
      case (Some m)
      obtain n l where m: "m = (n, l)" by (cases m)
      from Some m False "1.prems" have eq: "index = i" "name = n" "len = l"
        by simp_all
      from Some m have "0 < l"
        by (auto simp: matchMarkerAt_def Let_def split: if_splits)
      with eq False Some m show ?thesis by simp
    qed
  qed
qed

text \<open>
  The \<^verbatim>\<open>while ((match = regex.exec(response)) !== null)\<close> loop, from \<^verbatim>\<open>lastIndex\<close> on.
  After a match the regular expression's \<^verbatim>\<open>lastIndex\<close> is the end of the marker,
  whatever the body did.
\<close>

function extractLoop ::
  "(string \<Rightarrow> 'j option) \<Rightarrow> string \<Rightarrow> nat \<Rightarrow> 'j ToolCall list \<Rightarrow> 'j ToolCall list"
where
  "extractLoop parse response lastIndex toolCalls =
     (case regexExec response lastIndex of
        None \<Rightarrow> toolCalls
      | Some (index, name, len) \<Rightarrow>
          (case toolCallOfMatch parse response (index, name, len) of
             None \<Rightarrow> extractLoop parse response (index + len) toolCalls
           | Some toolCall \<Rightarrow> extractLoop parse response (index + len) (toolCalls @ [toolCall])))"
  by pat_completeness auto
termination
proof (relation "measure (\<lambda>(parse, response, lastIndex, toolCalls). length response - lastIndex)")
  show "wf (measure (\<lambda>(parse, response, lastIndex, toolCalls). length response - lastIndex))"
    by simp
next
  fix parse :: "string \<Rightarrow> 'j option"
  fix response lastIndex and toolCalls :: "'j ToolCall list" and m index r name len
  assume "regexExec response lastIndex = Some m" "(index, r) = m" "(name, len) = r"
  then have "regexExec response lastIndex = Some (index, name, len)" by simp
  from regexExec_bounds [OF this]
  have "length response - (index + len) < length response - lastIndex" by linarith
  then show "((parse, response, index + len, toolCalls), parse, response, lastIndex, toolCalls)
        \<in> measure (\<lambda>(parse, response, lastIndex, toolCalls). length response - lastIndex)"
    by simp
next
  fix parse :: "string \<Rightarrow> 'j option"
  fix response lastIndex and toolCalls :: "'j ToolCall list" and m index r name len toolCall
  assume "regexExec response lastIndex = Some m" "(index, r) = m" "(name, len) = r"
  then have "regexExec response lastIndex = Some (index, name, len)" by simp
  from regexExec_bounds [OF this]
  have "length response - (index + len) < length response - lastIndex" by linarith
  then show "((parse, response, index + len, toolCalls @ [toolCall]), parse, response, lastIndex, toolCalls)
        \<in> measure (\<lambda>(parse, response, lastIndex, toolCalls). length response - lastIndex)"
    by simp
qed

definition extractToolCalls :: "(string \<Rightarrow> 'j option) \<Rightarrow> string \<Rightarrow> 'j ToolCall list" where
  "extractToolCalls parse response = extractLoop parse response 0 []"


section \<open>Directives as the specification describes them\<close>





text \<open>
  A directive begins at position \<open>i\<close> of the response when the text from there on
  reads \<^verbatim>\<open>TOOL_CALL:\<close>, a name (one or more word characters) and a colon: its name and
  the text after that colon.
\<close>

definition directiveAt :: "string \<Rightarrow> nat \<Rightarrow> (string \<times> string) option" where
  "directiveAt response i =
     (let s = drop i response;
          name = takeWhile isWordChar (drop 10 s);
          tail = drop (10 + length name) s
      in if i < length response \<and> take 10 s = ''TOOL_CALL:'' \<and> name \<noteq> [] \<and> take 1 tail = '':''
         then Some (name, drop 1 tail)
         else None)"





section \<open>Tool invocation loop: execution and correction\<close>

text \<open>
  What the controller writes to the console in the tool loop and in the handlers, in
  order.  The numbers of \<open>ToolExecutionFailed\<close> are \<^verbatim>\<open>retryCount + 1\<close> and
  \<^verbatim>\<open>MAX_RETRIES + 1\<close>, the number of \<open>AttemptingAutoCorrection\<close> is \<^verbatim>\<open>retryCount + 1\<close>.
\<close>

datatype logEvent =
    ToolExecutionFailed nat nat thrown
  | AttemptingAutoCorrection nat
  | LLMUnableToFix
  | NoCorrectedToolCall
  | CorrectedToolCallProvided
  | ErrorDuringLLMCorrection thrown
  | MCPIntegrationFailed thrown
  | MCPDisabledNoToken
  | ErrorGettingAIResponse thrown
  | ErrorStreamingAIResponse thrown
  | ErrorInHandler thrown
  | ErrorMigratingChat string thrown

text \<open>
  A call the controller makes on \<^verbatim>\<open>databaseService\<close>, with its arguments: these are all
  the operations of the service that the controller uses in any handler.
\<close>

datatype dbCall =
    CreateChat string string
  | GetChats string
  | GetChat string "string option"
  | GetMessages string
  | AddMessage string MessageRole string "string option"
  | UpdateChatTitle string string
  | DeleteChat string

fun isDeleteChat :: "dbCall \<Rightarrow> bool" where
  "isDeleteChat (DeleteChat chatId) = True"
| "isDeleteChat _ = False"

text \<open>
  The state the controller works on: the gateway singleton and its effects, the
  registry of anonymous chats, the calls made on the database service, the numbers of
  calls made on the tool provider (\<^verbatim>\<open>mcpClient.callTool\<close>) and on
  \<^verbatim>\<open>mcpContextService.getMCPToolsContext\<close>, the number of message ids generated, the
  number of clock reads, and the console.
\<close>

record world =
  geminiState :: "GeminiService \<times> effects"
  anonymousChats :: registry
  dbCalls :: "dbCall list"
  mcpToolCalls :: nat
  mcpContextCalls :: nat
  idsGenerated :: nat
  clockReads :: nat
  console :: "logEvent list"

text \<open>
  The collaborators of the controller that are not in the repository's files, each as
  the outcome of its \<open>n\<close>-th call: the tool provider and its context service, the
  database service (\<^verbatim>\<open>getChat\<close> returns \<^verbatim>\<open>null\<close> as \<open>None\<close>), the clock, and the
  generator of message ids (\<^verbatim>\<open>`msg_${Date.now()}_${Math.random()...}`\<close>).  With them
  the deployment's configuration (\<^verbatim>\<open>mcpEnabled\<close>, \<^verbatim>\<open>isOAuthEnabled()\<close>) and the
  platform's \<^verbatim>\<open>JSON.parse\<close> and \<^verbatim>\<open>JSON.stringify(value, null, 2)\<close>.
\<close>

record 'j deps =
  geminiEnv :: env
  mcpEnabled :: bool
  isOAuthEnabled :: bool
  JSON_parse_of :: "string \<Rightarrow> 'j option"
  JSON_stringify :: "'j \<Rightarrow> string"
  callTool :: "nat \<Rightarrow> string \<Rightarrow> 'j \<Rightarrow> thrown + string"
  getMCPToolsContext :: "nat \<Rightarrow> thrown + string"
  db_createChat :: "nat \<Rightarrow> string \<Rightarrow> string \<Rightarrow> thrown + Chat"
  db_getChat :: "nat \<Rightarrow> string \<Rightarrow> string option \<Rightarrow> thrown + Chat option"
  db_getMessages :: "nat \<Rightarrow> string \<Rightarrow> thrown + Message list"
  db_addMessage ::
    "nat \<Rightarrow> string \<Rightarrow> MessageRole \<Rightarrow> string \<Rightarrow> string option \<Rightarrow> thrown + Message"
  dateNow :: "nat \<Rightarrow> int"
  newMessageId :: "nat \<Rightarrow> string"

text \<open>
  \<^verbatim>\<open>{ role: MessageRole.USER, content: prompt } as Message\<close>: a message of which only the
  role and the content exist; the gateway reads no other field, and they are left empty.
\<close>

definition promptMessage :: "string \<Rightarrow> Message" where
  "promptMessage prompt =
     \<lparr>message_id = [], message_chatId = [], message_role = USER, message_content = prompt,
      message_metadata = None, message_createdAt = 0\<rparr>"

text \<open>A call of the gateway from the controller: the singleton's state is in the world.\<close>

definition gemini_sendMessageWithFallback ::
  "'j deps \<Rightarrow> Message list \<Rightarrow> world \<Rightarrow> (thrown + GeminiResponse) \<times> world" where
  "gemini_sendMessageWithFallback d messages w =
     (case sendMessageWithFallback (geminiEnv d) messages (geminiState w) of
        (r, g) \<Rightarrow> (r, w\<lparr>geminiState := g\<rparr>))"

definition gemini_sendMessage ::
  "'j deps \<Rightarrow> Message list \<Rightarrow> world \<Rightarrow> (thrown + GeminiResponse) \<times> world" where
  "gemini_sendMessage d messages w =
     (case sendMessage (geminiEnv d) messages (geminiState w) of
        (r, g) \<Rightarrow> (r, w\<lparr>geminiState := g\<rparr>))"

definition MAX_RETRIES :: nat where
  "MAX_RETRIES = 2"

text \<open>
  The \<^verbatim>\<open>for\<close> loop of \<^verbatim>\<open>executeToolCallsAndRespond\<close>: the tools are called in order, each
  result is labelled with its tool's name; the first call that throws ends the loop.
\<close>

fun callTools ::
  "'j deps \<Rightarrow> 'j ToolCall list \<Rightarrow> string list \<Rightarrow> world \<Rightarrow> (thrown + string list) \<times> world"
where
  "callTools d [] toolResults w = (Inr toolResults, w)"
| "callTools d (toolCall # rest) toolResults w =
     (case callTool d (mcpToolCalls w) (toolName toolCall) (arguments toolCall) of
        Inl error \<Rightarrow> (Inl error, w\<lparr>mcpToolCalls := mcpToolCalls w + 1\<rparr>)
      | Inr result \<Rightarrow>
          callTools d rest (toolResults @ [''Tool '' @ toolName toolCall @ '': '' @ result])
            (w\<lparr>mcpToolCalls := mcpToolCalls w + 1\<rparr>))"

definition interpretationPrompt :: "string \<Rightarrow> string \<Rightarrow> string" where
  \<open>interpretationPrompt originalMessage context =
     trim (NL @ ''User asked: "'' @ originalMessage @ ''"'' @ NL
        @ NL @ ''I called the following tools and got these results:'' @ NL
        @ context @ NL
        @ NL @ ''Please provide a helpful response based on these results.'' @ NL
        @ ''      '')\<close>

text \<open>The \<^verbatim>\<open>try\<close> block of \<^verbatim>\<open>executeToolCallsAndRespond\<close>.\<close>

definition executeToolCallsAndRespond_try ::
  "'j deps \<Rightarrow> 'j ToolCall list \<Rightarrow> string \<Rightarrow> Message list \<Rightarrow> world
     \<Rightarrow> (thrown + GeminiResponse) \<times> world"
where
  "executeToolCallsAndRespond_try d toolCalls originalMessage chatHistory w =
     (case callTools d toolCalls [] w of
        (Inl error, w1) \<Rightarrow> (Inl error, w1)
      | (Inr toolResults, w1) \<Rightarrow>
          let context = join (NL @ NL) toolResults;
              prompt = interpretationPrompt originalMessage context
          in gemini_sendMessageWithFallback d (chatHistory @ [promptMessage prompt]) w1)"

definition correctionPrompt :: "string \<Rightarrow> string \<Rightarrow> string \<Rightarrow> string \<Rightarrow> string \<Rightarrow> string" where
  \<open>correctionPrompt mcpContext originalMessage name args errorMessage =
     trim (NL @ mcpContext @ NL
        @ NL @ ''The user asked: "'' @ originalMessage @ ''"'' @ NL
        @ NL @ ''I tried to call the tool "'' @ name @ ''" with these arguments:'' @ NL
        @ args @ NL
        @ NL @ ''But it failed with this error: "'' @ errorMessage @ ''"'' @ NL
        @ NL @ ''Please analyze this error and provide a CORRECTED tool call with fixed arguments.'' @ NL
        @ ''- Read the error message carefully to understand what's wrong'' @ NL
        @ ''- Check available operators, attributes, and formats from the MCP tools documentation above'' @ NL
        @ ''- Fix any invalid operators, attributes, or data formats'' @ NL
        @ ''- Provide the corrected arguments in the same TOOL_CALL format'' @ NL
        @ NL @ ''If you believe the error cannot be fixed with the available information, respond with ERROR_UNABLE_TO_FIX and explain why.'' @ NL
        @ NL @ ''CORRECTED TOOL_CALL format:'' @ NL
        @ ''TOOL_CALL:toolName:{"corrected":"arguments"}'' @ NL
        @ ''      '')\<close>

text \<open>
  The \<^verbatim>\<open>catch\<close> block of \<^verbatim>\<open>retryWithLLMCorrection\<close>: whatever was thrown in its \<^verbatim>\<open>try\<close>
  block, it logs it and throws its own error.
\<close>

definition correctionFailed :: "thrown \<Rightarrow> world \<Rightarrow> (thrown + GeminiResponse) \<times> world" where
  "correctionFailed correctionError w =
     (Inl (newError ''Error occurred during LLM error correction attempt''),
      w\<lparr>console := console w @ [ErrorDuringLLMCorrection correctionError]\<rparr>)"

text \<open>
  \<^verbatim>\<open>executeToolCallsAndRespond\<close> and \<^verbatim>\<open>retryWithLLMCorrection\<close>, which call each
  other.  The correction reads \<^verbatim>\<open>toolCalls[0]\<close> (a \<^verbatim>\<open>TypeError\<close> on an empty array) and
  \<^verbatim>\<open>error.message\<close>, asks the gateway for a corrected directive, and runs the execution
  again with the calls extracted from the answer and \<^verbatim>\<open>retryCount + 1\<close>; everything it
  does is inside its \<^verbatim>\<open>try\<close> block.
\<close>

function executeToolCallsAndRespond ::
  "'j deps \<Rightarrow> 'j ToolCall list \<Rightarrow> string \<Rightarrow> Message list \<Rightarrow> nat \<Rightarrow> world
     \<Rightarrow> (thrown + GeminiResponse) \<times> world"
  and retryWithLLMCorrection ::
  "'j deps \<Rightarrow> 'j ToolCall list \<Rightarrow> string \<Rightarrow> Message list \<Rightarrow> thrown \<Rightarrow> nat \<Rightarrow> world
     \<Rightarrow> (thrown + GeminiResponse) \<times> world"
where
  "executeToolCallsAndRespond d toolCalls originalMessage chatHistory retryCount w =
     (case executeToolCallsAndRespond_try d toolCalls originalMessage chatHistory w of
        (Inr response, w1) \<Rightarrow> (Inr response, w1)
      | (Inl error, w1) \<Rightarrow>
          let w2 = w1\<lparr>console := console w1 @
                     [ToolExecutionFailed (retryCount + 1) (MAX_RETRIES + 1) error]\<rparr>
          in if retryCount < MAX_RETRIES
             then retryWithLLMCorrection d toolCalls originalMessage chatHistory error retryCount w2
             else (Inl (newError ''MCP tool execution failed after maximum retry attempts''), w2))"
| "retryWithLLMCorrection d toolCalls originalMessage chatHistory error retryCount w =
     (let w0 = w\<lparr>console := console w @ [AttemptingAutoCorrection (retryCount + 1)]\<rparr>;
          w1 = w0\<lparr>mcpContextCalls := mcpContextCalls w0 + 1\<rparr>
      in case getMCPToolsContext d (mcpContextCalls w0) of
           Inl thrownValue \<Rightarrow> correctionFailed thrownValue w1
         | Inr mcpContext \<Rightarrow>
            (case toolCalls of
               [] \<Rightarrow> correctionFailed
                       (newTypeError ''Cannot read properties of undefined (reading 'toolName')'') w1
             | first # others \<Rightarrow>
                (case messageInTemplate error of
                   Inl thrownValue \<Rightarrow> correctionFailed thrownValue w1
                 | Inr errorMessage \<Rightarrow>
                    (case gemini_sendMessageWithFallback d
                            (chatHistory @
                               [promptMessage
                                  (correctionPrompt mcpContext originalMessage (toolName first)
                                     (JSON_stringify d (arguments first)) errorMessage)]) w1 of
                       (Inl thrownValue, w2) \<Rightarrow> correctionFailed thrownValue w2
                     | (Inr llmCorrection, w2) \<Rightarrow>
                         if includesStr (response_content llmCorrection) ''ERROR_UNABLE_TO_FIX''
                         then correctionFailed
                                (newError ''LLM was unable to correct the MCP tool call arguments'')
                                (w2\<lparr>console := console w2 @ [LLMUnableToFix]\<rparr>)
                         else
                           let correctedToolCalls =
                                 extractToolCalls (JSON_parse_of d) (response_content llmCorrection)
                           in if correctedToolCalls = []
                              then correctionFailed
                                     (newError ''LLM did not provide a corrected tool call'')
                                     (w2\<lparr>console := console w2 @ [NoCorrectedToolCall]\<rparr>)
                              else
                                (case executeToolCallsAndRespond d correctedToolCalls originalMessage
                                        chatHistory (retryCount + 1)
                                        (w2\<lparr>console := console w2 @ [CorrectedToolCallProvided]\<rparr>) of
                                   (Inr response, w3) \<Rightarrow> (Inr response, w3)
                                 | (Inl thrownValue, w3) \<Rightarrow> correctionFailed thrownValue w3)))))"
  by pat_completeness auto
termination
  by (relation "measure (\<lambda>x. case x of
        Inl (d, toolCalls, originalMessage, chatHistory, retryCount, w) \<Rightarrow>
          2 * (MAX_RETRIES - retryCount)
      | Inr (d, toolCalls, originalMessage, chatHistory, error, retryCount, w) \<Rightarrow>
          2 * (MAX_RETRIES - (retryCount + 1)) + 1)")
    (auto simp: MAX_RETRIES_def)

definition systemPrompt :: "string \<Rightarrow> string \<Rightarrow> string" where
  \<open>systemPrompt mcpContext message =
     trim (NL @ mcpContext @ NL
        @ NL @ ''When a user asks a question:'' @ NL
        @ ''1. If it can be answered using MCP tools, call the appropriate tool'' @ NL
        @ ''2. If it's a general question, answer directly'' @ NL
        @ ''3. Always be helpful and provide clear explanations'' @ NL
        @ NL @ ''User message: "'' @ message @ ''"'' @ NL
        @ NL @ ''Respond with either:'' @ NL
        @ ''- A direct answer if no MCP tools are needed'' @ NL
        @ ''- A tool call in the format: TOOL_CALL:toolName:{"param1":"value1","param2":"value2"}'' @ NL
        @ ''- If you need to call multiple tools, use multiple TOOL_CALL lines'' @ NL
        @ ''      '')\<close>

text \<open>The \<^verbatim>\<open>try\<close> block of \<^verbatim>\<open>processWithMCPIntegration\<close>.\<close>

definition processWithMCPIntegration_try ::
  "'j deps \<Rightarrow> string \<Rightarrow> Message list \<Rightarrow> world \<Rightarrow> (thrown + GeminiResponse) \<times> world"
where
  "processWithMCPIntegration_try d message chatHistory w =
     (let w1 = w\<lparr>mcpContextCalls := mcpContextCalls w + 1\<rparr>
      in case getMCPToolsContext d (mcpContextCalls w) of
           Inl error \<Rightarrow> (Inl error, w1)
         | Inr mcpContext \<Rightarrow>
            (case gemini_sendMessage d
                    (chatHistory @ [promptMessage (systemPrompt mcpContext message)]) w1 of
               (Inl error, w2) \<Rightarrow> (Inl error, w2)
             | (Inr llmResponse, w2) \<Rightarrow>
                 let toolCalls = extractToolCalls (JSON_parse_of d) (response_content llmResponse)
                 in if length toolCalls > 0
                    then executeToolCallsAndRespond d toolCalls message chatHistory 0 w2
                    else (Inr llmResponse, w2)))"

text \<open>
  \<^verbatim>\<open>processWithMCPIntegration\<close>: whatever its \<^verbatim>\<open>try\<close> block throws, the \<^verbatim>\<open>catch\<close> block
  logs it and returns what the plain completion on the chat history gives.
\<close>

definition processWithMCPIntegration ::
  "'j deps \<Rightarrow> string \<Rightarrow> Message list \<Rightarrow> world \<Rightarrow> (thrown + GeminiResponse) \<times> world"
where
  "processWithMCPIntegration d message chatHistory w =
     (case processWithMCPIntegration_try d message chatHistory w of
        (Inr response, w1) \<Rightarrow> (Inr response, w1)
      | (Inl error, w1) \<Rightarrow>
          gemini_sendMessageWithFallback d chatHistory
            (w1\<lparr>console := console w1 @ [MCPIntegrationFailed error]\<rparr>))"

text \<open>
  \<^verbatim>\<open>createMCPContextService(oauthToken)\<close> returns a service unless tool augmentation is
  off, or OAuth is on and the request carries no token (an empty token is falsy).
\<close>

definition createMCPContextService :: "'j deps \<Rightarrow> string option \<Rightarrow> world \<Rightarrow> bool \<times> world" where
  "createMCPContextService d oauthToken w =
     (if \<not> mcpEnabled d then (False, w)
      else if isOAuthEnabled d \<and> (oauthToken = None \<or> oauthToken = Some [])
      then (False, w\<lparr>console := console w @ [MCPDisabledNoToken]\<rparr>)
      else (True, w))"

definition getAIMessageResponse ::
  "'j deps \<Rightarrow> string \<Rightarrow> Message list \<Rightarrow> string option \<Rightarrow> world
     \<Rightarrow> (thrown + GeminiResponse) \<times> world"
where
  "getAIMessageResponse d content chatHistory oauthToken w =
     (if mcpEnabled d then
        (case createMCPContextService d oauthToken w of
           (True, w1) \<Rightarrow> processWithMCPIntegration d content chatHistory w1
         | (False, w1) \<Rightarrow> gemini_sendMessageWithFallback d chatHistory w1)
      else gemini_sendMessageWithFallback d chatHistory w)"

text \<open>
  How many corrections a console shows (\<^verbatim>\<open>retryWithLLMCorrection\<close> logs its attempt first
  thing) and how many failed executions (the \<^verbatim>\<open>catch\<close> block of
  \<^verbatim>\<open>executeToolCallsAndRespond\<close> logs each).
\<close>

fun isCorrectionAttempt :: "logEvent \<Rightarrow> bool" where
  "isCorrectionAttempt (AttemptingAutoCorrection n) = True"
| "isCorrectionAttempt _ = False"

fun isFailedExecution :: "logEvent \<Rightarrow> bool" where
  "isFailedExecution (ToolExecutionFailed n m error) = True"
| "isFailedExecution _ = False"

definition correctionAttempts :: "logEvent list \<Rightarrow> nat" where
  "correctionAttempts events = length (filter isCorrectionAttempt events)"

definition failedExecutions :: "logEvent list \<Rightarrow> nat" where
  "failedExecutions events = length (filter isFailedExecution events)"

section \<open>Stream orchestrator (ChatController): responses and requests\<close>

text \<open>
  What a REST handler answers: the call it makes on \<^verbatim>\<open>ResponseHelper\<close>, with its
  arguments.  \<open>Success data status\<close> is \<^verbatim>\<open>success(res, data, status)\<close> (200 by default),
  \<open>BadRequest message code\<close> is \<^verbatim>\<open>badRequest(res, message, code)\<close>,
  \<open>ServiceUnavailable message errorType retryAfter chatId\<close> is
  \<^verbatim>\<open>serviceUnavailable(res, message, errorType, retryAfter, chatId)\<close>, with \<open>None\<close> for an
  argument that is \<^verbatim>\<open>undefined\<close>.
\<close>

datatype 'a response =
    Success 'a nat
  | BadRequest string "string option"
  | NotFound string
  | ServiceUnavailable string string "nat option" "string option"
  | InternalError string

text \<open>
  Modelled from the spec: \<^verbatim>\<open>ResponseHelper\<close> (\<^verbatim>\<open>utils/responseHelpers.ts\<close>) is not among
  the repository's files.  The standard error envelope is
  \<^verbatim>\<open>{success: false, error, message, errorType?, retryAfter?, chatId?}\<close>; the \<^verbatim>\<open>chatId\<close> of
  the envelope is the chat id handed to \<^verbatim>\<open>serviceUnavailable\<close>, and the other helpers
  send none.
\<close>

fun envelopeChatId :: "'a response \<Rightarrow> string option" where
  "envelopeChatId (ServiceUnavailable message errorType retryAfter chatId) = chatId"
| "envelopeChatId _ = None"

text \<open>
  A send-message request as a handler reads it: \<^verbatim>\<open>req.params.chatId\<close>, the body's
  \<^verbatim>\<open>content\<close> (a missing one is falsy, as the empty string is), \<^verbatim>\<open>role\<close> and \<^verbatim>\<open>model\<close>,
  and \<^verbatim>\<open>req.user\<close> (set by the authentication gate; the anonymous handlers do not read
  it).
\<close>

record CreateMessageRequest =
  params_chatId :: string
  body_content :: string
  body_role :: "MessageRole option"
  body_model :: "string option"
  user_userId :: string
  user_oauthToken :: "string option"

text \<open>The calls on \<^verbatim>\<open>databaseService\<close>: each is recorded, and its outcome is the oracle's.\<close>

definition databaseService_createChat ::
  "'j deps \<Rightarrow> string \<Rightarrow> string \<Rightarrow> world \<Rightarrow> (thrown + Chat) \<times> world" where
  "databaseService_createChat d userId title w =
     (db_createChat d (length (dbCalls w)) userId title,
      w\<lparr>dbCalls := dbCalls w @ [CreateChat userId title]\<rparr>)"

definition databaseService_getChat ::
  "'j deps \<Rightarrow> string \<Rightarrow> string option \<Rightarrow> world \<Rightarrow> (thrown + Chat option) \<times> world" where
  "databaseService_getChat d chatId userId w =
     (db_getChat d (length (dbCalls w)) chatId userId,
      w\<lparr>dbCalls := dbCalls w @ [GetChat chatId userId]\<rparr>)"

definition databaseService_getMessages ::
  "'j deps \<Rightarrow> string \<Rightarrow> world \<Rightarrow> (thrown + Message list) \<times> world" where
  "databaseService_getMessages d chatId w =
     (db_getMessages d (length (dbCalls w)) chatId,
      w\<lparr>dbCalls := dbCalls w @ [GetMessages chatId]\<rparr>)"

definition databaseService_addMessage ::
  "'j deps \<Rightarrow> string \<Rightarrow> MessageRole \<Rightarrow> string \<Rightarrow> string option \<Rightarrow> world
     \<Rightarrow> (thrown + Message) \<times> world" where
  "databaseService_addMessage d chatId role content metadata w =
     (db_addMessage d (length (dbCalls w)) chatId role content metadata,
      w\<lparr>dbCalls := dbCalls w @ [AddMessage chatId role content metadata]\<rparr>)"

text \<open>\<^verbatim>\<open>new Date()\<close> and a fresh message id.\<close>

definition newDate :: "'j deps \<Rightarrow> world \<Rightarrow> int \<times> world" where
  "newDate d w = (dateNow d (clockReads w), w\<lparr>clockReads := clockReads w + 1\<rparr>)"

definition generateMessageId :: "'j deps \<Rightarrow> world \<Rightarrow> string \<times> world" where
  "generateMessageId d w = (newMessageId d (idsGenerated w), w\<lparr>idsGenerated := idsGenerated w + 1\<rparr>)"

text \<open>
  \<^verbatim>\<open>if (model) { this.handleModelSwitch(model) }\<close>: a missing or empty model name
  switches nothing.
\<close>

definition handleModelSwitch :: "'j deps \<Rightarrow> string option \<Rightarrow> world \<Rightarrow> (thrown + unit) \<times> world" where
  "handleModelSwitch d modelName w =
     (case modelName of
        None \<Rightarrow> (Inr (), w)
      | Some name \<Rightarrow>
          if name = [] then (Inr (), w)
          else
            (case switchModel (geminiEnv d) name (fst (geminiState w)) of
               (r, this') \<Rightarrow> (r, w\<lparr>geminiState := (this', snd (geminiState w))\<rparr>)))"

definition handleLLMError ::
  "thrown \<Rightarrow> string option \<Rightarrow> bool \<Rightarrow> world \<Rightarrow> 'a response \<times> world" where
  "handleLLMError error chatId isInitialMessage w =
     (let message =
            (if isInitialMessage
             then ''The AI service is temporarily unavailable. The chat was created but the AI could not respond.''
             else ''The AI service is temporarily unavailable. Please try again in a few moments.'');
          retryAfter = (if isInitialMessage then None else Some 60)
      in (ServiceUnavailable message ''LLM_UNAVAILABLE'' retryAfter chatId,
          w\<lparr>console := console w @ [ErrorGettingAIResponse error]\<rparr>))"

text \<open>\<^verbatim>\<open>error instanceof Error && error.message.includes('Model')\<close>.\<close>

fun isModelError :: "thrown \<Rightarrow> bool" where
  "isModelError (ErrorInstance msg str) = includesStr msg ''Model''"
| "isModelError _ = False"

text \<open>
  The outer \<^verbatim>\<open>catch\<close> block of the REST handlers; \<open>failure\<close> is the handler's own text
  for the internal error.
\<close>

definition restCatch :: "string \<Rightarrow> thrown \<Rightarrow> world \<Rightarrow> 'a response \<times> world" where
  "restCatch failure error w =
     (let w1 = w\<lparr>console := console w @ [ErrorInHandler error]\<rparr>
      in if isModelError error
         then (BadRequest (instanceofErrorMessage error) (Some ''INVALID_MODEL''), w1)
         else (InternalError failure, w1))"

section \<open>Stream orchestrator: the REST handlers\<close>

text \<open>
  The inner \<^verbatim>\<open>try\<close> block of \<^verbatim>\<open>sendMessage\<close>: the history is read, the AI response is
  obtained (through the tool loop when it is available) and stored as the assistant's
  message.
\<close>

definition controller_sendMessage_try ::
  "'j deps \<Rightarrow> string \<Rightarrow> string \<Rightarrow> string option \<Rightarrow> world \<Rightarrow> (thrown + Message) \<times> world" where
  "controller_sendMessage_try d chatId content oauthToken w =
     (case databaseService_getMessages d chatId w of
        (Inl error, w1) \<Rightarrow> (Inl error, w1)
      | (Inr chatHistory, w1) \<Rightarrow>
         (case getAIMessageResponse d content chatHistory oauthToken w1 of
            (Inl error, w2) \<Rightarrow> (Inl error, w2)
          | (Inr aiResponse, w2) \<Rightarrow>
              databaseService_addMessage d chatId ASSISTANT (response_content aiResponse) None w2))"

definition controller_sendMessage ::
  "'j deps \<Rightarrow> CreateMessageRequest \<Rightarrow> world \<Rightarrow> Message response \<times> world" where
  "controller_sendMessage d req w =
     (let chatId = params_chatId req;
          content = body_content req;
          role = (case body_role req of None \<Rightarrow> USER | Some r \<Rightarrow> r)
      in if content = [] \<or> trim content = []
         then (BadRequest ''Message content is required'' None, w)
         else
           (case databaseService_getChat d chatId (Some (user_userId req)) w of
              (Inl error, w1) \<Rightarrow> restCatch ''Failed to send message'' error w1
            | (Inr None, w1) \<Rightarrow> (NotFound ''Chat not found'', w1)
            | (Inr (Some chat), w1) \<Rightarrow>
               (case handleModelSwitch d (body_model req) w1 of
                  (Inl error, w2) \<Rightarrow> restCatch ''Failed to send message'' error w2
                | (Inr u, w2) \<Rightarrow>
                   (case databaseService_addMessage d chatId role (trim content) None w2 of
                      (Inl error, w3) \<Rightarrow> restCatch ''Failed to send message'' error w3
                    | (Inr userMessage, w3) \<Rightarrow>
                       (case controller_sendMessage_try d chatId content (user_oauthToken req) w3 of
                          (Inl error, w4) \<Rightarrow> handleLLMError error None False w4
                        | (Inr assistantMessage, w4) \<Rightarrow> (Success assistantMessage 200, w4))))))"

text \<open>
  The anonymous chat that \<^verbatim>\<open>anonymousChats.get(chatId)\<close> returns is the object the map
  holds: what the handler does to it (\<^verbatim>\<open>messages.push\<close>, \<^verbatim>\<open>messages.pop\<close>,
  \<^verbatim>\<open>updatedAt = ...\<close>) is done to the registry's entry.
\<close>

definition updateEntry :: "string \<Rightarrow> (AnonymousChat \<Rightarrow> AnonymousChat) \<Rightarrow> world \<Rightarrow> world" where
  "updateEntry chatId f w = w\<lparr>anonymousChats := AList.map_entry chatId f (anonymousChats w)\<rparr>"

definition pushMessage :: "Message \<Rightarrow> int \<Rightarrow> AnonymousChat \<Rightarrow> AnonymousChat" where
  "pushMessage message now chat =
     chat\<lparr>chat_messages := chat_messages chat @ [message], chat_updatedAt := now\<rparr>"

definition popMessage :: "int \<Rightarrow> AnonymousChat \<Rightarrow> AnonymousChat" where
  "popMessage now chat =
     chat\<lparr>chat_messages := butlast (chat_messages chat), chat_updatedAt := now\<rparr>"

text \<open>
  The user message of an anonymous request: a fresh id, the trimmed content, the time
  of its creation; then it is pushed and \<^verbatim>\<open>updatedAt\<close> is set.
\<close>

definition appendUserMessage ::
  "'j deps \<Rightarrow> string \<Rightarrow> MessageRole \<Rightarrow> string \<Rightarrow> world \<Rightarrow> world" where
  "appendUserMessage d chatId role content w =
     (case generateMessageId d w of (messageId, w1) \<Rightarrow>
      (case newDate d w1 of (createdAt, w2) \<Rightarrow>
       (case newDate d w2 of (updatedAt, w3) \<Rightarrow>
          updateEntry chatId
            (pushMessage \<lparr>message_id = messageId, message_chatId = chatId, message_role = role,
                          message_content = trim content, message_metadata = None,
                          message_createdAt = createdAt\<rparr> updatedAt) w3)))"

definition appendAssistantMessage ::
  "'j deps \<Rightarrow> string \<Rightarrow> string \<Rightarrow> world \<Rightarrow> Message \<times> world" where
  "appendAssistantMessage d chatId content w =
     (case generateMessageId d w of (messageId, w1) \<Rightarrow>
      (case newDate d w1 of (createdAt, w2) \<Rightarrow>
       (case newDate d w2 of (updatedAt, w3) \<Rightarrow>
          let assistantMessage =
                \<lparr>message_id = messageId, message_chatId = chatId, message_role = ASSISTANT,
                 message_content = content, message_metadata = None,
                 message_createdAt = createdAt\<rparr>
          in (assistantMessage, updateEntry chatId (pushMessage assistantMessage updatedAt) w3))))"

text \<open>The \<^verbatim>\<open>catch\<close> block's \<^verbatim>\<open>anonymousChat.messages.pop()\<close> and \<^verbatim>\<open>updatedAt = new Date()\<close>.\<close>

definition removeLastMessage :: "'j deps \<Rightarrow> string \<Rightarrow> world \<Rightarrow> world" where
  "removeLastMessage d chatId w =
     (case newDate d w of (updatedAt, w1) \<Rightarrow> updateEntry chatId (popMessage updatedAt) w1)"

text \<open>The messages of the registry's entry, which the gateway is handed.\<close>

definition entryMessages :: "string \<Rightarrow> world \<Rightarrow> Message list" where
  "entryMessages chatId w =
     (case map_of (anonymousChats w) chatId of None \<Rightarrow> [] | Some chat \<Rightarrow> chat_messages chat)"

definition controller_sendAnonymousMessage ::
  "'j deps \<Rightarrow> CreateMessageRequest \<Rightarrow> world \<Rightarrow> Message response \<times> world" where
  "controller_sendAnonymousMessage d req w =
     (let chatId = params_chatId req;
          content = body_content req;
          role = (case body_role req of None \<Rightarrow> USER | Some r \<Rightarrow> r)
      in if content = [] \<or> trim content = []
         then (BadRequest ''Message content is required'' None, w)
         else
           (case map_of (anonymousChats w) chatId of
              None \<Rightarrow> (NotFound ''Anonymous chat not found'', w)
            | Some anonymousChat \<Rightarrow>
               (case handleModelSwitch d (body_model req) w of
                  (Inl error, w1) \<Rightarrow> restCatch ''Failed to send anonymous message'' error w1
                | (Inr u, w1) \<Rightarrow>
                   let w2 = appendUserMessage d chatId role content w1
                   in (case gemini_sendMessageWithFallback d (entryMessages chatId w2) w2 of
                         (Inl error, w3) \<Rightarrow>
                           handleLLMError error None False (removeLastMessage d chatId w3)
                       | (Inr aiResponse, w3) \<Rightarrow>
                           (case appendAssistantMessage d chatId (response_content aiResponse) w3 of
                              (assistantMessage, w4) \<Rightarrow> (Success assistantMessage 200, w4))))))"

section \<open>Stream orchestrator: the streaming handlers\<close>

text \<open>
  An event of the channel is the object that \<^verbatim>\<open>JSON.stringify\<close> serialises into the line
  \<^verbatim>\<open>data: <JSON>\<close>: its fields in order, a field's value being a string or a message.
  The channel is the response: the headers set, the events written, and whether
  \<^verbatim>\<open>res.end()\<close> was called.
\<close>

datatype sseValue = SseString string | SseMessage Message

type_synonym sseEvent = "(string \<times> sseValue) list"

record channel =
  headers :: "(string \<times> string) list"
  written :: "sseEvent list"
  ended :: bool

definition chunkEvent :: "string \<Rightarrow> sseEvent" where
  "chunkEvent chunk = [(''type'', SseString ''chunk''), (''content'', SseString chunk)]"

definition doneEvent :: "Message \<Rightarrow> sseEvent" where
  "doneEvent message = [(''type'', SseString ''done''), (''message'', SseMessage message)]"

definition errorEvent :: "string \<Rightarrow> sseEvent" where
  "errorEvent error = [(''type'', SseString ''error''), (''error'', SseString error)]"

definition isDoneEvent :: "sseEvent \<Rightarrow> bool" where
  "isDoneEvent event = (map_of event ''type'' = Some (SseString ''done''))"

definition isErrorEvent :: "sseEvent \<Rightarrow> bool" where
  "isErrorEvent event = (map_of event ''type'' = Some (SseString ''error''))"

text \<open>The channel after the handler has set the SSE headers and flushed them.\<close>

definition openChannel :: channel where
  "openChannel =
     \<lparr>headers = [(''Content-Type'', ''text/event-stream''), (''Cache-Control'', ''no-cache''),
                 (''Connection'', ''keep-alive''), (''X-Accel-Buffering'', ''no'')],
      written = [], ended = False\<rparr>"

definition writeEvent :: "sseEvent \<Rightarrow> channel \<Rightarrow> channel" where
  "writeEvent event res = res\<lparr>written := written res @ [event]\<rparr>"

definition endChannel :: "channel \<Rightarrow> channel" where
  "endChannel res = res\<lparr>ended := True\<rparr>"

text \<open>\<^verbatim>\<open>geminiService.sendMessageStream(messages)\<close> run to its end from the controller.\<close>

definition gemini_sendMessageStream ::
  "'j deps \<Rightarrow> Message list \<Rightarrow> world \<Rightarrow> (string list \<times> thrown option) \<times> world" where
  "gemini_sendMessageStream d messages w =
     (case sendMessageStream (geminiEnv d) messages (geminiState w) of
        (r, g) \<Rightarrow> (r, w\<lparr>geminiState := g\<rparr>))"

text \<open>
  The \<^verbatim>\<open>for await\<close> loop: every fragment is added to \<^verbatim>\<open>fullContent\<close> and written as a
  chunk event, as it arrives.
\<close>

definition forwardChunks :: "string list \<Rightarrow> channel \<Rightarrow> string \<times> channel" where
  "forwardChunks chunks res =
     (concat chunks, res\<lparr>written := written res @ map chunkEvent chunks\<rparr>)"

definition unavailable :: string where
  "unavailable = ''The AI service is temporarily unavailable. Please try again in a few moments.''"

text \<open>The outer \<^verbatim>\<open>catch\<close> block of the streaming handlers.\<close>

definition streamCatch :: "string \<Rightarrow> thrown \<Rightarrow> channel \<Rightarrow> world \<Rightarrow> channel \<times> world" where
  "streamCatch failure error res w =
     (let w1 = w\<lparr>console := console w @ [ErrorInHandler error]\<rparr>
      in if isModelError error
         then (endChannel (writeEvent (errorEvent (instanceofErrorMessage error)) res), w1)
         else (endChannel (writeEvent (errorEvent failure) res), w1))"

definition controller_sendMessageStream ::
  "'j deps \<Rightarrow> CreateMessageRequest \<Rightarrow> world \<Rightarrow> channel \<times> world" where
  "controller_sendMessageStream d req w =
     (let chatId = params_chatId req;
          content = body_content req;
          role = (case body_role req of None \<Rightarrow> USER | Some r \<Rightarrow> r);
          res = openChannel
      in if content = [] \<or> trim content = []
         then (endChannel (writeEvent (errorEvent ''Message content is required'') res), w)
         else
           (case databaseService_getChat d chatId (Some (user_userId req)) w of
              (Inl error, w1) \<Rightarrow> streamCatch ''Failed to send message'' error res w1
            | (Inr None, w1) \<Rightarrow> (endChannel (writeEvent (errorEvent ''Chat not found'') res), w1)
            | (Inr (Some chat), w1) \<Rightarrow>
               (case handleModelSwitch d (body_model req) w1 of
                  (Inl error, w2) \<Rightarrow> streamCatch ''Failed to send message'' error res w2
                | (Inr u, w2) \<Rightarrow>
                   (case databaseService_addMessage d chatId role (trim content) None w2 of
                      (Inl error, w3) \<Rightarrow> streamCatch ''Failed to send message'' error res w3
                    | (Inr userMessage, w3) \<Rightarrow>
                       (case databaseService_getMessages d chatId w3 of
                          (Inl error, w4) \<Rightarrow> streamCatch ''Failed to send message'' error res w4
                        | (Inr chatHistory, w4) \<Rightarrow>
                           (case gemini_sendMessageStream d chatHistory w4 of
                              ((chunks, failure), w5) \<Rightarrow>
                                (case forwardChunks chunks res of
                                   (fullContent, res1) \<Rightarrow>
                                     (case failure of
                                        Some error \<Rightarrow>
                                          (endChannel (writeEvent (errorEvent unavailable) res1),
                                           w5\<lparr>console := console w5 @ [ErrorStreamingAIResponse error]\<rparr>)
                                      | None \<Rightarrow>
                                          (case databaseService_addMessage d chatId ASSISTANT
                                                  fullContent None w5 of
                                             (Inl error, w6) \<Rightarrow>
                                               (endChannel (writeEvent (errorEvent unavailable) res1),
                                                w6\<lparr>console := console w6 @ [ErrorStreamingAIResponse error]\<rparr>)
                                           | (Inr assistantMessage, w6) \<Rightarrow>
                                               (endChannel (writeEvent (doneEvent assistantMessage) res1),
                                                w6))))))))))"

definition controller_sendAnonymousMessageStream ::
  "'j deps \<Rightarrow> CreateMessageRequest \<Rightarrow> world \<Rightarrow> channel \<times> world" where
  "controller_sendAnonymousMessageStream d req w =
     (let chatId = params_chatId req;
          content = body_content req;
          role = (case body_role req of None \<Rightarrow> USER | Some r \<Rightarrow> r);
          res = openChannel
      in if content = [] \<or> trim content = []
         then (endChannel (writeEvent (errorEvent ''Message content is required'') res), w)
         else
           (case map_of (anonymousChats w) chatId of
              None \<Rightarrow> (endChannel (writeEvent (errorEvent ''Anonymous chat not found'') res), w)
            | Some anonymousChat \<Rightarrow>
               (case handleModelSwitch d (body_model req) w of
                  (Inl error, w1) \<Rightarrow> streamCatch ''Failed to send anonymous message'' error res w1
                | (Inr u, w1) \<Rightarrow>
                   let w2 = appendUserMessage d chatId role content w1
                   in (case gemini_sendMessageStream d (entryMessages chatId w2) w2 of
                         ((chunks, failure), w3) \<Rightarrow>
                           (case forwardChunks chunks res of
                              (fullContent, res1) \<Rightarrow>
                                (case failure of
                                   Some error \<Rightarrow>
                                     (endChannel (writeEvent (errorEvent unavailable) res1),
                                      removeLastMessage d chatId
                                        (w3\<lparr>console := console w3 @ [ErrorStreamingAIResponse error]\<rparr>))
                                 | None \<Rightarrow>
                                     (case appendAssistantMessage d chatId fullContent w3 of
                                        (assistantMessage, w4) \<Rightarrow>
                                          (endChannel (writeEvent (doneEvent assistantMessage) res1),
                                           w4))))))))"

section \<open>Stream orchestrator: migrating anonymous chats\<close>

text \<open>
  The inner \<^verbatim>\<open>for\<close> loop of a migration: the messages of the anonymous chat are added to
  the new chat one by one; the first \<^verbatim>\<open>addMessage\<close> that throws ends it.
\<close>

fun addMessages :: "'j deps \<Rightarrow> string \<Rightarrow> Message list \<Rightarrow> world \<Rightarrow> (thrown + unit) \<times> world" where
  "addMessages d chatId [] w = (Inr (), w)"
| "addMessages d chatId (message # rest) w =
     (case databaseService_addMessage d chatId (message_role message) (message_content message)
             (message_metadata message) w of
        (Inl error, w1) \<Rightarrow> (Inl error, w1)
      | (Inr added, w1) \<Rightarrow> addMessages d chatId rest w1)"

text \<open>
  The \<^verbatim>\<open>try\<close> block for one anonymous chat: the chat pushed to \<^verbatim>\<open>migratedChats\<close> if
  \<^verbatim>\<open>getChat\<close> returned one, or the value thrown.  The anonymous chat leaves the registry
  after \<^verbatim>\<open>getChat\<close> returned, whether it returned a chat or \<^verbatim>\<open>null\<close>.
\<close>

definition migrateChat_try ::
  "'j deps \<Rightarrow> string \<Rightarrow> AnonymousChat \<Rightarrow> world \<Rightarrow> (thrown + Chat option) \<times> world" where
  "migrateChat_try d userId anonymousChat w =
     (case databaseService_createChat d userId (chat_title anonymousChat) w of
        (Inl error, w1) \<Rightarrow> (Inl error, w1)
      | (Inr chat, w1) \<Rightarrow>
         (case addMessages d (chat_id chat) (chat_messages anonymousChat) w1 of
            (Inl error, w2) \<Rightarrow> (Inl error, w2)
          | (Inr u, w2) \<Rightarrow>
             (case databaseService_getChat d (chat_id chat) (Some userId) w2 of
                (Inl error, w3) \<Rightarrow> (Inl error, w3)
              | (Inr updatedChat, w3) \<Rightarrow>
                  (Inr updatedChat,
                   if registry_has (anonymousChats w3) (chat_id anonymousChat)
                   then w3\<lparr>anonymousChats := AList.delete (chat_id anonymousChat) (anonymousChats w3)\<rparr>
                   else w3))))"

text \<open>
  The outer \<^verbatim>\<open>for\<close> loop: a chat whose \<^verbatim>\<open>try\<close> block throws is logged in the \<^verbatim>\<open>catch\<close>
  block and the loop goes on.
\<close>

fun migrateLoop ::
  "'j deps \<Rightarrow> string \<Rightarrow> AnonymousChat list \<Rightarrow> Chat list \<Rightarrow> world \<Rightarrow> Chat list \<times> world" where
  "migrateLoop d userId [] migratedChats w = (migratedChats, w)"
| "migrateLoop d userId (anonymousChat # rest) migratedChats w =
     (case migrateChat_try d userId anonymousChat w of
        (Inr (Some updatedChat), w1) \<Rightarrow> migrateLoop d userId rest (migratedChats @ [updatedChat]) w1
      | (Inr None, w1) \<Rightarrow> migrateLoop d userId rest migratedChats w1
      | (Inl error, w1) \<Rightarrow>
          migrateLoop d userId rest migratedChats
            (w1\<lparr>console := console w1 @ [ErrorMigratingChat (chat_id anonymousChat) error]\<rparr>))"

text \<open>
  \<^verbatim>\<open>migrateAnonymousChats\<close> on the body's \<^verbatim>\<open>chats\<close> for the user \<^verbatim>\<open>req.user.userId\<close>.  On
  a well-typed request nothing outside the inner \<^verbatim>\<open>try\<close> block throws.
\<close>

definition migrateAnonymousChats ::
  "'j deps \<Rightarrow> string \<Rightarrow> AnonymousChat list \<Rightarrow> world \<Rightarrow> Chat list response \<times> world" where
  "migrateAnonymousChats d userId chats w =
     (if chats = []
      then (BadRequest ''Chats array is required and must not be empty'' None, w)
      else
        (case migrateLoop d userId chats [] w of
           (migratedChats, w1) \<Rightarrow>
             if migratedChats = []
             then (InternalError ''Failed to migrate any chats'', w1)
             else (Success migratedChats 200, w1)))"

text \<open>
  The outcome of the \<^verbatim>\<open>try\<close> block for each chat of the list, in order, each in the
  state the loop has reached at its turn; and the chats among them that were pushed to
  \<^verbatim>\<open>migratedChats\<close>.
\<close>

fun migrationOutcomes ::
  "'j deps \<Rightarrow> string \<Rightarrow> AnonymousChat list \<Rightarrow> world \<Rightarrow> (thrown + Chat option) list" where
  "migrationOutcomes d userId [] w = []"
| "migrationOutcomes d userId (anonymousChat # rest) w =
     (case migrateChat_try d userId anonymousChat w of
        (Inr updatedChat, w1) \<Rightarrow> Inr updatedChat # migrationOutcomes d userId rest w1
      | (Inl error, w1) \<Rightarrow>
          Inl error # migrationOutcomes d userId rest
            (w1\<lparr>console := console w1 @ [ErrorMigratingChat (chat_id anonymousChat) error]\<rparr>))"

fun pushedChats :: "(thrown + Chat option) list \<Rightarrow> Chat list" where
  "pushedChats [] = []"
| "pushedChats (Inr (Some updatedChat) # outcomes) = updatedChat # pushedChats outcomes"
| "pushedChats (Inr None # outcomes) = pushedChats outcomes"
| "pushedChats (Inl error # outcomes) = pushedChats outcomes"

fun isCreateChat :: "dbCall \<Rightarrow> bool" where
  "isCreateChat (CreateChat userId title) = True"
| "isCreateChat _ = False"

section \<open>Notions used in the statements\<close>

text \<open>
  Two worlds with the same database calls and the same registry of anonymous chats:
  what the gateway and the tool provider leave alone.
\<close>

definition sameStore :: "world \<Rightarrow> world \<Rightarrow> bool" where
  "sameStore w w' = (dbCalls w' = dbCalls w \<and> anonymousChats w' = anonymousChats w)"

text \<open>
  What the inner \<^verbatim>\<open>catch\<close> block of a streaming handler leaves on the channel: the
  fragments that had arrived, then the one error event.
\<close>

definition failedStream :: "string list \<Rightarrow> channel" where
  "failedStream chunks =
     \<lparr>headers = headers openChannel,
      written = map chunkEvent chunks @ [errorEvent unavailable],
      ended = True\<rparr>"

section \<open>Concrete scenarios\<close>

text \<open>
  Fixtures at which the theorems below are instantiated: a service as the constructor
  leaves it when the environment sets neither retry variable, a history of one user
  message, and three environments whose upstream model fails twice with an overload
  error and then answers, fails with an error that is not transient, or is overloaded
  for good.
\<close>

definition freshService :: GeminiService where
  "freshService = \<lparr>genAI = None, model = None, retryAttempts = 3, retryDelay = 1000,
                    systemInstruction = ''You are a helpful AI assistant''\<rparr>"

definition noEffects :: effects where
  "noEffects = \<lparr>upstreamCalls = 0, randomDraws = 0, delays = []\<rparr>"

definition userAsks :: "Message list" where
  "userAsks = [\<lparr>message_id = ''msg_1'', message_chatId = ''chat_1'', message_role = USER,
                message_content = ''2+2?'', message_metadata = None,
                message_createdAt = 0\<rparr>]"

definition overloadedError :: thrown where
  "overloadedError = newError ''[503 Service Unavailable] The model is overloaded. Please try again later.''"

definition invalidKey :: thrown where
  "invalidKey = newError ''[400 Bad Request] API key not valid. Please pass a valid API key.''"

definition flakyEnv :: env where
  "flakyEnv = \<lparr>GEMINI_API_KEY = Some ''key'',
                upstream = (\<lambda>n m h c. if n < 2 then Inl overloadedError else Inr ''4''),
                upstreamStream = (\<lambda>n m h c. ([''4''], None)),
                random = (\<lambda>n. 1 / 2)\<rparr>"

definition fatalEnv :: env where
  "fatalEnv = \<lparr>GEMINI_API_KEY = Some ''key'',
                upstream = (\<lambda>n m h c. Inl invalidKey),
                upstreamStream = (\<lambda>n m h c. ([''4''], None)),
                random = (\<lambda>n. 1 / 2)\<rparr>"

definition downEnv :: env where
  "downEnv = \<lparr>GEMINI_API_KEY = Some ''key'',
               upstream = (\<lambda>n m h c. Inl overloadedError),
               upstreamStream = (\<lambda>n m h c. ([''4''], None)),
                random = (\<lambda>n. 1 / 2)\<rparr>"

definition readyService :: GeminiService where
  "readyService = freshService\<lparr>genAI := Some ''key'',
                                model := Some (getGenerativeModel ''gemini-2.5-flash'')\<rparr>"







text \<open>
  A deployment with tool augmentation on and OAuth off, whose tool provider rejects
  every call.  In the first, the model answers every request for a tool call or a
  correction with the same directive, and the fourth exchange (the plain completion)
  with \<^verbatim>\<open>4\<close>; in the second, the model answers the correction request with the give-up
  marker.
\<close>

definition searchDirective :: string where
  \<open>searchDirective = ''TOOL_CALL:search:{"q":"x"}''\<close>

definition stubbornDeps :: "json deps" where
  "stubbornDeps =
     \<lparr>geminiEnv = \<lparr>GEMINI_API_KEY = Some ''key'',
                    upstream = (\<lambda>n m h c. if n < 3 then Inr searchDirective else Inr ''4''),
                    upstreamStream = (\<lambda>n m h c. ([''4''], None)),
                    random = (\<lambda>n. 1 / 2)\<rparr>,
      mcpEnabled = True,
      isOAuthEnabled = False,
      JSON_parse_of = JSON_parse,
      JSON_stringify = (\<lambda>j. ''{}''),
      callTool = (\<lambda>n name args. Inl (newError ''Invalid operator'')),
      getMCPToolsContext = (\<lambda>n. Inr ''Available tools: search''),
      db_createChat = (\<lambda>n userId title. Inl (newError ''no database'')),
      db_getChat = (\<lambda>n chatId userId. Inl (newError ''no database'')),
      db_getMessages = (\<lambda>n chatId. Inl (newError ''no database'')),
      db_addMessage = (\<lambda>n chatId role content metadata. Inl (newError ''no database'')),
      dateNow = (\<lambda>n. 0),
      newMessageId = (\<lambda>n. ''msg_0_abc'')\<rparr>"

definition givingUpDeps :: "json deps" where
  "givingUpDeps =
     stubbornDeps\<lparr>geminiEnv :=
       \<lparr>GEMINI_API_KEY = Some ''key'',
        upstream = (\<lambda>n m h c. if n = 0 then Inr searchDirective
                               else if n = 1 then Inr ''ERROR_UNABLE_TO_FIX: no such operator''
                               else Inr ''4''),
        upstreamStream = (\<lambda>n m h c. ([''4''], None)),
        random = (\<lambda>n. 1 / 2)\<rparr>\<rparr>"

definition freshWorld :: world where
  "freshWorld =
     \<lparr>geminiState = (freshService, noEffects), anonymousChats = [], dbCalls = [],
      mcpToolCalls = 0, mcpContextCalls = 0, idsGenerated = 0, clockReads = 0, console = []\<rparr>"

text \<open>
  A migration of two anonymous chats, both in the registry, on a database that fails to
  create the first and stores the second.
\<close>

definition anonymousA :: AnonymousChat where
  "anonymousA = \<lparr>chat_id = ''anonymous_1_a'', chat_title = ''A'', chat_messages = userAsks,
                  chat_createdAt = 0, chat_updatedAt = 0\<rparr>"

definition anonymousB :: AnonymousChat where
  "anonymousB = \<lparr>chat_id = ''anonymous_2_b'', chat_title = ''B'', chat_messages = userAsks,
                  chat_createdAt = 0, chat_updatedAt = 0\<rparr>"

definition durableB :: Chat where
  "durableB = \<lparr>chat_id = ''chat_B'', chat_title = ''B'', chat_messages = userAsks,
                chat_createdAt = 5, chat_updatedAt = 5\<rparr>"

definition migrationDeps :: "json deps" where
  "migrationDeps =
     stubbornDeps
       \<lparr>db_createChat :=
          (\<lambda>n userId title.
             if title = ''A'' then Inl (newError ''connection lost'')
             else Inr \<lparr>chat_id = ''chat_'' @ title, chat_title = title, chat_messages = [],
                       chat_createdAt = 5, chat_updatedAt = 5\<rparr>),
        db_getChat := (\<lambda>n chatId userId. Inr (Some durableB)),
        db_addMessage :=
          (\<lambda>n chatId role content metadata.
             Inr \<lparr>message_id = ''m'', message_chatId = chatId, message_role = role,
                  message_content = content, message_metadata = metadata,
                  message_createdAt = 5\<rparr>)\<rparr>"

definition migrationWorld :: world where
  "migrationWorld =
     freshWorld\<lparr>anonymousChats := [(''anonymous_1_a'', anonymousA), (''anonymous_2_b'', anonymousB)]\<rparr>"

text \<open>
  A deployment without tool augmentation whose model is overloaded for good (and whose
  token stream breaks after one fragment), with a database that holds the chat
  \<^verbatim>\<open>chat_B\<close> and stores what it is given; a request on that chat, and a request on the
  anonymous chat \<^verbatim>\<open>anonymous_1_a\<close> of the registry.
\<close>

definition downDeps :: "json deps" where
  "downDeps =
     migrationDeps
       \<lparr>geminiEnv :=
          \<lparr>GEMINI_API_KEY = Some ''key'',
           upstream = (\<lambda>n m h c. Inl overloadedError),
           upstreamStream = (\<lambda>n m h c. ([''Hel''], Some overloadedError)),
           random = (\<lambda>n. 1 / 2)\<rparr>,
        mcpEnabled := False,
        db_getMessages := (\<lambda>n chatId. Inr userAsks)\<rparr>"

definition durableRequest :: CreateMessageRequest where
  "durableRequest =
     \<lparr>params_chatId = ''chat_B'', body_content = ''2+2?'', body_role = None, body_model = None,
      user_userId = ''user_1'', user_oauthToken = None\<rparr>"

definition anonymousRequest :: CreateMessageRequest where
  "anonymousRequest =
     \<lparr>params_chatId = ''anonymous_1_a'', body_content = ''and 3+3?'', body_role = None,
      body_model = None, user_userId = [], user_oauthToken = None\<rparr>"

text \<open>
  The worlds these requests reach before the generation starts: the durable one after
  \<^verbatim>\<open>getChat\<close> and the \<^verbatim>\<open>addMessage\<close> of the user message, the anonymous one after the user
  message was appended; and the error the gateway throws when the model stays
  overloaded.
\<close>

definition persistedWorld :: world where
  "persistedWorld =
     freshWorld\<lparr>dbCalls := [GetChat ''chat_B'' (Some ''user_1''),
                             AddMessage ''chat_B'' USER ''2+2?'' None]\<rparr>"

definition appendedWorld :: world where
  "appendedWorld = appendUserMessage downDeps ''anonymous_1_a'' USER ''and 3+3?'' migrationWorld"

definition gatewayDown :: thrown where
  "gatewayDown =
     newError (''Failed to get response from Gemini: ''
       @ ''[503 Service Unavailable] The model is overloaded. Please try again later.'')"

definition storedUserMessage :: Message where
  "storedUserMessage =
     \<lparr>message_id = ''m'', message_chatId = ''chat_B'', message_role = USER,
      message_content = ''2+2?'', message_metadata = None, message_createdAt = 5\<rparr>"

text \<open>The durable world once the history was read back for the stream.\<close>

definition streamWorld :: world where
  "streamWorld =
     freshWorld\<lparr>dbCalls := [GetChat ''chat_B'' (Some ''user_1''),
                             AddMessage ''chat_B'' USER ''2+2?'' None,
                             GetMessages ''chat_B'']\<rparr>"

section \<open>Lemmas about the sweep\<close>

lemma foldl_delete_map_of:
  "map_of (foldl (\<lambda>r chatId. AList.delete chatId r) reg ks) k =
     (if k \<in> set ks then None else map_of reg k)"
proof (induction ks arbitrary: reg)
  case Nil
  show ?case by simp
next
  case (Cons a ks)
  show ?case by (simp add: Cons.IH delete_conv')
qed

lemma foldl_delete_distinct:
  "distinct (map fst reg) \<Longrightarrow>
     distinct (map fst (foldl (\<lambda>r chatId. AList.delete chatId r) reg ks))"
  by (induction ks arbitrary: reg) (simp_all add: distinct_delete)

lemma chatsToDelete_iff:
  assumes "distinct (map fst reg)" and "map_of reg k = Some chat"
  shows "k \<in> set (chatsToDelete now reg) \<longleftrightarrow>
           now - chat_createdAt chat > ANONYMOUS_CHAT_TIMEOUT"
proof
  assume "k \<in> set (chatsToDelete now reg)"
  then obtain c where c: "(k, c) \<in> set reg" "now - chat_createdAt c > ANONYMOUS_CHAT_TIMEOUT"
    by (auto simp: chatsToDelete_def)
  from assms(1) c(1) have "map_of reg k = Some c" by simp
  with assms(2) c(2) show "now - chat_createdAt chat > ANONYMOUS_CHAT_TIMEOUT" by simp
next
  assume old: "now - chat_createdAt chat > ANONYMOUS_CHAT_TIMEOUT"
  from assms(2) have "(k, chat) \<in> set reg" by (rule map_of_SomeD)
  with old show "k \<in> set (chatsToDelete now reg)"
    by (force simp: chatsToDelete_def)
qed

lemma cleanup_lookup:
  assumes "distinct (map fst reg)" and "map_of reg k = Some chat"
  shows "map_of (startAnonymousChatCleanup now reg) k =
           (if now - chat_createdAt chat > ANONYMOUS_CHAT_TIMEOUT then None else Some chat)"
  using chatsToDelete_iff [OF assms, of now] assms(2)
  by (simp add: startAnonymousChatCleanup_def foldl_delete_map_of)

lemma cleanup_distinct:
  "distinct (map fst reg) \<Longrightarrow> distinct (map fst (startAnonymousChatCleanup now reg))"
  by (simp add: startAnonymousChatCleanup_def foldl_delete_distinct)

lemma cleanup_absent:
  "map_of reg k = None \<Longrightarrow> map_of (startAnonymousChatCleanup now reg) k = None"
  by (simp add: startAnonymousChatCleanup_def foldl_delete_map_of)

lemma cleanups_keep:
  assumes "distinct (map fst reg)" and "map_of reg k = Some chat"
    and "\<forall>t \<in> set ts. t - chat_createdAt chat \<le> ANONYMOUS_CHAT_TIMEOUT"
  shows "map_of (foldl (\<lambda>r t. startAnonymousChatCleanup t r) reg ts) k = Some chat"
  using assms
proof (induction ts arbitrary: reg)
  case Nil
  then show ?case by simp
next
  case (Cons t ts)
  have "map_of (startAnonymousChatCleanup t reg) k = Some chat"
    using cleanup_lookup [OF Cons.prems(1,2), of t] Cons.prems(3) by simp
  moreover have "distinct (map fst (startAnonymousChatCleanup t reg))"
    using Cons.prems(1) by (rule cleanup_distinct)
  ultimately show ?case
    using Cons.IH Cons.prems(3) by simp
qed

section \<open>Lemmas about the extraction of tool calls\<close>

declare regexExec.simps [simp del]
declare skipWhitespace.simps [simp del]
declare countBraces.simps [simp del]
declare extractLoop.simps [simp del]


subsection \<open>The loop against the directives of the specification\<close>







lemma directiveAt_outside: "length response \<le> i \<Longrightarrow> directiveAt response i = None"
  by (simp add: directiveAt_def Let_def)


























section \<open>Lemmas about the gateway\<close>

declare sendMessageWithRetry.simps [simp del]

lemma initialize_idem:
  assumes "initialize e this = Inr this0"
  shows "initialize e this0 = Inr this0" and "model this0 \<noteq> None" and "genAI this0 \<noteq> None"
    and "retryAttempts this0 = retryAttempts this" and "retryDelay this0 = retryDelay this"
  using assms by (auto simp: initialize_def split: if_splits option.splits)

lemma initialize_initialized:
  "genAI this \<noteq> None \<Longrightarrow> model this \<noteq> None \<Longrightarrow> initialize e this = Inr this"
  by (simp add: initialize_def)

text \<open>One attempt of a service that initialises, on a history that ends with the user.\<close>

lemma try_reaches_upstream:
  assumes "initialize e this = Inr this0"
    and "messages \<noteq> []" and "message_role (last messages) = USER"
  shows "sendMessageWithRetry_try e messages (this, fx) =
    (case upstream e (upstreamCalls fx) (the (model this0))
            (historyWithSystemInstruction this0 messages) (message_content (last messages)) of
       Inl err \<Rightarrow> (Inl err, this0, fx\<lparr>upstreamCalls := upstreamCalls fx + 1\<rparr>)
     | Inr text \<Rightarrow>
         (Inr \<lparr>response_content = text,
               response_usage = Some \<lparr>promptTokens = 0, responseTokens = 0, totalTokens = 0\<rparr>\<rparr>,
          this0, fx\<lparr>upstreamCalls := upstreamCalls fx + 1\<rparr>))"
  using assms initialize_idem(2) [OF assms(1)]
  by (auto simp: sendMessageWithRetry_try_def split: sum.splits option.splits)

lemma try_fails:
  assumes "initialize e this = Inr this0"
    and "messages \<noteq> []" and "message_role (last messages) = USER"
    and "\<forall>m h c. upstream e (upstreamCalls fx) m h c = Inl err"
  shows "sendMessageWithRetry_try e messages (this, fx) =
           (Inl err, this0, fx\<lparr>upstreamCalls := upstreamCalls fx + 1\<rparr>)"
  using try_reaches_upstream [OF assms(1-3), of fx] assms(4) by simp

lemma try_succeeds:
  assumes "initialize e this = Inr this0"
    and "messages \<noteq> []" and "message_role (last messages) = USER"
    and "\<forall>m h c. upstream e (upstreamCalls fx) m h c = Inr text"
  shows "sendMessageWithRetry_try e messages (this, fx) =
           (Inr \<lparr>response_content = text,
                 response_usage = Some \<lparr>promptTokens = 0, responseTokens = 0, totalTokens = 0\<rparr>\<rparr>,
            this0, fx\<lparr>upstreamCalls := upstreamCalls fx + 1\<rparr>)"
  using try_reaches_upstream [OF assms(1-3), of fx] assms(4) by simp

text \<open>The three ways one call of \<^verbatim>\<open>sendMessageWithRetry\<close> goes on.\<close>

lemma retry_step_success:
  assumes "initialize e this = Inr this0"
    and "messages \<noteq> []" and "message_role (last messages) = USER"
    and "\<forall>m h c. upstream e (upstreamCalls fx) m h c = Inr text"
  shows "sendMessageWithRetry e messages attempt (this, fx) =
           (Inr \<lparr>response_content = text,
                 response_usage = Some \<lparr>promptTokens = 0, responseTokens = 0, totalTokens = 0\<rparr>\<rparr>,
            this0, fx\<lparr>upstreamCalls := upstreamCalls fx + 1\<rparr>)"
  by (subst sendMessageWithRetry.simps) (simp add: try_succeeds [OF assms])

lemma retry_step_final:
  assumes "initialize e this = Inr this0"
    and "messages \<noteq> []" and "message_role (last messages) = USER"
    and "\<forall>m h c. upstream e (upstreamCalls fx) m h c = Inl err"
    and "\<not> (isRetryableError err \<and> int attempt < retryAttempts this)"
  shows "sendMessageWithRetry e messages attempt (this, fx) =
           (Inl (newError (''Failed to get response from Gemini: '' @ instanceofErrorMessage err)),
            this0, fx\<lparr>upstreamCalls := upstreamCalls fx + 1\<rparr>)"
  using assms(5) initialize_idem(4) [OF assms(1)]
  by (subst sendMessageWithRetry.simps) (auto simp add: try_fails [OF assms(1-4)])

lemma retry_step_again:
  assumes "initialize e this = Inr this0"
    and "messages \<noteq> []" and "message_role (last messages) = USER"
    and "\<forall>m h c. upstream e (upstreamCalls fx) m h c = Inl err"
    and "isRetryableError err" and "int attempt < retryAttempts this"
  shows "sendMessageWithRetry e messages attempt (this, fx) =
           sendMessageWithRetry e messages (attempt + 1)
             (this0, fx\<lparr>upstreamCalls := upstreamCalls fx + 1,
                        randomDraws := randomDraws fx + 1,
                        delays := delays fx @
                          [calculateRetryDelay this0 attempt (random e (randomDraws fx))]\<rparr>)"
  using assms(5,6) initialize_idem(4) [OF assms(1)]
  by (subst sendMessageWithRetry.simps) (simp add: try_fails [OF assms(1-4)] Let_def)

text \<open>
  A run in which every attempt fails with a retryable error: it makes one attempt for
  each number from \<open>a\<close> to the configured maximum, waits between them the delays
  \<^const>\<open>calculateRetryDelay\<close> gives, and throws the last error wrapped.
\<close>

lemma retry_exhausted:
  assumes msgs: "messages \<noteq> []" "message_role (last messages) = USER"
  shows "initialize e this = Inr this0 \<Longrightarrow> a + n = nat (retryAttempts this0) \<Longrightarrow>
    (\<forall>k \<le> n. (\<forall>m h c. upstream e (upstreamCalls fx + k) m h c = Inl (errs (a + k)))
               \<and> isRetryableError (errs (a + k))) \<Longrightarrow>
    sendMessageWithRetry e messages a (this, fx) =
      (Inl (newError (''Failed to get response from Gemini: '' @ instanceofErrorMessage (errs (a + n)))),
       this0,
       fx\<lparr>upstreamCalls := upstreamCalls fx + n + 1,
          randomDraws := randomDraws fx + n,
          delays := delays fx @
            map (\<lambda>k. calculateRetryDelay this0 (a + k) (random e (randomDraws fx + k))) [0..<n]\<rparr>)"
proof (induction n arbitrary: a fx this)
  case 0
  note init = \<open>initialize e this = Inr this0\<close>
  from 0 have "\<forall>m h c. upstream e (upstreamCalls fx) m h c = Inl (errs a)"
    and "\<not> int a < retryAttempts this"
    using initialize_idem(4) [OF init] by auto
  then show ?case
    using retry_step_final [OF init msgs, of fx "errs a" a] by simp
next
  case (Suc n)
  note init = \<open>initialize e this = Inr this0\<close>
  note init0 = initialize_idem(1) [OF init]
  let ?fx = "fx\<lparr>upstreamCalls := upstreamCalls fx + 1, randomDraws := randomDraws fx + 1,
      delays := delays fx @ [calculateRetryDelay this0 a (random e (randomDraws fx))]\<rparr>"
  from Suc.prems(3) have first: "\<forall>m h c. upstream e (upstreamCalls fx) m h c = Inl (errs a)"
    "isRetryableError (errs a)"
    by (metis add.right_neutral le0)+
  from Suc.prems(2) have lt: "int a < retryAttempts this"
    using initialize_idem(4) [OF init] by linarith
  have step: "sendMessageWithRetry e messages a (this, fx) =
      sendMessageWithRetry e messages (a + 1) (this0, ?fx)"
    using retry_step_again [OF init msgs first lt] .
  have sum: "(a + 1) + n = nat (retryAttempts this0)" using Suc.prems(2) by simp
  have rest: "\<forall>k \<le> n. (\<forall>m h c. upstream e (upstreamCalls ?fx + k) m h c = Inl (errs ((a + 1) + k)))
               \<and> isRetryableError (errs ((a + 1) + k))"
  proof (intro allI impI)
    fix k assume "k \<le> n"
    then have "Suc k \<le> Suc n" by simp
    with Suc.prems(3) have "(\<forall>m h c. upstream e (upstreamCalls fx + Suc k) m h c = Inl (errs (a + Suc k)))
               \<and> isRetryableError (errs (a + Suc k))" by blast
    then show "(\<forall>m h c. upstream e (upstreamCalls ?fx + k) m h c = Inl (errs ((a + 1) + k)))
               \<and> isRetryableError (errs ((a + 1) + k))" by simp
  qed
  have map_eq: "map (\<lambda>k. calculateRetryDelay this0 (a + k) (random e (randomDraws fx + k))) [0..<Suc n]
      = calculateRetryDelay this0 a (random e (randomDraws fx))
        # map (\<lambda>k. calculateRetryDelay this0 (a + 1 + k) (random e (randomDraws fx + 1 + k))) [0..<n]"
    by (simp add: upt_conv_Cons map_Suc_upt [symmetric] del: upt_Suc)
  show ?case
    unfolding step Suc.IH [OF init0 sum rest] map_eq by simp
qed

section \<open>Lemmas about the tool loop\<close>

declare executeToolCallsAndRespond.simps [simp del]
declare retryWithLLMCorrection.simps [simp del]

lemma gemini_sendMessageWithFallback_console [simp]:
  "console (snd (gemini_sendMessageWithFallback d messages w)) = console w"
  by (simp add: gemini_sendMessageWithFallback_def split: prod.splits)

lemma gemini_sendMessageWithFallback_consoleD:
  "gemini_sendMessageWithFallback d messages w = (r, w') \<Longrightarrow> console w' = console w"
  by (metis gemini_sendMessageWithFallback_console snd_conv)

lemma gemini_sendMessage_console [simp]:
  "console (snd (gemini_sendMessage d messages w)) = console w"
  by (simp add: gemini_sendMessage_def split: prod.splits)

lemma callTools_console [simp]:
  "console (snd (callTools d toolCalls toolResults w)) = console w"
  by (induction toolCalls arbitrary: toolResults w) (auto split: sum.splits)

lemma executeToolCallsAndRespond_try_console [simp]:
  "console (snd (executeToolCallsAndRespond_try d toolCalls originalMessage chatHistory w)) = console w"
proof -
  obtain r w1 where c: "callTools d toolCalls [] w = (r, w1)" by (cases "callTools d toolCalls [] w")
  then have "console w1 = console w"
    using callTools_console [of d toolCalls "[]" w] by simp
  with c show ?thesis
    by (cases r) (simp_all add: executeToolCallsAndRespond_try_def Let_def)
qed

lemma correctionAttempts_append [simp]:
  "correctionAttempts (xs @ ys) = correctionAttempts xs + correctionAttempts ys"
  by (simp add: correctionAttempts_def)

lemma failedExecutions_append [simp]:
  "failedExecutions (xs @ ys) = failedExecutions xs + failedExecutions ys"
  by (simp add: failedExecutions_def)

lemma correctionFailed_console [simp]:
  "console (snd (correctionFailed e w)) = console w @ [ErrorDuringLLMCorrection e]"
  by (simp add: correctionFailed_def)

lemma correctionFailed_fst [simp]:
  "fst (correctionFailed e w) = Inl (newError ''Error occurred during LLM error correction attempt'')"
  by (simp add: correctionFailed_def)


text \<open>
  The gateway and the tool provider leave the database calls and the registry alone.
\<close>

lemma sameStore_refl [simp]: "sameStore w w"
  by (simp add: sameStore_def)

lemma sameStore_trans: "sameStore w w1 \<Longrightarrow> sameStore w1 w2 \<Longrightarrow> sameStore w w2"
  by (simp add: sameStore_def)

lemma sameStore_console [simp]:
  "sameStore w (w'\<lparr>console := c\<rparr>) = sameStore w w'"
  "sameStore (w\<lparr>console := c\<rparr>) w' = sameStore w w'"
  by (simp_all add: sameStore_def)

lemma sameStore_mcpContextCalls [simp]:
  "sameStore w (w'\<lparr>mcpContextCalls := n\<rparr>) = sameStore w w'"
  "sameStore (w\<lparr>mcpContextCalls := n\<rparr>) w' = sameStore w w'"
  by (simp_all add: sameStore_def)

lemma sameStore_mcpToolCalls [simp]:
  "sameStore w (w'\<lparr>mcpToolCalls := n\<rparr>) = sameStore w w'"
  "sameStore (w\<lparr>mcpToolCalls := n\<rparr>) w' = sameStore w w'"
  by (simp_all add: sameStore_def)

lemma sameStore_geminiState [simp]:
  "sameStore w (w'\<lparr>geminiState := g\<rparr>) = sameStore w w'"
  "sameStore (w\<lparr>geminiState := g\<rparr>) w' = sameStore w w'"
  by (simp_all add: sameStore_def)

lemma gemini_sendMessageWithFallback_store:
  "gemini_sendMessageWithFallback d messages w = (r, w') \<Longrightarrow> sameStore w w'"
  by (auto simp: gemini_sendMessageWithFallback_def split: prod.splits)

lemma gemini_sendMessage_store:
  "gemini_sendMessage d messages w = (r, w') \<Longrightarrow> sameStore w w'"
  by (auto simp: gemini_sendMessage_def split: prod.splits)

lemma callTools_store:
  "callTools d toolCalls toolResults w = (r, w') \<Longrightarrow> sameStore w w'"
proof (induction toolCalls arbitrary: toolResults w)
  case Nil
  then show ?case by auto
next
  case (Cons toolCall rest)
  show ?case
  proof (cases "callTool d (mcpToolCalls w) (toolName toolCall) (arguments toolCall)")
    case (Inl error)
    with Cons.prems show ?thesis by auto
  next
    case (Inr result)
    with Cons.prems have "callTools d rest (toolResults @ [''Tool '' @ toolName toolCall @ '': '' @ result])
        (w\<lparr>mcpToolCalls := mcpToolCalls w + 1\<rparr>) = (r, w')"
      by simp
    from Cons.IH [OF this] show ?thesis by simp
  qed
qed

lemma executeToolCallsAndRespond_try_store:
  assumes "executeToolCallsAndRespond_try d toolCalls originalMessage chatHistory w = (r, w')"
  shows "sameStore w w'"
proof -
  obtain rc w1 where c: "callTools d toolCalls [] w = (rc, w1)" by (cases "callTools d toolCalls [] w")
  note s1 = callTools_store [OF c]
  show ?thesis
  proof (cases rc)
    case (Inl error)
    with assms c s1 show ?thesis by (simp add: executeToolCallsAndRespond_try_def)
  next
    case (Inr toolResults)
    with assms c have "gemini_sendMessageWithFallback d
        (chatHistory @ [promptMessage (interpretationPrompt originalMessage (join (NL @ NL) toolResults))])
        w1 = (r, w')"
      by (simp add: executeToolCallsAndRespond_try_def Let_def)
    from s1 gemini_sendMessageWithFallback_store [OF this] show ?thesis by (rule sameStore_trans)
  qed
qed

lemma correctionFailed_store [simp]:
  "sameStore w (snd (correctionFailed e w')) = sameStore w w'"
  by (simp add: correctionFailed_def)

text \<open>
  The bound of the correction cycle: an execution entered with \<^verbatim>\<open>retryCount\<close> is followed by
  at most \<^verbatim>\<open>MAX_RETRIES - retryCount\<close> corrections and fails at most once more than that.
  It makes no call on the database and leaves the registry as it is.
\<close>

lemma correction_cycle_bounded:
  "correctionAttempts (console (snd (executeToolCallsAndRespond d toolCalls originalMessage
       chatHistory retryCount w)))
     \<le> correctionAttempts (console w) + (MAX_RETRIES - retryCount)
   \<and> failedExecutions (console (snd (executeToolCallsAndRespond d toolCalls originalMessage
       chatHistory retryCount w)))
     \<le> failedExecutions (console w) + 1 + (MAX_RETRIES - retryCount)
   \<and> sameStore w (snd (executeToolCallsAndRespond d toolCalls originalMessage
       chatHistory retryCount w))"
  "correctionAttempts (console (snd (retryWithLLMCorrection d toolCalls originalMessage
       chatHistory error retryCount w)))
     \<le> correctionAttempts (console w) + 1 + (MAX_RETRIES - (retryCount + 1))
   \<and> failedExecutions (console (snd (retryWithLLMCorrection d toolCalls originalMessage
       chatHistory error retryCount w)))
     \<le> failedExecutions (console w) + 1 + (MAX_RETRIES - (retryCount + 1))
   \<and> sameStore w (snd (retryWithLLMCorrection d toolCalls originalMessage
       chatHistory error retryCount w))"
proof (induction d toolCalls originalMessage chatHistory retryCount w
    and d toolCalls originalMessage chatHistory error retryCount w
    rule: executeToolCallsAndRespond_retryWithLLMCorrection.induct)
  case (1 d toolCalls originalMessage chatHistory retryCount w)
  obtain r w1 where t: "executeToolCallsAndRespond_try d toolCalls originalMessage chatHistory w = (r, w1)"
    by (cases "executeToolCallsAndRespond_try d toolCalls originalMessage chatHistory w")
  have c: "console w1 = console w"
    using executeToolCallsAndRespond_try_console [of d toolCalls originalMessage chatHistory w] t
    by simp
  note st = executeToolCallsAndRespond_try_store [OF t]
  show ?case
  proof (cases r)
    case (Inr response)
    with t c st show ?thesis
      by (subst (1 2 3) executeToolCallsAndRespond.simps) simp
  next
    case (Inl a)
    let ?w2 = "w1\<lparr>console := console w1 @
        [ToolExecutionFailed (retryCount + 1) (MAX_RETRIES + 1) a]\<rparr>"
    show ?thesis
    proof (cases "retryCount < MAX_RETRIES")
      case True
      have e: "executeToolCallsAndRespond d toolCalls originalMessage chatHistory retryCount w =
          retryWithLLMCorrection d toolCalls originalMessage chatHistory a retryCount ?w2"
        using t Inl True by (subst executeToolCallsAndRespond.simps) (simp add: Let_def)
      let ?r = "retryWithLLMCorrection d toolCalls originalMessage chatHistory a retryCount ?w2"
      from "1.IH" [OF t [symmetric] Inl refl True]
      have ih: "correctionAttempts (console (snd ?r))
            \<le> correctionAttempts (console ?w2) + 1 + (MAX_RETRIES - (retryCount + 1))"
          "failedExecutions (console (snd ?r))
            \<le> failedExecutions (console ?w2) + 1 + (MAX_RETRIES - (retryCount + 1))"
          "sameStore ?w2 (snd ?r)"
        by simp_all
      from st ih(3) have "sameStore w (snd ?r)"
        by (intro sameStore_trans [of w w1 "snd ?r"]) simp_all
      with ih(1,2) c True
      show ?thesis
        unfolding e by (simp add: correctionAttempts_def failedExecutions_def; arith)
    next
      case False
      have e: "executeToolCallsAndRespond d toolCalls originalMessage chatHistory retryCount w =
          (Inl (newError ''MCP tool execution failed after maximum retry attempts''), ?w2)"
        using t Inl False by (subst executeToolCallsAndRespond.simps) (simp add: Let_def)
      from c st show ?thesis
        unfolding e by (simp add: correctionAttempts_def failedExecutions_def)
    qed
  qed
next
  case (2 d toolCalls originalMessage chatHistory error retryCount w)
  let ?w0 = "w\<lparr>console := console w @ [AttemptingAutoCorrection (retryCount + 1)]\<rparr>"
  let ?w1 = "?w0\<lparr>mcpContextCalls := mcpContextCalls ?w0 + 1\<rparr>"
  show ?case
  proof (cases "getMCPToolsContext d (mcpContextCalls ?w0)")
    case (Inl thrownValue)
    then show ?thesis
      by (subst (1 2 3) retryWithLLMCorrection.simps)
        (simp add: Let_def correctionAttempts_def failedExecutions_def)
  next
    case (Inr mcpContext)
    note ctx = this
    show ?thesis
    proof (cases toolCalls)
      case Nil
      with ctx show ?thesis
        by (subst (1 2 3) retryWithLLMCorrection.simps)
          (simp add: Let_def correctionAttempts_def failedExecutions_def)
    next
      case (Cons first others)
      note tc = this
      show ?thesis
      proof (cases "messageInTemplate error")
        case (Inl thrownValue)
        with ctx tc show ?thesis
          by (subst (1 2 3) retryWithLLMCorrection.simps)
            (simp add: Let_def correctionAttempts_def failedExecutions_def)
      next
        case (Inr errorMessage)
        note em = this
        let ?msgs = "chatHistory @
             [promptMessage (correctionPrompt mcpContext originalMessage (toolName first)
                 (JSON_stringify d (arguments first)) errorMessage)]"
        obtain r w2 where g: "gemini_sendMessageWithFallback d ?msgs ?w1 = (r, w2)"
          by (cases "gemini_sendMessageWithFallback d ?msgs ?w1")
        have c2: "console w2 = console ?w1"
          using g by (rule gemini_sendMessageWithFallback_consoleD)
        have s2: "sameStore w w2"
          using gemini_sendMessageWithFallback_store [OF g] by simp
        show ?thesis
        proof (cases r)
          case (Inl thrownValue)
          with ctx tc em g c2 s2 show ?thesis
            by (subst (1 2 3) retryWithLLMCorrection.simps)
              (simp add: Let_def correctionAttempts_def failedExecutions_def)
        next
          case (Inr llmCorrection)
          note ok = this
          show ?thesis
          proof (cases "includesStr (response_content llmCorrection) ''ERROR_UNABLE_TO_FIX''")
            case True
            with ctx tc em g c2 s2 ok show ?thesis
              by (subst (1 2 3) retryWithLLMCorrection.simps)
                (simp add: Let_def correctionAttempts_def failedExecutions_def)
          next
            case False
            note nogiveup = this
            let ?corrected = "extractToolCalls (JSON_parse_of d) (response_content llmCorrection)"
            show ?thesis
            proof (cases "?corrected = []")
              case True
              with ctx tc em g c2 s2 ok nogiveup show ?thesis
                by (subst (1 2 3) retryWithLLMCorrection.simps)
                  (simp add: Let_def correctionAttempts_def failedExecutions_def)
            next
              case False
              let ?w3 = "w2\<lparr>console := console w2 @ [CorrectedToolCallProvided]\<rparr>"
              obtain r' w4 where x: "executeToolCallsAndRespond d ?corrected originalMessage
                  chatHistory (retryCount + 1) ?w3 = (r', w4)"
                by (cases "executeToolCallsAndRespond d ?corrected originalMessage
                  chatHistory (retryCount + 1) ?w3")
              have ih: "correctionAttempts (console w4)
                    \<le> correctionAttempts (console ?w3) + (MAX_RETRIES - (retryCount + 1))
                  \<and> failedExecutions (console w4)
                    \<le> failedExecutions (console ?w3) + 1 + (MAX_RETRIES - (retryCount + 1))
                  \<and> sameStore ?w3 w4"
                using "2.IH" [OF refl refl ctx tc em g [symmetric] ok nogiveup refl False] x
                by simp
              then have s4: "sameStore w w4"
                using s2 by (intro sameStore_trans [of w w2 w4]) simp_all
              have res: "(console (snd (retryWithLLMCorrection d toolCalls originalMessage
                    chatHistory error retryCount w))
                  = console w4 \<or>
                 (\<exists>e. console (snd (retryWithLLMCorrection d toolCalls originalMessage
                    chatHistory error retryCount w))
                  = console w4 @ [ErrorDuringLLMCorrection e]))
                 \<and> sameStore w (snd (retryWithLLMCorrection d toolCalls originalMessage
                    chatHistory error retryCount w))"
                using ctx tc em g ok nogiveup False x s4
                by (subst (1 2 3) retryWithLLMCorrection.simps)
                  (cases r'; simp add: Let_def)
              from res ih c2 show ?thesis
                by (auto simp: correctionAttempts_def failedExecutions_def)
            qed
          qed
        qed
      qed
    qed
  qed
qed

lemma execute_budget_exhausted:
  assumes "executeToolCallsAndRespond_try d toolCalls originalMessage chatHistory w = (Inl error, w1)"
    and "MAX_RETRIES \<le> retryCount"
  shows "executeToolCallsAndRespond d toolCalls originalMessage chatHistory retryCount w =
           (Inl (newError ''MCP tool execution failed after maximum retry attempts''),
            w1\<lparr>console := console w1 @
                 [ToolExecutionFailed (retryCount + 1) (MAX_RETRIES + 1) error]\<rparr>)"
  using assms by (subst executeToolCallsAndRespond.simps) (simp add: Let_def)

lemma execute_enters_correction:
  assumes "executeToolCallsAndRespond_try d toolCalls originalMessage chatHistory w = (Inl error, w1)"
    and "retryCount < MAX_RETRIES"
  shows "executeToolCallsAndRespond d toolCalls originalMessage chatHistory retryCount w =
           retryWithLLMCorrection d toolCalls originalMessage chatHistory error retryCount
             (w1\<lparr>console := console w1 @
                 [ToolExecutionFailed (retryCount + 1) (MAX_RETRIES + 1) error]\<rparr>)"
  using assms by (subst executeToolCallsAndRespond.simps) (simp add: Let_def)

lemma execute_success:
  assumes "executeToolCallsAndRespond_try d toolCalls originalMessage chatHistory w = (Inr response, w1)"
  shows "executeToolCallsAndRespond d toolCalls originalMessage chatHistory retryCount w =
           (Inr response, w1)"
  using assms by (subst executeToolCallsAndRespond.simps) simp

text \<open>A correction never lets an error of its own \<^verbatim>\<open>try\<close> block through.\<close>

lemma retry_error_is_wrapped:
  "fst (retryWithLLMCorrection d toolCalls originalMessage chatHistory error retryCount w) = Inl e
     \<Longrightarrow> e = newError ''Error occurred during LLM error correction attempt''"
  by (subst (asm) retryWithLLMCorrection.simps)
    (auto simp: Let_def correctionFailed_def split: sum.splits list.splits prod.splits if_splits)

lemma retry_gives_up:
  assumes "getMCPToolsContext d (mcpContextCalls w) = Inr mcpContext"
    and "toolCalls = first # others"
    and "messageInTemplate error = Inr errorMessage"
    and "gemini_sendMessageWithFallback d
           (chatHistory @
              [promptMessage (correctionPrompt mcpContext originalMessage (toolName first)
                 (JSON_stringify d (arguments first)) errorMessage)])
           (w\<lparr>console := console w @ [AttemptingAutoCorrection (retryCount + 1)],
              mcpContextCalls := mcpContextCalls w + 1\<rparr>) = (Inr llmCorrection, w2)"
    and "includesStr (response_content llmCorrection) ''ERROR_UNABLE_TO_FIX''
         \<or> extractToolCalls (JSON_parse_of d) (response_content llmCorrection) = []"
  shows "fst (retryWithLLMCorrection d toolCalls originalMessage chatHistory error retryCount w)
           = Inl (newError ''Error occurred during LLM error correction attempt'')"
  using assms
  by (subst retryWithLLMCorrection.simps) (auto simp: Let_def correctionFailed_def)

section \<open>Lemmas about the migration\<close>

lemma registry_has_iff: "registry_has reg k \<longleftrightarrow> k \<in> fst ` set reg"
  by (simp add: registry_has_def map_of_eq_None_iff)

lemma databaseService_addMessage_frame:
  "databaseService_addMessage d chatId role content metadata w = (r, w1) \<Longrightarrow>
     anonymousChats w1 = anonymousChats w
     \<and> filter isCreateChat (dbCalls w1) = filter isCreateChat (dbCalls w)"
  by (auto simp: databaseService_addMessage_def)

lemma addMessages_frame:
  "addMessages d chatId messages w = (r, w1) \<Longrightarrow>
     anonymousChats w1 = anonymousChats w
     \<and> filter isCreateChat (dbCalls w1) = filter isCreateChat (dbCalls w)"
proof (induction messages arbitrary: w)
  case Nil
  then show ?case by simp
next
  case (Cons message rest)
  obtain r0 w0 where a: "databaseService_addMessage d chatId (message_role message)
      (message_content message) (message_metadata message) w = (r0, w0)"
    by (cases "databaseService_addMessage d chatId (message_role message)
      (message_content message) (message_metadata message) w")
  note f = databaseService_addMessage_frame [OF a]
  show ?case
  proof (cases r0)
    case (Inl error)
    with Cons.prems a f show ?thesis by simp
  next
    case (Inr added)
    with Cons.prems a have "addMessages d chatId rest w0 = (r, w1)" by simp
    from Cons.IH [OF this] f show ?thesis by simp
  qed
qed

text \<open>
  One chat: exactly one \<^verbatim>\<open>createChat\<close> is issued; the registry loses at most the chat's
  own id, loses it when the \<^verbatim>\<open>try\<close> block returns, and is untouched when it throws.
\<close>

lemma migrateChat_try_effect:
  assumes "migrateChat_try d userId anonymousChat w = (r, w1)"
  shows "length (filter isCreateChat (dbCalls w1)) = length (filter isCreateChat (dbCalls w)) + 1"
    and "fst ` set (anonymousChats w1) \<subseteq> fst ` set (anonymousChats w)"
    and "(\<exists>updatedChat. r = Inr updatedChat) \<Longrightarrow> chat_id anonymousChat \<notin> fst ` set (anonymousChats w1)"
    and "(\<exists>error. r = Inl error) \<Longrightarrow> anonymousChats w1 = anonymousChats w"
proof -
  obtain rc wc where c: "databaseService_createChat d userId (chat_title anonymousChat) w = (rc, wc)"
    by (cases "databaseService_createChat d userId (chat_title anonymousChat) w")
  then have fc: "anonymousChats wc = anonymousChats w"
    "filter isCreateChat (dbCalls wc) = filter isCreateChat (dbCalls w) @ [CreateChat userId (chat_title anonymousChat)]"
    by (auto simp: databaseService_createChat_def)
  have "length (filter isCreateChat (dbCalls w1)) = length (filter isCreateChat (dbCalls w)) + 1
    \<and> fst ` set (anonymousChats w1) \<subseteq> fst ` set (anonymousChats w)
    \<and> ((\<exists>updatedChat. r = Inr updatedChat) \<longrightarrow> chat_id anonymousChat \<notin> fst ` set (anonymousChats w1))
    \<and> ((\<exists>error. r = Inl error) \<longrightarrow> anonymousChats w1 = anonymousChats w)"
  proof (cases rc)
    case (Inl error)
    with assms c fc show ?thesis by (auto simp: migrateChat_try_def)
  next
    case (Inr chat)
    obtain ra wa where a: "addMessages d (chat_id chat) (chat_messages anonymousChat) wc = (ra, wa)"
      by (cases "addMessages d (chat_id chat) (chat_messages anonymousChat) wc")
    note fa = addMessages_frame [OF a]
    show ?thesis
    proof (cases ra)
      case (Inl error)
      with assms c fc Inr a fa show ?thesis by (auto simp: migrateChat_try_def)
    next
      case (Inr u)
      obtain rg wg where g: "databaseService_getChat d (chat_id chat) (Some userId) wa = (rg, wg)"
        by (cases "databaseService_getChat d (chat_id chat) (Some userId) wa")
      then have fg: "anonymousChats wg = anonymousChats wa"
        "filter isCreateChat (dbCalls wg) = filter isCreateChat (dbCalls wa)"
        by (auto simp: databaseService_getChat_def)
      show ?thesis
      proof (cases rg)
        case (Inl error)
        with assms c fc \<open>rc = Inr chat\<close> a fa \<open>ra = Inr u\<close> g fg show ?thesis
          by (auto simp: migrateChat_try_def)
      next
        case (Inr updatedChat)
        let ?k = "chat_id anonymousChat"
        from assms c \<open>rc = Inr chat\<close> a \<open>ra = Inr u\<close> g Inr
        have res: "r = Inr updatedChat"
          "w1 = (if registry_has (anonymousChats wg) ?k
                 then wg\<lparr>anonymousChats := AList.delete ?k (anonymousChats wg)\<rparr> else wg)"
          by (simp_all add: migrateChat_try_def)
        have reg: "anonymousChats wg = anonymousChats w" using fg fa fc by simp
        have calls: "filter isCreateChat (dbCalls w1) =
            filter isCreateChat (dbCalls w) @ [CreateChat userId (chat_title anonymousChat)]"
          using res(2) fg fa fc by simp
        have sub: "fst ` set (anonymousChats w1) \<subseteq> fst ` set (anonymousChats w)"
          using res(2) reg dom_delete_subset [of ?k "anonymousChats w"] by simp
        have gone: "?k \<notin> fst ` set (anonymousChats w1)"
          using res(2) reg delete_notin_dom [of ?k "anonymousChats w"]
          by (simp add: registry_has_iff)
        from res(1) calls sub gone show ?thesis by simp
      qed
    qed
  qed
  then show "length (filter isCreateChat (dbCalls w1)) = length (filter isCreateChat (dbCalls w)) + 1"
    and "fst ` set (anonymousChats w1) \<subseteq> fst ` set (anonymousChats w)"
    and "(\<exists>updatedChat. r = Inr updatedChat) \<Longrightarrow> chat_id anonymousChat \<notin> fst ` set (anonymousChats w1)"
    and "(\<exists>error. r = Inl error) \<Longrightarrow> anonymousChats w1 = anonymousChats w"
    by blast+
qed

lemma migrationOutcomes_length:
  "length (migrationOutcomes d userId chats w) = length chats"
  by (induction chats arbitrary: w) (auto split: prod.splits sum.splits)

lemma migrateLoop_pushed:
  "fst (migrateLoop d userId chats migratedChats w) =
     migratedChats @ pushedChats (migrationOutcomes d userId chats w)"
proof (induction chats arbitrary: migratedChats w)
  case Nil
  show ?case by simp
next
  case (Cons anonymousChat rest)
  obtain r w1 where t: "migrateChat_try d userId anonymousChat w = (r, w1)"
    by (cases "migrateChat_try d userId anonymousChat w")
  show ?case
  proof (cases r)
    case (Inl error)
    with t Cons.IH show ?thesis by simp
  next
    case (Inr updatedChat)
    with t Cons.IH show ?thesis by (cases updatedChat) simp_all
  qed
qed

text \<open>The state in which the loop takes up the rest of the list after one chat.\<close>

lemma migrateLoop_step:
  assumes "migrateChat_try d userId anonymousChat w = (r, w1)"
  shows "\<exists>w2 acc. migrateLoop d userId (anonymousChat # rest) migratedChats w =
            migrateLoop d userId rest acc w2
          \<and> anonymousChats w2 = anonymousChats w1 \<and> dbCalls w2 = dbCalls w1
          \<and> migrationOutcomes d userId (anonymousChat # rest) w =
              r # migrationOutcomes d userId rest w2"
proof (cases r)
  case (Inl error)
  with assms show ?thesis
    by (intro exI [of _ "w1\<lparr>console := console w1 @ [ErrorMigratingChat (chat_id anonymousChat) error]\<rparr>"]
        exI [of _ migratedChats]) simp
next
  case (Inr updatedChat)
  with assms show ?thesis
    by (cases updatedChat) (auto intro!: exI [of _ w1])
qed

lemma migrateLoop_effect:
  "length (filter isCreateChat (dbCalls (snd (migrateLoop d userId chats migratedChats w)))) =
     length (filter isCreateChat (dbCalls w)) + length chats
   \<and> fst ` set (anonymousChats (snd (migrateLoop d userId chats migratedChats w)))
       \<subseteq> fst ` set (anonymousChats w)"
proof (induction chats arbitrary: migratedChats w)
  case Nil
  show ?case by simp
next
  case (Cons anonymousChat rest)
  obtain r w1 where t: "migrateChat_try d userId anonymousChat w = (r, w1)"
    by (cases "migrateChat_try d userId anonymousChat w")
  from migrateLoop_step [OF t, of rest migratedChats]
  obtain w2 acc where s: "migrateLoop d userId (anonymousChat # rest) migratedChats w =
            migrateLoop d userId rest acc w2"
    "anonymousChats w2 = anonymousChats w1" "dbCalls w2 = dbCalls w1"
    by blast
  have a: "length (filter isCreateChat (dbCalls (snd (migrateLoop d userId rest acc w2)))) =
      length (filter isCreateChat (dbCalls w2)) + length rest"
    and b: "fst ` set (anonymousChats (snd (migrateLoop d userId rest acc w2)))
      \<subseteq> fst ` set (anonymousChats w2)"
    using Cons.IH [of acc w2] by simp_all
  have c: "length (filter isCreateChat (dbCalls w2)) = length (filter isCreateChat (dbCalls w)) + 1"
    using migrateChat_try_effect(1) [OF t] s(3) by simp
  have "fst ` set (anonymousChats w2) \<subseteq> fst ` set (anonymousChats w)"
    using migrateChat_try_effect(2) [OF t] s(2) by simp
  with b have "fst ` set (anonymousChats (snd (migrateLoop d userId rest acc w2)))
      \<subseteq> fst ` set (anonymousChats w)"
    by (rule subset_trans)
  with a c show ?case unfolding s(1) by simp
qed

lemma migrateLoop_removes:
  "i < length chats \<Longrightarrow>
   (\<exists>updatedChat. migrationOutcomes d userId chats w ! i = Inr updatedChat) \<Longrightarrow>
   chat_id (chats ! i)
     \<notin> fst ` set (anonymousChats (snd (migrateLoop d userId chats migratedChats w)))"
proof (induction chats arbitrary: i migratedChats w)
  case Nil
  then show ?case by simp
next
  case (Cons anonymousChat rest)
  obtain r w1 where t: "migrateChat_try d userId anonymousChat w = (r, w1)"
    by (cases "migrateChat_try d userId anonymousChat w")
  from migrateLoop_step [OF t, of rest migratedChats]
  obtain w2 acc where s: "migrateLoop d userId (anonymousChat # rest) migratedChats w =
            migrateLoop d userId rest acc w2"
    "anonymousChats w2 = anonymousChats w1"
    "migrationOutcomes d userId (anonymousChat # rest) w = r # migrationOutcomes d userId rest w2"
    by blast
  show ?case
  proof (cases i)
    case 0
    with Cons.prems(2) s(3) have "\<exists>updatedChat. r = Inr updatedChat" by simp
    from migrateChat_try_effect(3) [OF t this]
    have "chat_id anonymousChat \<notin> fst ` set (anonymousChats w2)" using s(2) by simp
    moreover have "fst ` set (anonymousChats (snd (migrateLoop d userId rest acc w2)))
        \<subseteq> fst ` set (anonymousChats w2)"
      using migrateLoop_effect [of d userId rest acc w2] by simp
    ultimately have "chat_id anonymousChat
        \<notin> fst ` set (anonymousChats (snd (migrateLoop d userId rest acc w2)))"
      by blast
    with 0 show ?thesis unfolding s(1) by simp
  next
    case (Suc j)
    with Cons.prems s(3) have "j < length rest"
      "\<exists>updatedChat. migrationOutcomes d userId rest w2 ! j = Inr updatedChat"
      by simp_all
    from Cons.IH [OF this, of acc] Suc show ?thesis unfolding s(1) by simp
  qed
qed

section \<open>Lemmas about the handlers\<close>

lemma processWithMCPIntegration_store:
  assumes "processWithMCPIntegration d message chatHistory w = (r, w')"
  shows "sameStore w w'"
proof -
  obtain rt wt where t: "processWithMCPIntegration_try d message chatHistory w = (rt, wt)"
    by (cases "processWithMCPIntegration_try d message chatHistory w")
  have st: "sameStore w wt"
  proof (cases "getMCPToolsContext d (mcpContextCalls w)")
    case (Inl error)
    with t show ?thesis by (auto simp: processWithMCPIntegration_try_def Let_def)
  next
    case (Inr mcpContext)
    let ?w1 = "w\<lparr>mcpContextCalls := mcpContextCalls w + 1\<rparr>"
    obtain rg w2 where g: "gemini_sendMessage d
        (chatHistory @ [promptMessage (systemPrompt mcpContext message)]) ?w1 = (rg, w2)"
      by (cases "gemini_sendMessage d
        (chatHistory @ [promptMessage (systemPrompt mcpContext message)]) ?w1")
    have s2: "sameStore w w2" using gemini_sendMessage_store [OF g] by simp
    show ?thesis
    proof (cases rg)
      case (Inl error)
      with t Inr g s2 show ?thesis by (auto simp: processWithMCPIntegration_try_def Let_def)
    next
      case (Inr llmResponse)
      let ?calls = "extractToolCalls (JSON_parse_of d) (response_content llmResponse)"
      show ?thesis
      proof (cases "length ?calls > 0")
        case False
        with t \<open>getMCPToolsContext d (mcpContextCalls w) = Inr mcpContext\<close> g Inr s2
        show ?thesis by (auto simp: processWithMCPIntegration_try_def Let_def)
      next
        case True
        with t \<open>getMCPToolsContext d (mcpContextCalls w) = Inr mcpContext\<close> g Inr
        have "executeToolCallsAndRespond d ?calls message chatHistory 0 w2 = (rt, wt)"
          by (auto simp: processWithMCPIntegration_try_def Let_def)
        with correction_cycle_bounded(1) [of d ?calls message chatHistory 0 w2]
        have "sameStore w2 wt" by simp
        with s2 show ?thesis by (rule sameStore_trans)
      qed
    qed
  qed
  show ?thesis
  proof (cases rt)
    case (Inr response)
    with assms t st show ?thesis by (simp add: processWithMCPIntegration_def)
  next
    case (Inl error)
    with assms t have "gemini_sendMessageWithFallback d chatHistory
        (wt\<lparr>console := console wt @ [MCPIntegrationFailed error]\<rparr>) = (r, w')"
      by (simp add: processWithMCPIntegration_def)
    from gemini_sendMessageWithFallback_store [OF this] st show ?thesis
      by (intro sameStore_trans [of w wt w']) simp_all
  qed
qed

lemma getAIMessageResponse_store:
  assumes "getAIMessageResponse d content chatHistory oauthToken w = (r, w')"
  shows "sameStore w w'"
proof (cases "mcpEnabled d")
  case False
  with assms show ?thesis
    by (auto simp: getAIMessageResponse_def dest: gemini_sendMessageWithFallback_store)
next
  case True
  obtain available w1 where c: "createMCPContextService d oauthToken w = (available, w1)"
    by (cases "createMCPContextService d oauthToken w")
  then have s1: "sameStore w w1"
    by (auto simp: createMCPContextService_def split: if_splits)
  show ?thesis
  proof (cases available)
    case True
    with assms \<open>mcpEnabled d\<close> c have "processWithMCPIntegration d content chatHistory w1 = (r, w')"
      by (simp add: getAIMessageResponse_def)
    from s1 processWithMCPIntegration_store [OF this] show ?thesis by (rule sameStore_trans)
  next
    case False
    with assms \<open>mcpEnabled d\<close> c have "gemini_sendMessageWithFallback d chatHistory w1 = (r, w')"
      by (simp add: getAIMessageResponse_def)
    from s1 gemini_sendMessageWithFallback_store [OF this] show ?thesis by (rule sameStore_trans)
  qed
qed

text \<open>
  What the inner \<^verbatim>\<open>try\<close> block of \<^verbatim>\<open>sendMessage\<close> does to the database: it reads the
  messages and, if it gets that far, adds the assistant's; it deletes nothing.
\<close>

lemma controller_sendMessage_try_calls:
  assumes "controller_sendMessage_try d chatId content oauthToken w = (r, w')"
  shows "\<exists>later. dbCalls w' = dbCalls w @ later \<and> \<not> list_ex isDeleteChat later"
proof -
  obtain rm w1 where m: "databaseService_getMessages d chatId w = (rm, w1)"
    by (cases "databaseService_getMessages d chatId w")
  then have c1: "dbCalls w1 = dbCalls w @ [GetMessages chatId]"
    by (auto simp: databaseService_getMessages_def)
  show ?thesis
  proof (cases rm)
    case (Inl error)
    with assms m c1 show ?thesis by (auto simp: controller_sendMessage_try_def)
  next
    case (Inr chatHistory)
    obtain ra w2 where a: "getAIMessageResponse d content chatHistory oauthToken w1 = (ra, w2)"
      by (cases "getAIMessageResponse d content chatHistory oauthToken w1")
    from getAIMessageResponse_store [OF a] have c2: "dbCalls w2 = dbCalls w1"
      by (simp add: sameStore_def)
    show ?thesis
    proof (cases ra)
      case (Inl error)
      with assms m Inr a c1 c2 show ?thesis by (auto simp: controller_sendMessage_try_def)
    next
      case (Inr aiResponse)
      with assms m \<open>rm = Inr chatHistory\<close> a
      have "databaseService_addMessage d chatId ASSISTANT (response_content aiResponse) None w2 = (r, w')"
        by (simp add: controller_sendMessage_try_def)
      then have "dbCalls w' = dbCalls w2 @ [AddMessage chatId ASSISTANT (response_content aiResponse) None]"
        by (auto simp: databaseService_addMessage_def)
      with c1 c2 show ?thesis by simp
    qed
  qed
qed

lemma handleModelSwitch_frame:
  "handleModelSwitch d modelName w = (r, w') \<Longrightarrow> sameStore w w'"
  by (auto simp: handleModelSwitch_def sameStore_def split: option.splits if_splits prod.splits)

lemma entryMessages_updateEntry:
  "map_of (anonymousChats w) chatId = Some chat \<Longrightarrow>
     map_of (anonymousChats (updateEntry chatId f w)) chatId = Some (f chat)"
  by (simp add: updateEntry_def map_of_map_entry)

lemma appendUserMessage_entry:
  assumes "map_of (anonymousChats w) chatId = Some chat"
  shows "\<exists>userMessage. entryMessages chatId (appendUserMessage d chatId role content w) =
            chat_messages chat @ [userMessage]
          \<and> message_content userMessage = trim content \<and> message_role userMessage = role"
  using assms
  by (simp add: appendUserMessage_def generateMessageId_def newDate_def entryMessages_def
      updateEntry_def map_of_map_entry pushMessage_def)

lemma removeLastMessage_entry:
  "entryMessages chatId (removeLastMessage d chatId w) = butlast (entryMessages chatId w)"
  by (simp add: removeLastMessage_def newDate_def entryMessages_def updateEntry_def
      map_of_map_entry popMessage_def split: option.splits)

lemma entryMessages_sameStore:
  "sameStore w w' \<Longrightarrow> entryMessages chatId w' = entryMessages chatId w"
  by (simp add: sameStore_def entryMessages_def)

lemma handleLLMError_entry [simp]:
  "entryMessages chatId (snd (handleLLMError error chatIdOpt isInitialMessage w)) = entryMessages chatId w"
  by (simp add: handleLLMError_def entryMessages_def Let_def)

text \<open>
  The REST handlers when the AI response fails after the user message was stored.
\<close>

lemma sendMessage_failure_after_persist:
  assumes h: "\<not> (body_content req = [] \<or> trim (body_content req) = [])
     \<and> databaseService_getChat d (params_chatId req) (Some (user_userId req)) w = (Inr (Some chat), w1)
     \<and> handleModelSwitch d (body_model req) w1 = (Inr u, w2)
     \<and> databaseService_addMessage d (params_chatId req)
          (case body_role req of None \<Rightarrow> USER | Some r \<Rightarrow> r) (trim (body_content req)) None w2
        = (Inr userMessage, w3)
     \<and> controller_sendMessage_try d (params_chatId req) (body_content req) (user_oauthToken req) w3
        = (Inl error, w4)"
  shows "fst (controller_sendMessage d req w) =
          ServiceUnavailable
            ''The AI service is temporarily unavailable. Please try again in a few moments.''
            ''LLM_UNAVAILABLE'' (Some 60) None"
    and "\<exists>later. dbCalls (snd (controller_sendMessage d req w)) =
              dbCalls w
              @ [GetChat (params_chatId req) (Some (user_userId req)),
                 AddMessage (params_chatId req) (case body_role req of None \<Rightarrow> USER | Some r \<Rightarrow> r)
                   (trim (body_content req)) None]
              @ later
            \<and> \<not> list_ex isDeleteChat later"
proof -
  let ?role = "case body_role req of None \<Rightarrow> USER | Some r \<Rightarrow> r"
  from h have run: "controller_sendMessage d req w = handleLLMError error None False w4"
    by (simp add: controller_sendMessage_def Let_def)
  show "fst (controller_sendMessage d req w) =
          ServiceUnavailable
            ''The AI service is temporarily unavailable. Please try again in a few moments.''
            ''LLM_UNAVAILABLE'' (Some 60) None"
    unfolding run by (simp add: handleLLMError_def Let_def)
  from h have c1: "dbCalls w1 = dbCalls w @ [GetChat (params_chatId req) (Some (user_userId req))]"
    by (auto simp: databaseService_getChat_def)
  from h have c2: "dbCalls w2 = dbCalls w1"
    using handleModelSwitch_frame [of d "body_model req" w1 "Inr u" w2] by (simp add: sameStore_def)
  from h have c3: "dbCalls w3 = dbCalls w2
      @ [AddMessage (params_chatId req) ?role (trim (body_content req)) None]"
    by (auto simp: databaseService_addMessage_def)
  from h controller_sendMessage_try_calls
    [of d "params_chatId req" "body_content req" "user_oauthToken req" w3 "Inl error" w4]
  obtain later where l: "dbCalls w4 = dbCalls w3 @ later" "\<not> list_ex isDeleteChat later"
    by blast
  have "dbCalls (snd (controller_sendMessage d req w)) = dbCalls w4"
    unfolding run by (simp add: handleLLMError_def Let_def)
  with c1 c2 c3 l
  show "\<exists>later. dbCalls (snd (controller_sendMessage d req w)) =
              dbCalls w
              @ [GetChat (params_chatId req) (Some (user_userId req)),
                 AddMessage (params_chatId req) ?role (trim (body_content req)) None]
              @ later
            \<and> \<not> list_ex isDeleteChat later"
    by (intro exI [of _ later]) simp
qed

text \<open>After the user message was appended, the registry's entry ends with it.\<close>

lemma appended_entry:
  assumes "map_of (anonymousChats w) chatId = Some anonymousChat"
    and "handleModelSwitch d modelName w = (Inr u, w1)"
  shows "\<exists>userMessage. entryMessages chatId (appendUserMessage d chatId role content w1) =
            chat_messages anonymousChat @ [userMessage]"
proof -
  from assms(2) have "anonymousChats w1 = anonymousChats w"
    using handleModelSwitch_frame [of d modelName w "Inr u" w1] by (simp add: sameStore_def)
  with assms(1) have "map_of (anonymousChats w1) chatId = Some anonymousChat" by simp
  from appendUserMessage_entry [OF this, of d role content] show ?thesis by blast
qed

lemma sendAnonymousMessage_failure_after_append:
  assumes h: "\<not> (body_content req = [] \<or> trim (body_content req) = [])
     \<and> map_of (anonymousChats w) (params_chatId req) = Some anonymousChat
     \<and> handleModelSwitch d (body_model req) w = (Inr u, w1)
     \<and> gemini_sendMessageWithFallback d
          (entryMessages (params_chatId req)
             (appendUserMessage d (params_chatId req)
                (case body_role req of None \<Rightarrow> USER | Some r \<Rightarrow> r) (body_content req) w1))
          (appendUserMessage d (params_chatId req)
             (case body_role req of None \<Rightarrow> USER | Some r \<Rightarrow> r) (body_content req) w1)
        = (Inl error, w3)"
  shows "fst (controller_sendAnonymousMessage d req w) =
          ServiceUnavailable
            ''The AI service is temporarily unavailable. Please try again in a few moments.''
            ''LLM_UNAVAILABLE'' (Some 60) None"
    and "entryMessages (params_chatId req) (snd (controller_sendAnonymousMessage d req w)) =
            chat_messages anonymousChat"
proof -
  let ?role = "case body_role req of None \<Rightarrow> USER | Some r \<Rightarrow> r"
  let ?id = "params_chatId req"
  let ?w2 = "appendUserMessage d ?id ?role (body_content req) w1"
  from h have run: "controller_sendAnonymousMessage d req w =
      handleLLMError error None False (removeLastMessage d ?id w3)"
    by (simp add: controller_sendAnonymousMessage_def Let_def)
  show "fst (controller_sendAnonymousMessage d req w) =
          ServiceUnavailable
            ''The AI service is temporarily unavailable. Please try again in a few moments.''
            ''LLM_UNAVAILABLE'' (Some 60) None"
    unfolding run by (simp add: handleLLMError_def Let_def)
  from h appended_entry [of w ?id anonymousChat d "body_model req" u w1 ?role "body_content req"]
  obtain userMessage where pushed: "entryMessages ?id ?w2 = chat_messages anonymousChat @ [userMessage]"
    by blast
  from h have "sameStore ?w2 w3"
    using gemini_sendMessageWithFallback_store [of d "entryMessages ?id ?w2" ?w2 "Inl error" w3]
    by simp
  then have "entryMessages ?id w3 = entryMessages ?id ?w2"
    by (rule entryMessages_sameStore)
  with pushed have "entryMessages ?id (removeLastMessage d ?id w3) = chat_messages anonymousChat"
    by (simp add: removeLastMessage_entry)
  then show "entryMessages ?id (snd (controller_sendAnonymousMessage d req w)) =
            chat_messages anonymousChat"
    unfolding run by simp
qed

subsection \<open>The streaming handlers\<close>

lemma event_kinds [simp]:
  "isDoneEvent (chunkEvent chunk) = False"
  "isDoneEvent (errorEvent message) = False"
  "isDoneEvent (doneEvent assistantMessage) = True"
  "isErrorEvent (errorEvent message) = True"
  by (simp_all add: isDoneEvent_def isErrorEvent_def chunkEvent_def errorEvent_def doneEvent_def)

lemma errorEvent_fields [simp]:
  "map fst (errorEvent message) = [''type'', ''error'']"
  "map_of (errorEvent message) ''chatId'' = None"
  by (simp_all add: errorEvent_def)

lemma no_done_in_chunks [simp]: "list_ex isDoneEvent (map chunkEvent chunks) = False"
  by (induction chunks) simp_all

lemma failedStream_channel [simp]:
  "written (failedStream chunks) = map chunkEvent chunks @ [errorEvent unavailable]"
  "ended (failedStream chunks) = True"
  "last (written (failedStream chunks)) = errorEvent unavailable"
  "list_ex isDoneEvent (written (failedStream chunks)) = False"
  by (simp_all add: failedStream_def)

lemma sendMessageStream_failure_after_persist:
  assumes h: "\<not> (body_content req = [] \<or> trim (body_content req) = [])
     \<and> databaseService_getChat d (params_chatId req) (Some (user_userId req)) w = (Inr (Some chat), w1)
     \<and> handleModelSwitch d (body_model req) w1 = (Inr u, w2)
     \<and> databaseService_addMessage d (params_chatId req)
          (case body_role req of None \<Rightarrow> USER | Some r \<Rightarrow> r) (trim (body_content req)) None w2
        = (Inr userMessage, w3)
     \<and> databaseService_getMessages d (params_chatId req) w3 = (Inr chatHistory, w4)
     \<and> gemini_sendMessageStream d chatHistory w4 = ((chunks, Some error), w5)"
  shows "fst (controller_sendMessageStream d req w) = failedStream chunks"
  using h
  by (simp add: controller_sendMessageStream_def Let_def forwardChunks_def failedStream_def
      endChannel_def writeEvent_def openChannel_def)

lemma sendAnonymousMessageStream_failure_after_append:
  assumes h: "\<not> (body_content req = [] \<or> trim (body_content req) = [])
     \<and> map_of (anonymousChats w) (params_chatId req) = Some anonymousChat
     \<and> handleModelSwitch d (body_model req) w = (Inr u, w1)
     \<and> gemini_sendMessageStream d
          (entryMessages (params_chatId req)
             (appendUserMessage d (params_chatId req)
                (case body_role req of None \<Rightarrow> USER | Some r \<Rightarrow> r) (body_content req) w1))
          (appendUserMessage d (params_chatId req)
             (case body_role req of None \<Rightarrow> USER | Some r \<Rightarrow> r) (body_content req) w1)
        = ((chunks, Some error), w3)"
  shows "fst (controller_sendAnonymousMessageStream d req w) = failedStream chunks"
  using h
  by (simp add: controller_sendAnonymousMessageStream_def Let_def forwardChunks_def
      failedStream_def endChannel_def writeEvent_def openChannel_def)

section \<open>Facts about the scenarios\<close>

lemma overloadedError_retryable: "isRetryableError overloadedError"
  by (simp add: isRetryableError_def overloadedError_def newError_def retryablePatterns_def
      toLowerCase_def toLowerCaseChar_def)

lemma invalidKey_not_retryable: "\<not> isRetryableError invalidKey"
  by (simp add: isRetryableError_def invalidKey_def newError_def retryablePatterns_def
      toLowerCase_def toLowerCaseChar_def)

lemma fresh_initialize:
  "GEMINI_API_KEY e = Some ''key'' \<Longrightarrow> initialize e freshService = Inr readyService"
  by (simp add: initialize_def freshService_def readyService_def)

lemma userAsks_ok: "userAsks \<noteq> []" "message_role (last userAsks) = USER"
  by (simp_all add: userAsks_def)






lemma trim_question: "trim ''2+2?'' = ''2+2?''" "trim ''and 3+3?'' = ''and 3+3?''"
  by code_simp+

lemma down_try:
  "fst (controller_sendMessage_try downDeps ''chat_B'' ''2+2?'' None persistedWorld) = Inl gatewayDown"
  by code_simp

lemma down_completion:
  "fst (gemini_sendMessageWithFallback downDeps (entryMessages ''anonymous_1_a'' appendedWorld)
          appendedWorld) = Inl gatewayDown"
  by code_simp

lemma down_sendMessage_steps:
  "\<not> (body_content durableRequest = [] \<or> trim (body_content durableRequest) = [])
   \<and> databaseService_getChat downDeps (params_chatId durableRequest)
        (Some (user_userId durableRequest)) freshWorld
      = (Inr (Some durableB), freshWorld\<lparr>dbCalls := [GetChat ''chat_B'' (Some ''user_1'')]\<rparr>)
   \<and> handleModelSwitch downDeps (body_model durableRequest)
        (freshWorld\<lparr>dbCalls := [GetChat ''chat_B'' (Some ''user_1'')]\<rparr>)
      = (Inr (), freshWorld\<lparr>dbCalls := [GetChat ''chat_B'' (Some ''user_1'')]\<rparr>)
   \<and> databaseService_addMessage downDeps (params_chatId durableRequest)
        (case body_role durableRequest of None \<Rightarrow> USER | Some r \<Rightarrow> r)
        (trim (body_content durableRequest)) None
        (freshWorld\<lparr>dbCalls := [GetChat ''chat_B'' (Some ''user_1'')]\<rparr>)
      = (Inr storedUserMessage, persistedWorld)
   \<and> controller_sendMessage_try downDeps (params_chatId durableRequest)
        (body_content durableRequest) (user_oauthToken durableRequest) persistedWorld
      = (Inl gatewayDown,
         snd (controller_sendMessage_try downDeps ''chat_B'' ''2+2?'' None persistedWorld))"
proof -
  have "controller_sendMessage_try downDeps ''chat_B'' ''2+2?'' None persistedWorld
      = (Inl gatewayDown,
         snd (controller_sendMessage_try downDeps ''chat_B'' ''2+2?'' None persistedWorld))"
    using down_try by (simp add: prod_eq_iff)
  then show ?thesis
    by (simp add: durableRequest_def trim_question databaseService_getChat_def
        databaseService_addMessage_def handleModelSwitch_def downDeps_def migrationDeps_def
        stubbornDeps_def freshWorld_def persistedWorld_def storedUserMessage_def)
qed

lemma down_sendAnonymousMessage_steps:
  "\<not> (body_content anonymousRequest = [] \<or> trim (body_content anonymousRequest) = [])
   \<and> map_of (anonymousChats migrationWorld) (params_chatId anonymousRequest) = Some anonymousA
   \<and> handleModelSwitch downDeps (body_model anonymousRequest) migrationWorld
      = (Inr (), migrationWorld)
   \<and> gemini_sendMessageWithFallback downDeps
        (entryMessages (params_chatId anonymousRequest)
           (appendUserMessage downDeps (params_chatId anonymousRequest)
              (case body_role anonymousRequest of None \<Rightarrow> USER | Some r \<Rightarrow> r)
              (body_content anonymousRequest) migrationWorld))
        (appendUserMessage downDeps (params_chatId anonymousRequest)
           (case body_role anonymousRequest of None \<Rightarrow> USER | Some r \<Rightarrow> r)
           (body_content anonymousRequest) migrationWorld)
      = (Inl gatewayDown,
         snd (gemini_sendMessageWithFallback downDeps
                (entryMessages ''anonymous_1_a'' appendedWorld) appendedWorld))"
proof -
  have "gemini_sendMessageWithFallback downDeps (entryMessages ''anonymous_1_a'' appendedWorld)
          appendedWorld
      = (Inl gatewayDown,
         snd (gemini_sendMessageWithFallback downDeps
                (entryMessages ''anonymous_1_a'' appendedWorld) appendedWorld))"
    using down_completion by (simp add: prod_eq_iff)
  then show ?thesis
    by (simp add: anonymousRequest_def trim_question handleModelSwitch_def appendedWorld_def
        migrationWorld_def)
qed

lemma down_stream:
  "fst (gemini_sendMessageStream downDeps userAsks streamWorld) = ([''Hel''], Some overloadedError)"
  by code_simp

lemma down_stream_anonymous:
  "fst (gemini_sendMessageStream downDeps (entryMessages ''anonymous_1_a'' appendedWorld)
          appendedWorld) = ([''Hel''], Some overloadedError)"
  by code_simp

lemma down_sendMessageStream_steps:
  "\<not> (body_content durableRequest = [] \<or> trim (body_content durableRequest) = [])
   \<and> databaseService_getChat downDeps (params_chatId durableRequest)
        (Some (user_userId durableRequest)) freshWorld
      = (Inr (Some durableB), freshWorld\<lparr>dbCalls := [GetChat ''chat_B'' (Some ''user_1'')]\<rparr>)
   \<and> handleModelSwitch downDeps (body_model durableRequest)
        (freshWorld\<lparr>dbCalls := [GetChat ''chat_B'' (Some ''user_1'')]\<rparr>)
      = (Inr (), freshWorld\<lparr>dbCalls := [GetChat ''chat_B'' (Some ''user_1'')]\<rparr>)
   \<and> databaseService_addMessage downDeps (params_chatId durableRequest)
        (case body_role durableRequest of None \<Rightarrow> USER | Some r \<Rightarrow> r)
        (trim (body_content durableRequest)) None
        (freshWorld\<lparr>dbCalls := [GetChat ''chat_B'' (Some ''user_1'')]\<rparr>)
      = (Inr storedUserMessage, persistedWorld)
   \<and> databaseService_getMessages downDeps (params_chatId durableRequest) persistedWorld
      = (Inr userAsks, streamWorld)
   \<and> gemini_sendMessageStream downDeps userAsks streamWorld
      = (([''Hel''], Some overloadedError),
         snd (gemini_sendMessageStream downDeps userAsks streamWorld))"
proof -
  have "gemini_sendMessageStream downDeps userAsks streamWorld
      = (([''Hel''], Some overloadedError),
         snd (gemini_sendMessageStream downDeps userAsks streamWorld))"
    using down_stream by (simp add: prod_eq_iff)
  then show ?thesis
    by (simp add: durableRequest_def trim_question databaseService_getChat_def
        databaseService_addMessage_def databaseService_getMessages_def handleModelSwitch_def
        downDeps_def migrationDeps_def stubbornDeps_def freshWorld_def persistedWorld_def
        streamWorld_def storedUserMessage_def)
qed

lemma down_sendAnonymousMessageStream_steps:
  "\<not> (body_content anonymousRequest = [] \<or> trim (body_content anonymousRequest) = [])
   \<and> map_of (anonymousChats migrationWorld) (params_chatId anonymousRequest) = Some anonymousA
   \<and> handleModelSwitch downDeps (body_model anonymousRequest) migrationWorld
      = (Inr (), migrationWorld)
   \<and> gemini_sendMessageStream downDeps
        (entryMessages (params_chatId anonymousRequest)
           (appendUserMessage downDeps (params_chatId anonymousRequest)
              (case body_role anonymousRequest of None \<Rightarrow> USER | Some r \<Rightarrow> r)
              (body_content anonymousRequest) migrationWorld))
        (appendUserMessage downDeps (params_chatId anonymousRequest)
           (case body_role anonymousRequest of None \<Rightarrow> USER | Some r \<Rightarrow> r)
           (body_content anonymousRequest) migrationWorld)
      = (([''Hel''], Some overloadedError),
         snd (gemini_sendMessageStream downDeps
                (entryMessages ''anonymous_1_a'' appendedWorld) appendedWorld))"
proof -
  have "gemini_sendMessageStream downDeps (entryMessages ''anonymous_1_a'' appendedWorld)
          appendedWorld
      = (([''Hel''], Some overloadedError),
         snd (gemini_sendMessageStream downDeps
                (entryMessages ''anonymous_1_a'' appendedWorld) appendedWorld))"
    using down_stream_anonymous by (simp add: prod_eq_iff)
  then show ?thesis
    by (simp add: anonymousRequest_def trim_question handleModelSwitch_def appendedWorld_def
        migrationWorld_def)
qed

section \<open>Claims\<close>

text \<open>
  C7 (as stated): an ephemeral chat entry created at time T is absent after any sweep
  cycle that runs at or after T + 60 minutes.  The sweep deletes an entry only when its
  age is greater than the timeout, so the sweep that runs exactly at T + 60 minutes
  keeps it: for the registry holding one chat created at time 0, the sweep at
  3600000 ms leaves the chat in place.
\<close>

theorem C7_sweep_at_timeout_keeps_entry:
  "map_of (startAnonymousChatCleanup (0 + 60 * 60 * 1000)
      [(''anonymous_0_abc'',
        \<lparr>chat_id = ''anonymous_0_abc'', chat_title = ''New Chat'', chat_messages = [],
         chat_createdAt = 0, chat_updatedAt = 0\<rparr>)]) ''anonymous_0_abc''
   = Some \<lparr>chat_id = ''anonymous_0_abc'', chat_title = ''New Chat'', chat_messages = [],
         chat_createdAt = 0, chat_updatedAt = 0\<rparr>"
  by (simp add: startAnonymousChatCleanup_def chatsToDelete_def ANONYMOUS_CHAT_TIMEOUT_def)

text \<open>
  C7 (amended): an ephemeral chat entry created at time T is kept by every sweep cycle
  that runs no later than T + 60 minutes (so it is still present at T + 59 minutes,
  whatever sweeps ran until then), and it is absent after any sweep cycle that runs
  later than T + 60 minutes.
\<close>

theorem C7_sweep_expiry:
  assumes "distinct (map fst reg)"
    and "map_of reg chatId = Some chat"
    and "chat_createdAt chat = T"
  shows "(now \<le> T + 60 * 60 * 1000 \<longrightarrow>
            map_of (startAnonymousChatCleanup now reg) chatId = Some chat)
       \<and> ((\<forall>t \<in> set sweeps. t \<le> T + 59 * 60 * 1000) \<longrightarrow>
            map_of (foldl (\<lambda>r t. startAnonymousChatCleanup t r) reg sweeps) chatId = Some chat)
       \<and> (now > T + 60 * 60 * 1000 \<longrightarrow>
            map_of (startAnonymousChatCleanup now reg) chatId = None)"
proof (intro conjI impI)
  assume "now \<le> T + 60 * 60 * 1000"
  then show "map_of (startAnonymousChatCleanup now reg) chatId = Some chat"
    using cleanup_lookup [OF assms(1,2), of now] assms(3)
    by (simp add: ANONYMOUS_CHAT_TIMEOUT_def)
next
  assume "\<forall>t \<in> set sweeps. t \<le> T + 59 * 60 * 1000"
  then have "\<forall>t \<in> set sweeps. t - chat_createdAt chat \<le> ANONYMOUS_CHAT_TIMEOUT"
    using assms(3) by (auto simp: ANONYMOUS_CHAT_TIMEOUT_def)
  then show "map_of (foldl (\<lambda>r t. startAnonymousChatCleanup t r) reg sweeps) chatId = Some chat"
    using cleanups_keep [OF assms(1,2)] by blast
next
  assume "now > T + 60 * 60 * 1000"
  then show "map_of (startAnonymousChatCleanup now reg) chatId = None"
    using cleanup_lookup [OF assms(1,2), of now] assms(3)
    by (simp add: ANONYMOUS_CHAT_TIMEOUT_def)
qed

theorem C7_sweep_expiry_witness:
  "map_of (startAnonymousChatCleanup (59 * 60 * 1000)
      [(''anonymous_0_abc'',
        \<lparr>chat_id = ''anonymous_0_abc'', chat_title = ''New Chat'', chat_messages = [],
         chat_createdAt = 0, chat_updatedAt = 0\<rparr>)]) ''anonymous_0_abc''
   = Some \<lparr>chat_id = ''anonymous_0_abc'', chat_title = ''New Chat'', chat_messages = [],
         chat_createdAt = 0, chat_updatedAt = 0\<rparr>
   \<and> map_of (foldl (\<lambda>r t. startAnonymousChatCleanup t r)
      [(''anonymous_0_abc'',
        \<lparr>chat_id = ''anonymous_0_abc'', chat_title = ''New Chat'', chat_messages = [],
         chat_createdAt = 0, chat_updatedAt = 0\<rparr>)] [30 * 60 * 1000]) ''anonymous_0_abc''
   = Some \<lparr>chat_id = ''anonymous_0_abc'', chat_title = ''New Chat'', chat_messages = [],
         chat_createdAt = 0, chat_updatedAt = 0\<rparr>
   \<and> map_of (startAnonymousChatCleanup (60 * 60 * 1000 + 1)
      [(''anonymous_0_abc'',
        \<lparr>chat_id = ''anonymous_0_abc'', chat_title = ''New Chat'', chat_messages = [],
         chat_createdAt = 0, chat_updatedAt = 0\<rparr>)]) ''anonymous_0_abc'' = None"
proof -
  let ?c = "\<lparr>chat_id = ''anonymous_0_abc'', chat_title = ''New Chat'', chat_messages = [],
         chat_createdAt = 0, chat_updatedAt = 0\<rparr>"
  let ?reg = "[(''anonymous_0_abc'', ?c)]"
  have d: "distinct (map fst ?reg)" by simp
  have l: "map_of ?reg ''anonymous_0_abc'' = Some ?c" by simp
  have c: "chat_createdAt ?c = 0" by simp
  show ?thesis
    using C7_sweep_expiry [OF d l c, of "59 * 60 * 1000" "[30 * 60 * 1000]"]
      C7_sweep_expiry [OF d l c, of "60 * 60 * 1000 + 1" "[]"]
    by simp
qed

text \<open>
  C3 (as stated, refuted). The claim promises the successful result after three
  exchanges whenever the model fails twice with a retryable error and then succeeds.
  The number of retries is the service's \<^verbatim>\<open>retryAttempts\<close>, which the constructor reads
  from \<^verbatim>\<open>GEMINI_RETRY_ATTEMPTS\<close>.  With \<^verbatim>\<open>GEMINI_RETRY_ATTEMPTS=1\<close> and a model that
  fails twice with the overload error and would then answer \<^verbatim>\<open>4\<close>, \<^verbatim>\<open>sendMessage\<close> throws
  the second overload error, wrapped, after two exchanges; the third never starts.
\<close>

theorem C3_budget_of_one_retry_fails:
  "fst (sendMessage flakyEnv userAsks (freshService\<lparr>retryAttempts := 1\<rparr>, noEffects)) =
     Inl (newError (''Failed to get response from Gemini: ''
           @ ''[503 Service Unavailable] The model is overloaded. Please try again later.''))
   \<and> upstreamCalls
        (snd (snd (sendMessage flakyEnv userAsks (freshService\<lparr>retryAttempts := 1\<rparr>, noEffects))))
      = 2"
proof -
  let ?service = "freshService\<lparr>retryAttempts := 1\<rparr>"
  let ?ready = "readyService\<lparr>retryAttempts := 1\<rparr>"
  have init: "initialize flakyEnv ?service = Inr ?ready"
    by (simp add: initialize_def flakyEnv_def freshService_def readyService_def)
  have sum: "0 + 1 = nat (retryAttempts ?ready)"
    by (simp add: readyService_def)
  have fails: "\<forall>k \<le> 1. (\<forall>m h c. upstream flakyEnv (upstreamCalls noEffects + k) m h c
                          = Inl ((\<lambda>k. overloadedError) (0 + k)))
                 \<and> isRetryableError ((\<lambda>k. overloadedError) (0 + k))"
    by (simp add: flakyEnv_def noEffects_def overloadedError_retryable)
  have msg: "instanceofErrorMessage overloadedError =
      ''[503 Service Unavailable] The model is overloaded. Please try again later.''"
    by (simp add: overloadedError_def newError_def)
  show ?thesis
    unfolding sendMessage_def retry_exhausted [OF userAsks_ok init sum fails]
    by (simp add: msg noEffects_def)
qed

text \<open>
  C3 (amended).  On a service that initialises (the API key is configured or a model
  is already active) and on a history that ends with the user's message: if the retry
  budget admits two retries (\<^verbatim>\<open>retryAttempts\<close> is at least 2; the constructor's default
  is 3) and the upstream exchange fails twice with a retryable error and then
  succeeds, \<^verbatim>\<open>sendMessage\<close> returns the successful result and the exchange was started
  exactly three times; with a smaller budget the same model makes \<^verbatim>\<open>sendMessage\<close> throw
  the last error it saw, after one exchange more than the budget (one exchange when
  the budget is not positive); and if the first exchange fails with an error that is
  not retryable, \<^verbatim>\<open>sendMessage\<close> throws at once: one exchange, no delay awaited.
\<close>

theorem C3_retry_then_success_and_no_retry:
  assumes "initialize e this = Inr this0"
    and "messages \<noteq> []" and "message_role (last messages) = USER"
  shows "(2 \<le> retryAttempts this
          \<and> (\<forall>m h c. upstream e (upstreamCalls fx) m h c = Inl err1) \<and> isRetryableError err1
          \<and> (\<forall>m h c. upstream e (upstreamCalls fx + 1) m h c = Inl err2) \<and> isRetryableError err2
          \<and> (\<forall>m h c. upstream e (upstreamCalls fx + 2) m h c = Inr text)
          \<longrightarrow> fst (sendMessage e messages (this, fx)) =
                Inr \<lparr>response_content = text,
                     response_usage = Some \<lparr>promptTokens = 0, responseTokens = 0, totalTokens = 0\<rparr>\<rparr>
              \<and> upstreamCalls (snd (snd (sendMessage e messages (this, fx)))) = upstreamCalls fx + 3)
       \<and> ((\<forall>m h c. upstream e (upstreamCalls fx) m h c = Inl err) \<and> \<not> isRetryableError err
          \<longrightarrow> fst (sendMessage e messages (this, fx)) =
                Inl (newError (''Failed to get response from Gemini: '' @ instanceofErrorMessage err))
              \<and> upstreamCalls (snd (snd (sendMessage e messages (this, fx)))) = upstreamCalls fx + 1
              \<and> delays (snd (snd (sendMessage e messages (this, fx)))) = delays fx)
       \<and> (retryAttempts this < 2
          \<and> (\<forall>m h c. upstream e (upstreamCalls fx) m h c = Inl err1) \<and> isRetryableError err1
          \<and> (\<forall>m h c. upstream e (upstreamCalls fx + 1) m h c = Inl err2) \<and> isRetryableError err2
          \<longrightarrow> fst (sendMessage e messages (this, fx)) =
                Inl (newError (''Failed to get response from Gemini: ''
                       @ instanceofErrorMessage (if retryAttempts this < 1 then err1 else err2)))
              \<and> upstreamCalls (snd (snd (sendMessage e messages (this, fx)))) =
                  upstreamCalls fx + nat (retryAttempts this) + 1)"
proof (intro conjI impI)
  assume h: "2 \<le> retryAttempts this
          \<and> (\<forall>m h c. upstream e (upstreamCalls fx) m h c = Inl err1) \<and> isRetryableError err1
          \<and> (\<forall>m h c. upstream e (upstreamCalls fx + 1) m h c = Inl err2) \<and> isRetryableError err2
          \<and> (\<forall>m h c. upstream e (upstreamCalls fx + 2) m h c = Inr text)"
  note init0 = initialize_idem(1) [OF assms(1)]
  note msgs = assms(2,3)
  let ?fx1 = "fx\<lparr>upstreamCalls := upstreamCalls fx + 1, randomDraws := randomDraws fx + 1,
      delays := delays fx @ [calculateRetryDelay this0 0 (random e (randomDraws fx))]\<rparr>"
  let ?fx2 = "?fx1\<lparr>upstreamCalls := upstreamCalls ?fx1 + 1, randomDraws := randomDraws ?fx1 + 1,
      delays := delays ?fx1 @ [calculateRetryDelay this0 (0 + 1) (random e (randomDraws ?fx1))]\<rparr>"
  have budget0: "2 \<le> retryAttempts this0"
    using h initialize_idem(4) [OF assms(1)] by simp
  have s1: "sendMessageWithRetry e messages 0 (this, fx) =
              sendMessageWithRetry e messages (0 + 1) (this0, ?fx1)"
    using h by (intro retry_step_again [OF assms(1) msgs]) auto
  have s2: "sendMessageWithRetry e messages (0 + 1) (this0, ?fx1) =
              sendMessageWithRetry e messages (0 + 1 + 1) (this0, ?fx2)"
    using h budget0 by (intro retry_step_again [OF init0 msgs]) auto
  have s3: "sendMessageWithRetry e messages (0 + 1 + 1) (this0, ?fx2) =
              (Inr \<lparr>response_content = text,
                 response_usage = Some \<lparr>promptTokens = 0, responseTokens = 0, totalTokens = 0\<rparr>\<rparr>,
               this0, ?fx2\<lparr>upstreamCalls := upstreamCalls ?fx2 + 1\<rparr>)"
    using h by (intro retry_step_success [OF init0 msgs]) (simp add: numeral_2_eq_2)
  show "fst (sendMessage e messages (this, fx)) =
                Inr \<lparr>response_content = text,
                     response_usage = Some \<lparr>promptTokens = 0, responseTokens = 0, totalTokens = 0\<rparr>\<rparr>"
    unfolding sendMessage_def s1 s2 s3 by simp
  show "upstreamCalls (snd (snd (sendMessage e messages (this, fx)))) = upstreamCalls fx + 3"
    unfolding sendMessage_def s1 s2 s3 by simp
next
  assume h: "(\<forall>m h c. upstream e (upstreamCalls fx) m h c = Inl err) \<and> \<not> isRetryableError err"
  then have fin: "sendMessageWithRetry e messages 0 (this, fx) =
           (Inl (newError (''Failed to get response from Gemini: '' @ instanceofErrorMessage err)),
            this0, fx\<lparr>upstreamCalls := upstreamCalls fx + 1\<rparr>)"
    by (intro retry_step_final [OF assms]) auto
  show "fst (sendMessage e messages (this, fx)) =
                Inl (newError (''Failed to get response from Gemini: '' @ instanceofErrorMessage err))"
    unfolding sendMessage_def fin by simp
  show "upstreamCalls (snd (snd (sendMessage e messages (this, fx)))) = upstreamCalls fx + 1"
    unfolding sendMessage_def fin by simp
  show "delays (snd (snd (sendMessage e messages (this, fx)))) = delays fx"
    unfolding sendMessage_def fin by simp
next
  assume h: "retryAttempts this < 2
          \<and> (\<forall>m h c. upstream e (upstreamCalls fx) m h c = Inl err1) \<and> isRetryableError err1
          \<and> (\<forall>m h c. upstream e (upstreamCalls fx + 1) m h c = Inl err2) \<and> isRetryableError err2"
  let ?n = "nat (retryAttempts this)"
  let ?errs = "\<lambda>k. if k = 0 then err1 else err2"
  have budget: "retryAttempts this0 = retryAttempts this"
    by (rule initialize_idem(4) [OF assms(1)])
  have sum: "0 + ?n = nat (retryAttempts this0)"
    by (simp add: budget)
  have small: "?n = 0 \<or> ?n = 1"
    using h by linarith
  have fails: "\<forall>k \<le> ?n. (\<forall>m h c. upstream e (upstreamCalls fx + k) m h c = Inl (?errs (0 + k)))
                 \<and> isRetryableError (?errs (0 + k))"
  proof (intro allI impI)
    fix k assume "k \<le> ?n"
    with small have "k = 0 \<or> k = 1" by linarith
    with h show "(\<forall>m h c. upstream e (upstreamCalls fx + k) m h c = Inl (?errs (0 + k)))
                 \<and> isRetryableError (?errs (0 + k))"
      by auto
  qed
  have last: "?errs (0 + ?n) = (if retryAttempts this < 1 then err1 else err2)"
    by simp
  note run = retry_exhausted [OF assms(2,3) assms(1) sum fails, unfolded last]
  show "fst (sendMessage e messages (this, fx)) =
                Inl (newError (''Failed to get response from Gemini: ''
                       @ instanceofErrorMessage (if retryAttempts this < 1 then err1 else err2)))"
    unfolding sendMessage_def run by simp
  show "upstreamCalls (snd (snd (sendMessage e messages (this, fx)))) =
                  upstreamCalls fx + nat (retryAttempts this) + 1"
    unfolding sendMessage_def run by simp
qed

theorem C3_retry_then_success_and_no_retry_witness:
  "fst (sendMessage flakyEnv userAsks (freshService, noEffects)) =
     Inr \<lparr>response_content = ''4'',
          response_usage = Some \<lparr>promptTokens = 0, responseTokens = 0, totalTokens = 0\<rparr>\<rparr>
   \<and> upstreamCalls (snd (snd (sendMessage flakyEnv userAsks (freshService, noEffects)))) = 3
   \<and> fst (sendMessage fatalEnv userAsks (freshService, noEffects)) =
       Inl (newError (''Failed to get response from Gemini: ''
             @ ''[400 Bad Request] API key not valid. Please pass a valid API key.''))
   \<and> upstreamCalls (snd (snd (sendMessage fatalEnv userAsks (freshService, noEffects)))) = 1
   \<and> delays (snd (snd (sendMessage fatalEnv userAsks (freshService, noEffects)))) = []
   \<and> upstreamCalls
        (snd (snd (sendMessage flakyEnv userAsks (freshService\<lparr>retryAttempts := 0\<rparr>, noEffects))))
      = 1"
proof -
  have i1: "initialize flakyEnv freshService = Inr readyService"
    by (rule fresh_initialize) (simp add: flakyEnv_def)
  have i2: "initialize fatalEnv freshService = Inr readyService"
    by (rule fresh_initialize) (simp add: fatalEnv_def)
  have flaky: "2 \<le> retryAttempts freshService
      \<and> (\<forall>m h c. upstream flakyEnv (upstreamCalls noEffects) m h c = Inl overloadedError)
      \<and> isRetryableError overloadedError
      \<and> (\<forall>m h c. upstream flakyEnv (upstreamCalls noEffects + 1) m h c = Inl overloadedError)
      \<and> isRetryableError overloadedError
      \<and> (\<forall>m h c. upstream flakyEnv (upstreamCalls noEffects + 2) m h c = Inr ''4'')"
    by (simp add: freshService_def flakyEnv_def noEffects_def overloadedError_retryable)
  have fatal: "(\<forall>m h c. upstream fatalEnv (upstreamCalls noEffects) m h c = Inl invalidKey)
      \<and> \<not> isRetryableError invalidKey"
    by (simp add: fatalEnv_def invalidKey_not_retryable)
  have msg: "instanceofErrorMessage invalidKey =
      ''[400 Bad Request] API key not valid. Please pass a valid API key.''"
    by (simp add: invalidKey_def newError_def)
  have i3: "initialize flakyEnv (freshService\<lparr>retryAttempts := 0\<rparr>)
      = Inr (readyService\<lparr>retryAttempts := 0\<rparr>)"
    by (simp add: initialize_def flakyEnv_def freshService_def readyService_def)
  have small: "retryAttempts (freshService\<lparr>retryAttempts := 0\<rparr>) < 2
      \<and> (\<forall>m h c. upstream flakyEnv (upstreamCalls noEffects) m h c = Inl overloadedError)
      \<and> isRetryableError overloadedError
      \<and> (\<forall>m h c. upstream flakyEnv (upstreamCalls noEffects + 1) m h c = Inl overloadedError)
      \<and> isRetryableError overloadedError"
    by (simp add: flakyEnv_def noEffects_def overloadedError_retryable)
  have few: "upstreamCalls
        (snd (snd (sendMessage flakyEnv userAsks (freshService\<lparr>retryAttempts := 0\<rparr>, noEffects))))
      = 1"
    using C3_retry_then_success_and_no_retry [OF i3 userAsks_ok,
        of noEffects overloadedError overloadedError "''4''" invalidKey] small
    by (simp add: noEffects_def)
  show ?thesis
    using few C3_retry_then_success_and_no_retry [OF i1 userAsks_ok,
        of noEffects overloadedError overloadedError "''4''" invalidKey]
      C3_retry_then_success_and_no_retry [OF i2 userAsks_ok,
        of noEffects invalidKey invalidKey "''4''" invalidKey]
      flaky fatal msg
    by (simp add: noEffects_def)
qed

text \<open>
  C8: on a service that initialises (a model is already active, or the API key is
  configured), \<^verbatim>\<open>switchModel\<close> with a name outside the allow-list throws the
  invalid-model error and leaves the service as initialisation gives it, which is the
  service unchanged when a model was already active; with a name of the allow-list it
  returns and the active model is the named one, with the fixed generation
  configuration.
\<close>

theorem C8_switchModel_allow_list:
  assumes "initialize e this = Inr this0"
  shows "(modelName \<notin> set getAvailableModels \<longrightarrow>
            switchModel e modelName this =
              (Inl (newError (''Model '' @ modelName @
                 '' is not available. Available models: gemini-2.5-flash, gemini-2.5-pro'')), this0)
            \<and> (genAI this \<noteq> None \<and> model this \<noteq> None \<longrightarrow>
                 snd (switchModel e modelName this) = this))
       \<and> (modelName \<in> set getAvailableModels \<longrightarrow>
            switchModel e modelName this =
              (Inr (), this0\<lparr>model := Some (getGenerativeModel modelName)\<rparr>)
            \<and> model (snd (switchModel e modelName this)) =
                Some \<lparr>model_name = modelName, temperature = 7 / 10, topP = 8 / 10, topK = 40,
                      maxOutputTokens = 2048\<rparr>)"
proof (intro conjI impI)
  assume out: "modelName \<notin> set getAvailableModels"
  show bad: "switchModel e modelName this =
              (Inl (newError (''Model '' @ modelName @
                 '' is not available. Available models: gemini-2.5-flash, gemini-2.5-pro'')), this0)"
    using out assms by (simp add: switchModel_def Let_def) (simp add: getAvailableModels_def)
  assume "genAI this \<noteq> None \<and> model this \<noteq> None"
  then have "initialize e this = Inr this" by (simp add: initialize_initialized)
  with assms have "this0 = this" by simp
  with bad show "snd (switchModel e modelName this) = this" by simp
next
  assume inside: "modelName \<in> set getAvailableModels"
  then show good: "switchModel e modelName this =
              (Inr (), this0\<lparr>model := Some (getGenerativeModel modelName)\<rparr>)"
    using assms by (simp add: switchModel_def Let_def)
  show "model (snd (switchModel e modelName this)) =
                Some \<lparr>model_name = modelName, temperature = 7 / 10, topP = 8 / 10, topK = 40,
                      maxOutputTokens = 2048\<rparr>"
    unfolding good by (simp add: getGenerativeModel_def)
qed

theorem C8_switchModel_allow_list_witness:
  "switchModel flakyEnv ''not-a-model'' readyService =
     (Inl (newError ''Model not-a-model is not available. Available models: gemini-2.5-flash, gemini-2.5-pro''),
      readyService)
   \<and> snd (switchModel flakyEnv ''not-a-model'' readyService) = readyService
   \<and> switchModel flakyEnv ''gemini-2.5-pro'' readyService =
     (Inr (), readyService\<lparr>model := Some (getGenerativeModel ''gemini-2.5-pro'')\<rparr>)
   \<and> model (snd (switchModel flakyEnv ''gemini-2.5-pro'' readyService)) =
       Some \<lparr>model_name = ''gemini-2.5-pro'', temperature = 7 / 10, topP = 8 / 10, topK = 40,
             maxOutputTokens = 2048\<rparr>"
proof -
  have ready: "genAI readyService \<noteq> None \<and> model readyService \<noteq> None"
    by (simp add: readyService_def)
  then have i: "initialize flakyEnv readyService = Inr readyService"
    by (simp add: initialize_initialized)
  have out: "''not-a-model'' \<notin> set getAvailableModels"
    by (simp add: getAvailableModels_def)
  have inside: "''gemini-2.5-pro'' \<in> set getAvailableModels"
    by (simp add: getAvailableModels_def)
  show ?thesis
    using C8_switchModel_allow_list [OF i, of "''not-a-model''"]
      C8_switchModel_allow_list [OF i, of "''gemini-2.5-pro''"] ready out inside
    by (simp add: getGenerativeModel_def)
qed

text \<open>
  C9: for every attempt number \<open>n\<close> and every random number \<open>rnd\<close> of \<^verbatim>\<open>Math.random()\<close>'s
  range, the retry delay is \<open>retryDelay * 2 ^ n\<close> plus the jitter \<open>rnd * 1000\<close>, which is
  less than one second, capped at 30 seconds.  And when every attempt up to the
  configured maximum fails with a retryable error, \<^verbatim>\<open>sendMessage\<close> makes one attempt for
  each number from 0 to \<^verbatim>\<open>retryAttempts\<close>, awaits these delays between them, and throws
  the last attempt's error (wrapped in the gateway's own message).
\<close>

theorem C9_backoff_delay_and_exhaustion:
  "(0 \<le> rnd \<and> rnd < 1 \<longrightarrow>
       calculateRetryDelay this n rnd =
         min (real_of_int (retryDelay this) * 2 ^ n + rnd * 1000) 30000
     \<and> 0 \<le> rnd * 1000 \<and> rnd * 1000 < 1000
     \<and> calculateRetryDelay this n rnd \<le> 30000)
   \<and> (initialize e this = Inr this0
       \<and> messages \<noteq> [] \<and> message_role (last messages) = USER
       \<and> (\<forall>k \<le> nat (retryAttempts this).
             (\<forall>m h c. upstream e (upstreamCalls fx + k) m h c = Inl (errs k))
             \<and> isRetryableError (errs k))
     \<longrightarrow> sendMessage e messages (this, fx) =
           (Inl (newError (''Failed to get response from Gemini: ''
                   @ instanceofErrorMessage (errs (nat (retryAttempts this))))),
            this0,
            fx\<lparr>upstreamCalls := upstreamCalls fx + nat (retryAttempts this) + 1,
               randomDraws := randomDraws fx + nat (retryAttempts this),
               delays := delays fx @
                 map (\<lambda>k. calculateRetryDelay this0 k (random e (randomDraws fx + k)))
                   [0..<nat (retryAttempts this)]\<rparr>))"
proof (intro conjI impI)
  assume "0 \<le> rnd \<and> rnd < 1"
  then show "0 \<le> rnd * 1000" and "rnd * 1000 < 1000" by simp_all
next
  show "calculateRetryDelay this n rnd =
         min (real_of_int (retryDelay this) * 2 ^ n + rnd * 1000) 30000"
    by (simp add: calculateRetryDelay_def Let_def)
  show "calculateRetryDelay this n rnd \<le> 30000"
    by (simp add: calculateRetryDelay_def Let_def)
next
  assume h: "initialize e this = Inr this0
       \<and> messages \<noteq> [] \<and> message_role (last messages) = USER
       \<and> (\<forall>k \<le> nat (retryAttempts this).
             (\<forall>m h c. upstream e (upstreamCalls fx + k) m h c = Inl (errs k))
             \<and> isRetryableError (errs k))"
  then have init: "initialize e this = Inr this0"
    and msgs: "messages \<noteq> []" "message_role (last messages) = USER"
    by simp_all
  have same: "retryAttempts this0 = retryAttempts this"
    using initialize_idem(4) [OF init] .
  have all: "\<forall>k \<le> nat (retryAttempts this).
             (\<forall>m h c. upstream e (upstreamCalls fx + k) m h c = Inl (errs (0 + k)))
             \<and> isRetryableError (errs (0 + k))"
    using h by simp
  have "0 + nat (retryAttempts this) = nat (retryAttempts this0)"
    using same by simp
  from retry_exhausted [OF msgs init this all]
  show "sendMessage e messages (this, fx) =
           (Inl (newError (''Failed to get response from Gemini: ''
                   @ instanceofErrorMessage (errs (nat (retryAttempts this))))),
            this0,
            fx\<lparr>upstreamCalls := upstreamCalls fx + nat (retryAttempts this) + 1,
               randomDraws := randomDraws fx + nat (retryAttempts this),
               delays := delays fx @
                 map (\<lambda>k. calculateRetryDelay this0 k (random e (randomDraws fx + k)))
                   [0..<nat (retryAttempts this)]\<rparr>)"
    by (simp add: sendMessage_def)
qed

theorem C9_backoff_delay_and_exhaustion_witness:
  "calculateRetryDelay freshService 2 (1 / 2) = 4500
   \<and> calculateRetryDelay freshService 5 (1 / 2) = 30000
   \<and> sendMessage downEnv userAsks (freshService, noEffects) =
       (Inl (newError (''Failed to get response from Gemini: ''
              @ ''[503 Service Unavailable] The model is overloaded. Please try again later.'')),
        readyService,
        \<lparr>upstreamCalls = 4, randomDraws = 3, delays = [1500, 2500, 4500]\<rparr>)"
proof -
  have r: "(0::real) \<le> 1 / 2 \<and> (1 / 2 :: real) < 1" by simp
  have i: "initialize downEnv freshService = Inr readyService"
    by (rule fresh_initialize) (simp add: downEnv_def)
  have n: "nat (retryAttempts freshService) = 3" by (simp add: freshService_def)
  have all: "\<forall>k \<le> nat (retryAttempts freshService).
      (\<forall>m h c. upstream downEnv (upstreamCalls noEffects + k) m h c = Inl ((\<lambda>k. overloadedError) k))
      \<and> isRetryableError ((\<lambda>k. overloadedError) k)"
    by (simp add: downEnv_def overloadedError_retryable)
  have msg: "instanceofErrorMessage overloadedError =
      ''[503 Service Unavailable] The model is overloaded. Please try again later.''"
    by (simp add: overloadedError_def newError_def)
  have d: "calculateRetryDelay readyService 0 (1 / 2) = 1500"
    "calculateRetryDelay readyService (Suc 0) (1 / 2) = 2500"
    "calculateRetryDelay readyService 2 (1 / 2) = 4500"
    by (simp_all add: calculateRetryDelay_def readyService_def freshService_def)
  have up: "[0..<3] = [0, 1, 2]" by (simp add: upt_rec)
  have run0: "sendMessage downEnv userAsks (freshService, noEffects) =
       (Inl (newError (''Failed to get response from Gemini: ''
              @ instanceofErrorMessage ((\<lambda>k. overloadedError) (nat (retryAttempts freshService))))),
        readyService,
        noEffects\<lparr>upstreamCalls := upstreamCalls noEffects + nat (retryAttempts freshService) + 1,
           randomDraws := randomDraws noEffects + nat (retryAttempts freshService),
           delays := delays noEffects @
             map (\<lambda>k. calculateRetryDelay readyService k (random downEnv (randomDraws noEffects + k)))
               [0..<nat (retryAttempts freshService)]\<rparr>)"
    using C9_backoff_delay_and_exhaustion [of "1 / 2" freshService 2 downEnv readyService
        userAsks noEffects "\<lambda>k. overloadedError", THEN conjunct2, THEN mp,
        OF conjI [OF i conjI [OF userAsks_ok(1) conjI [OF userAsks_ok(2) all]]]] .
  have rnd: "random downEnv = (\<lambda>n. 1 / 2)" by (simp add: downEnv_def)
  have run: "sendMessage downEnv userAsks (freshService, noEffects) =
       (Inl (newError (''Failed to get response from Gemini: ''
              @ ''[503 Service Unavailable] The model is overloaded. Please try again later.'')),
        readyService,
        \<lparr>upstreamCalls = 4, randomDraws = 3, delays = [1500, 2500, 4500]\<rparr>)"
    unfolding run0 n msg up rnd by (simp add: d noEffects_def)
  have c2: "calculateRetryDelay freshService 2 (1 / 2) = 4500"
    using C9_backoff_delay_and_exhaustion [of "1 / 2" freshService 2 downEnv readyService
        userAsks noEffects "\<lambda>k. overloadedError"] r
    by (simp add: freshService_def)
  have c5: "calculateRetryDelay freshService 5 (1 / 2) = 30000"
    using C9_backoff_delay_and_exhaustion [of "1 / 2" freshService 5 downEnv readyService
        userAsks noEffects "\<lambda>k. overloadedError"] r
    by (simp add: freshService_def)
  from c2 c5 run show ?thesis by simp
qed







text \<open>
  C6: the correction cycle is bounded.  \<^verbatim>\<open>executeToolCallsAndRespond\<close> and
  \<^verbatim>\<open>retryWithLLMCorrection\<close> are total functions (their mutual recursion terminates), and
  a run entered with \<^verbatim>\<open>retryCount = 0\<close> makes at most 2 corrections and at most 3 failed
  executions.  When an execution fails with the budget exhausted, the loop throws; when
  the model answers a correction request with the give-up marker or with no parseable
  directive, the correction throws.  And whatever the \<^verbatim>\<open>try\<close> block of
  \<^verbatim>\<open>processWithMCPIntegration\<close> throws, in particular the error of a failed tool loop,
  the caller gets what the plain completion on the chat history gives.
\<close>

theorem C6_correction_cycle_bounded_with_fallback:
  "correctionAttempts (console (snd (executeToolCallsAndRespond d toolCalls originalMessage
       chatHistory 0 w)))
     \<le> correctionAttempts (console w) + 2
   \<and> failedExecutions (console (snd (executeToolCallsAndRespond d toolCalls originalMessage
       chatHistory 0 w)))
     \<le> failedExecutions (console w) + 3
   \<and> (executeToolCallsAndRespond_try d toolCalls originalMessage chatHistory w = (Inl error, w1)
        \<and> MAX_RETRIES \<le> retryCount
      \<longrightarrow> fst (executeToolCallsAndRespond d toolCalls originalMessage chatHistory retryCount w)
            = Inl (newError ''MCP tool execution failed after maximum retry attempts''))
   \<and> (getMCPToolsContext d (mcpContextCalls w) = Inr mcpContext
        \<and> toolCalls = first # others
        \<and> messageInTemplate error = Inr errorMessage
        \<and> gemini_sendMessageWithFallback d
             (chatHistory @
                [promptMessage (correctionPrompt mcpContext originalMessage (toolName first)
                   (JSON_stringify d (arguments first)) errorMessage)])
             (w\<lparr>console := console w @ [AttemptingAutoCorrection (retryCount + 1)],
                mcpContextCalls := mcpContextCalls w + 1\<rparr>) = (Inr llmCorrection, w2)
        \<and> (includesStr (response_content llmCorrection) ''ERROR_UNABLE_TO_FIX''
             \<or> extractToolCalls (JSON_parse_of d) (response_content llmCorrection) = [])
      \<longrightarrow> fst (retryWithLLMCorrection d toolCalls originalMessage chatHistory error retryCount w)
            = Inl (newError ''Error occurred during LLM error correction attempt''))
   \<and> (processWithMCPIntegration_try d message chatHistory w = (Inl error, w1)
      \<longrightarrow> processWithMCPIntegration d message chatHistory w =
            gemini_sendMessageWithFallback d chatHistory
              (w1\<lparr>console := console w1 @ [MCPIntegrationFailed error]\<rparr>))
   \<and> (getMCPToolsContext d (mcpContextCalls w) = Inr mcpContext
        \<and> gemini_sendMessage d (chatHistory @ [promptMessage (systemPrompt mcpContext message)])
             (w\<lparr>mcpContextCalls := mcpContextCalls w + 1\<rparr>) = (Inr llmResponse, w2)
        \<and> extractToolCalls (JSON_parse_of d) (response_content llmResponse) \<noteq> []
        \<and> executeToolCallsAndRespond d
             (extractToolCalls (JSON_parse_of d) (response_content llmResponse))
             message chatHistory 0 w2 = (Inl error, w3)
      \<longrightarrow> processWithMCPIntegration d message chatHistory w =
            gemini_sendMessageWithFallback d chatHistory
              (w3\<lparr>console := console w3 @ [MCPIntegrationFailed error]\<rparr>))"
proof (intro conjI impI)
  show "correctionAttempts (console (snd (executeToolCallsAndRespond d toolCalls originalMessage
       chatHistory 0 w)))
     \<le> correctionAttempts (console w) + 2"
    using correction_cycle_bounded(1) [of d toolCalls originalMessage chatHistory 0 w]
    by (simp add: MAX_RETRIES_def)
  show "failedExecutions (console (snd (executeToolCallsAndRespond d toolCalls originalMessage
       chatHistory 0 w)))
     \<le> failedExecutions (console w) + 3"
    using correction_cycle_bounded(1) [of d toolCalls originalMessage chatHistory 0 w]
    by (simp add: MAX_RETRIES_def)
next
  assume "executeToolCallsAndRespond_try d toolCalls originalMessage chatHistory w = (Inl error, w1)
        \<and> MAX_RETRIES \<le> retryCount"
  then show "fst (executeToolCallsAndRespond d toolCalls originalMessage chatHistory retryCount w)
            = Inl (newError ''MCP tool execution failed after maximum retry attempts'')"
    by (simp add: execute_budget_exhausted)
next
  assume "getMCPToolsContext d (mcpContextCalls w) = Inr mcpContext
        \<and> toolCalls = first # others
        \<and> messageInTemplate error = Inr errorMessage
        \<and> gemini_sendMessageWithFallback d
             (chatHistory @
                [promptMessage (correctionPrompt mcpContext originalMessage (toolName first)
                   (JSON_stringify d (arguments first)) errorMessage)])
             (w\<lparr>console := console w @ [AttemptingAutoCorrection (retryCount + 1)],
                mcpContextCalls := mcpContextCalls w + 1\<rparr>) = (Inr llmCorrection, w2)
        \<and> (includesStr (response_content llmCorrection) ''ERROR_UNABLE_TO_FIX''
             \<or> extractToolCalls (JSON_parse_of d) (response_content llmCorrection) = [])"
  then show "fst (retryWithLLMCorrection d toolCalls originalMessage chatHistory error retryCount w)
            = Inl (newError ''Error occurred during LLM error correction attempt'')"
    by (intro retry_gives_up [of d w mcpContext toolCalls first others error errorMessage
          chatHistory originalMessage retryCount llmCorrection w2]) simp_all
next
  assume "processWithMCPIntegration_try d message chatHistory w = (Inl error, w1)"
  then show "processWithMCPIntegration d message chatHistory w =
            gemini_sendMessageWithFallback d chatHistory
              (w1\<lparr>console := console w1 @ [MCPIntegrationFailed error]\<rparr>)"
    by (simp add: processWithMCPIntegration_def)
next
  assume "getMCPToolsContext d (mcpContextCalls w) = Inr mcpContext
        \<and> gemini_sendMessage d (chatHistory @ [promptMessage (systemPrompt mcpContext message)])
             (w\<lparr>mcpContextCalls := mcpContextCalls w + 1\<rparr>) = (Inr llmResponse, w2)
        \<and> extractToolCalls (JSON_parse_of d) (response_content llmResponse) \<noteq> []
        \<and> executeToolCallsAndRespond d
             (extractToolCalls (JSON_parse_of d) (response_content llmResponse))
             message chatHistory 0 w2 = (Inl error, w3)"
  then have "processWithMCPIntegration_try d message chatHistory w = (Inl error, w3)"
    by (simp add: processWithMCPIntegration_try_def Let_def)
  then show "processWithMCPIntegration d message chatHistory w =
            gemini_sendMessageWithFallback d chatHistory
              (w3\<lparr>console := console w3 @ [MCPIntegrationFailed error]\<rparr>)"
    by (simp add: processWithMCPIntegration_def)
qed

theorem C6_correction_cycle_bounded_with_fallback_witness:
  "fst (processWithMCPIntegration stubbornDeps ''2+2?'' userAsks freshWorld) =
     Inr \<lparr>response_content = ''4'',
          response_usage = Some \<lparr>promptTokens = 0, responseTokens = 0, totalTokens = 0\<rparr>\<rparr>
   \<and> correctionAttempts (console (snd (processWithMCPIntegration stubbornDeps ''2+2?'' userAsks
         freshWorld))) = 2
   \<and> failedExecutions (console (snd (processWithMCPIntegration stubbornDeps ''2+2?'' userAsks
         freshWorld))) = 3
   \<and> fst (executeToolCallsAndRespond stubbornDeps
            [\<lparr>toolName = ''search'', arguments = JObject []\<rparr>] ''2+2?'' userAsks 2 freshWorld)
       = Inl (newError ''MCP tool execution failed after maximum retry attempts'')
   \<and> fst (retryWithLLMCorrection givingUpDeps
            [\<lparr>toolName = ''search'', arguments = JObject []\<rparr>] ''2+2?'' userAsks
            (newError ''Invalid operator'') 0
            (freshWorld\<lparr>geminiState := (freshService, noEffects\<lparr>upstreamCalls := 1\<rparr>)\<rparr>))
       = Inl (newError ''Error occurred during LLM error correction attempt'')"
proof -
  let ?call = "\<lparr>toolName = ''search'', arguments = JObject []\<rparr>"
  let ?body = "processWithMCPIntegration_try stubbornDeps ''2+2?'' userAsks freshWorld"
  let ?E = "newError ''Error occurred during LLM error correction attempt''"
  have "fst ?body = Inl ?E" by code_simp
  then have t: "?body = (Inl ?E, snd ?body)" by (simp add: prod_eq_iff)
  have fallback: "processWithMCPIntegration stubbornDeps ''2+2?'' userAsks freshWorld =
      gemini_sendMessageWithFallback stubbornDeps userAsks
        ((snd ?body)\<lparr>console := console (snd ?body) @ [MCPIntegrationFailed ?E]\<rparr>)"
    using C6_correction_cycle_bounded_with_fallback
      [where d = stubbornDeps and message = "''2+2?''" and chatHistory = userAsks
        and w = freshWorld and error = ?E and ?w1.0 = "snd ?body"] t
    by blast
  have answer: "fst (gemini_sendMessageWithFallback stubbornDeps userAsks
        ((snd ?body)\<lparr>console := console (snd ?body) @ [MCPIntegrationFailed ?E]\<rparr>)) =
     Inr \<lparr>response_content = ''4'',
          response_usage = Some \<lparr>promptTokens = 0, responseTokens = 0, totalTokens = 0\<rparr>\<rparr>"
    by code_simp
  have corrections: "correctionAttempts (console (snd (gemini_sendMessageWithFallback stubbornDeps
        userAsks ((snd ?body)\<lparr>console := console (snd ?body) @ [MCPIntegrationFailed ?E]\<rparr>)))) = 2"
    by code_simp
  have failures: "failedExecutions (console (snd (gemini_sendMessageWithFallback stubbornDeps
        userAsks ((snd ?body)\<lparr>console := console (snd ?body) @ [MCPIntegrationFailed ?E]\<rparr>)))) = 3"
    by code_simp
  let ?x = "executeToolCallsAndRespond_try stubbornDeps [?call] ''2+2?'' userAsks freshWorld"
  have "fst ?x = Inl (newError ''Invalid operator'')" by code_simp
  then have x: "?x = (Inl (newError ''Invalid operator''), snd ?x)" by (simp add: prod_eq_iff)
  have exhausted: "fst (executeToolCallsAndRespond stubbornDeps [?call] ''2+2?'' userAsks 2 freshWorld)
       = Inl (newError ''MCP tool execution failed after maximum retry attempts'')"
    using C6_correction_cycle_bounded_with_fallback
      [where d = stubbornDeps and toolCalls = "[?call]" and originalMessage = "''2+2?''"
        and chatHistory = userAsks and w = freshWorld and error = "newError ''Invalid operator''"
        and ?w1.0 = "snd ?x" and retryCount = 2] x
    by (simp add: MAX_RETRIES_def)
  let ?w = "freshWorld\<lparr>geminiState := (freshService, noEffects\<lparr>upstreamCalls := 1\<rparr>)\<rparr>"
  let ?g = "gemini_sendMessageWithFallback givingUpDeps
             (userAsks @
                [promptMessage (correctionPrompt ''Available tools: search'' ''2+2?''
                   (toolName ?call) (JSON_stringify givingUpDeps (arguments ?call))
                   ''Invalid operator'')])
             (?w\<lparr>console := console ?w @ [AttemptingAutoCorrection (0 + 1)],
                mcpContextCalls := mcpContextCalls ?w + 1\<rparr>)"
  let ?giveUp = "\<lparr>response_content = ''ERROR_UNABLE_TO_FIX: no such operator'',
          response_usage = Some \<lparr>promptTokens = 0, responseTokens = 0, totalTokens = 0\<rparr>\<rparr>"
  have "fst ?g = Inr ?giveUp" by code_simp
  then have g: "?g = (Inr ?giveUp, snd ?g)" by (simp add: prod_eq_iff)
  have ctx: "getMCPToolsContext givingUpDeps (mcpContextCalls ?w) = Inr ''Available tools: search''"
    by code_simp
  have em: "messageInTemplate (newError ''Invalid operator'') = Inr ''Invalid operator''"
    by (simp add: newError_def)
  have marker: "includesStr (response_content ?giveUp) ''ERROR_UNABLE_TO_FIX''"
    by code_simp
  have givesUp: "fst (retryWithLLMCorrection givingUpDeps [?call] ''2+2?'' userAsks
            (newError ''Invalid operator'') 0 ?w)
       = Inl (newError ''Error occurred during LLM error correction attempt'')"
    using C6_correction_cycle_bounded_with_fallback
      [where d = givingUpDeps and toolCalls = "[?call]" and originalMessage = "''2+2?''"
        and chatHistory = userAsks and w = ?w and error = "newError ''Invalid operator''"
        and retryCount = 0 and mcpContext = "''Available tools: search''" and first = ?call
        and others = "[]" and errorMessage = "''Invalid operator''" and llmCorrection = ?giveUp
        and ?w2.0 = "snd ?g"] ctx em g marker
    by blast
  from answer corrections failures exhausted givesUp show ?thesis
    unfolding fallback by blast
qed

text \<open>
  C10: for every call of \<^verbatim>\<open>migrateAnonymousChats\<close> with a non-empty list of chats, every
  chat of the list is attempted (one outcome and one \<^verbatim>\<open>createChat\<close> for each, whatever
  the chats before it did); the response is the success envelope listing the chats pushed
  to \<^verbatim>\<open>migratedChats\<close>, in order, when there is at least one, and the internal error
  \<^verbatim>\<open>Failed to migrate any chats\<close> exactly when there is none; and no chat whose migration
  returned has its id in the registry afterwards.
\<close>

theorem C10_migration_skips_failures:
  assumes "chats \<noteq> []"
  shows "length (migrationOutcomes d userId chats w) = length chats
       \<and> length (filter isCreateChat (dbCalls (snd (migrateAnonymousChats d userId chats w)))) =
           length (filter isCreateChat (dbCalls w)) + length chats
       \<and> fst (migrateAnonymousChats d userId chats w) =
           (if pushedChats (migrationOutcomes d userId chats w) = []
            then InternalError ''Failed to migrate any chats''
            else Success (pushedChats (migrationOutcomes d userId chats w)) 200)
       \<and> (\<forall>i < length chats.
             (\<exists>updatedChat. migrationOutcomes d userId chats w ! i = Inr updatedChat) \<longrightarrow>
             \<not> registry_has (anonymousChats (snd (migrateAnonymousChats d userId chats w)))
                 (chat_id (chats ! i)))"
proof -
  obtain migratedChats w1 where l: "migrateLoop d userId chats [] w = (migratedChats, w1)"
    by (cases "migrateLoop d userId chats [] w")
  have pushed: "migratedChats = pushedChats (migrationOutcomes d userId chats w)"
    using migrateLoop_pushed [of d userId chats "[]" w] l by simp
  have final: "snd (migrateAnonymousChats d userId chats w) = snd (migrateLoop d userId chats [] w)"
    using assms l by (simp add: migrateAnonymousChats_def)
  have "fst (migrateAnonymousChats d userId chats w) =
           (if pushedChats (migrationOutcomes d userId chats w) = []
            then InternalError ''Failed to migrate any chats''
            else Success (pushedChats (migrationOutcomes d userId chats w)) 200)"
    using assms l pushed by (simp add: migrateAnonymousChats_def)
  moreover have "length (filter isCreateChat (dbCalls (snd (migrateAnonymousChats d userId chats w)))) =
           length (filter isCreateChat (dbCalls w)) + length chats"
    unfolding final using migrateLoop_effect [of d userId chats "[]" w] by simp
  moreover have "\<forall>i < length chats.
             (\<exists>updatedChat. migrationOutcomes d userId chats w ! i = Inr updatedChat) \<longrightarrow>
             \<not> registry_has (anonymousChats (snd (migrateAnonymousChats d userId chats w)))
                 (chat_id (chats ! i))"
    unfolding final registry_has_iff using migrateLoop_removes [of _ chats d userId w "[]"] by blast
  ultimately show ?thesis
    using migrationOutcomes_length [of d userId chats w] by blast
qed

theorem C10_migration_skips_failures_witness:
  "migrationOutcomes migrationDeps ''user_1'' [anonymousA, anonymousB] migrationWorld =
     [Inl (newError ''connection lost''), Inr (Some durableB)]
   \<and> fst (migrateAnonymousChats migrationDeps ''user_1'' [anonymousA, anonymousB] migrationWorld) =
       Success [durableB] 200
   \<and> length (filter isCreateChat (dbCalls (snd (migrateAnonymousChats migrationDeps ''user_1''
         [anonymousA, anonymousB] migrationWorld)))) = 2
   \<and> \<not> registry_has (anonymousChats (snd (migrateAnonymousChats migrationDeps ''user_1''
         [anonymousA, anonymousB] migrationWorld))) ''anonymous_2_b''"
proof -
  have ne: "[anonymousA, anonymousB] \<noteq> []" by simp
  have out: "migrationOutcomes migrationDeps ''user_1'' [anonymousA, anonymousB] migrationWorld =
     [Inl (newError ''connection lost''), Inr (Some durableB)]"
    by code_simp
  have before: "filter isCreateChat (dbCalls migrationWorld) = []"
    by code_simp
  have b: "chat_id anonymousB = ''anonymous_2_b''" by (simp add: anonymousB_def)
  note c10 = C10_migration_skips_failures [OF ne, of migrationDeps "''user_1''" migrationWorld]
  from c10 have each: "\<forall>i < length [anonymousA, anonymousB].
      (\<exists>updatedChat. migrationOutcomes migrationDeps ''user_1'' [anonymousA, anonymousB]
          migrationWorld ! i = Inr updatedChat) \<longrightarrow>
      \<not> registry_has (anonymousChats (snd (migrateAnonymousChats migrationDeps ''user_1''
         [anonymousA, anonymousB] migrationWorld))) (chat_id ([anonymousA, anonymousB] ! i))"
    by blast
  have "\<not> registry_has (anonymousChats (snd (migrateAnonymousChats migrationDeps ''user_1''
         [anonymousA, anonymousB] migrationWorld))) (chat_id ([anonymousA, anonymousB] ! 1))"
    using each [rule_format, of 1] out by simp
  then have gone: "\<not> registry_has (anonymousChats (snd (migrateAnonymousChats migrationDeps ''user_1''
         [anonymousA, anonymousB] migrationWorld))) ''anonymous_2_b''"
    by (simp add: b)
  from c10 out before gone show ?thesis by simp
qed

text \<open>
  C2 (as stated): in both REST flows, after the user message was persisted and the AI
  response failed, the user message is retained and the error response references the
  existing chat id.  On the chat \<^verbatim>\<open>chat_B\<close> with the model overloaded, the authenticated
  handler stores the user message and answers with the service-unavailable envelope whose
  chat id is absent; on the anonymous chat \<^verbatim>\<open>anonymous_1_a\<close> the handler answers with the
  same envelope, without a chat id, and the chat holds its one old message again: the
  new user message is gone.
\<close>

theorem C2_rest_error_has_no_chat_id:
  "fst (controller_sendMessage downDeps durableRequest freshWorld) =
       ServiceUnavailable
         ''The AI service is temporarily unavailable. Please try again in a few moments.''
         ''LLM_UNAVAILABLE'' (Some 60) None
   \<and> envelopeChatId (fst (controller_sendMessage downDeps durableRequest freshWorld)) = None
   \<and> envelopeChatId (fst (controller_sendAnonymousMessage downDeps anonymousRequest migrationWorld))
       = None
   \<and> entryMessages ''anonymous_1_a'' migrationWorld = userAsks
   \<and> entryMessages ''anonymous_1_a''
       (snd (controller_sendAnonymousMessage downDeps anonymousRequest migrationWorld)) = userAsks"
proof -
  note a = sendMessage_failure_after_persist [OF down_sendMessage_steps]
  note b = sendAnonymousMessage_failure_after_append [OF down_sendAnonymousMessage_steps]
  have "entryMessages ''anonymous_1_a'' migrationWorld = userAsks"
    by (simp add: entryMessages_def migrationWorld_def anonymousA_def)
  with a(1) b show ?thesis
    by (simp add: anonymousRequest_def anonymousA_def)
qed

text \<open>
  C2 (amended): for an authenticated REST send-message request in which the user
  message was persisted and obtaining the AI response then fails, the handler issues no
  deletion after having added the user message (the message is retained), and it answers
  with the service-unavailable envelope (\<^verbatim>\<open>LLM_UNAVAILABLE\<close>, retry after 60 seconds) that
  carries no chat id.  For an anonymous REST send-message request in which the user
  message was appended and the completion then fails, the handler removes the user
  message again, so that the chat holds the messages it held before the request, and
  answers with the same envelope, also without a chat id.
\<close>

theorem C2_rest_failure_after_persist:
  "(\<not> (body_content req = [] \<or> trim (body_content req) = [])
     \<and> databaseService_getChat d (params_chatId req) (Some (user_userId req)) w = (Inr (Some chat), w1)
     \<and> handleModelSwitch d (body_model req) w1 = (Inr u, w2)
     \<and> databaseService_addMessage d (params_chatId req)
          (case body_role req of None \<Rightarrow> USER | Some r \<Rightarrow> r) (trim (body_content req)) None w2
        = (Inr userMessage, w3)
     \<and> controller_sendMessage_try d (params_chatId req) (body_content req) (user_oauthToken req) w3
        = (Inl error, w4)
    \<longrightarrow> fst (controller_sendMessage d req w) =
          ServiceUnavailable
            ''The AI service is temporarily unavailable. Please try again in a few moments.''
            ''LLM_UNAVAILABLE'' (Some 60) None
        \<and> envelopeChatId (fst (controller_sendMessage d req w)) = None
        \<and> (\<exists>later. dbCalls (snd (controller_sendMessage d req w)) =
              dbCalls w
              @ [GetChat (params_chatId req) (Some (user_userId req)),
                 AddMessage (params_chatId req) (case body_role req of None \<Rightarrow> USER | Some r \<Rightarrow> r)
                   (trim (body_content req)) None]
              @ later
            \<and> \<not> list_ex isDeleteChat later))
   \<and> (\<not> (body_content req = [] \<or> trim (body_content req) = [])
     \<and> map_of (anonymousChats w) (params_chatId req) = Some anonymousChat
     \<and> handleModelSwitch d (body_model req) w = (Inr u, w1)
     \<and> gemini_sendMessageWithFallback d
          (entryMessages (params_chatId req)
             (appendUserMessage d (params_chatId req)
                (case body_role req of None \<Rightarrow> USER | Some r \<Rightarrow> r) (body_content req) w1))
          (appendUserMessage d (params_chatId req)
             (case body_role req of None \<Rightarrow> USER | Some r \<Rightarrow> r) (body_content req) w1)
        = (Inl error, w3)
    \<longrightarrow> fst (controller_sendAnonymousMessage d req w) =
          ServiceUnavailable
            ''The AI service is temporarily unavailable. Please try again in a few moments.''
            ''LLM_UNAVAILABLE'' (Some 60) None
        \<and> envelopeChatId (fst (controller_sendAnonymousMessage d req w)) = None
        \<and> entryMessages (params_chatId req) (snd (controller_sendAnonymousMessage d req w)) =
            chat_messages anonymousChat)"
proof (intro conjI impI)
  assume h: "\<not> (body_content req = [] \<or> trim (body_content req) = [])
     \<and> databaseService_getChat d (params_chatId req) (Some (user_userId req)) w = (Inr (Some chat), w1)
     \<and> handleModelSwitch d (body_model req) w1 = (Inr u, w2)
     \<and> databaseService_addMessage d (params_chatId req)
          (case body_role req of None \<Rightarrow> USER | Some r \<Rightarrow> r) (trim (body_content req)) None w2
        = (Inr userMessage, w3)
     \<and> controller_sendMessage_try d (params_chatId req) (body_content req) (user_oauthToken req) w3
        = (Inl error, w4)"
  note facts = sendMessage_failure_after_persist [OF h]
  show "fst (controller_sendMessage d req w) =
          ServiceUnavailable
            ''The AI service is temporarily unavailable. Please try again in a few moments.''
            ''LLM_UNAVAILABLE'' (Some 60) None"
    by (rule facts(1))
  show "envelopeChatId (fst (controller_sendMessage d req w)) = None"
    unfolding facts(1) by simp
  show "\<exists>later. dbCalls (snd (controller_sendMessage d req w)) =
              dbCalls w
              @ [GetChat (params_chatId req) (Some (user_userId req)),
                 AddMessage (params_chatId req) (case body_role req of None \<Rightarrow> USER | Some r \<Rightarrow> r)
                   (trim (body_content req)) None]
              @ later
            \<and> \<not> list_ex isDeleteChat later"
    by (rule facts(2))
next
  assume h: "\<not> (body_content req = [] \<or> trim (body_content req) = [])
     \<and> map_of (anonymousChats w) (params_chatId req) = Some anonymousChat
     \<and> handleModelSwitch d (body_model req) w = (Inr u, w1)
     \<and> gemini_sendMessageWithFallback d
          (entryMessages (params_chatId req)
             (appendUserMessage d (params_chatId req)
                (case body_role req of None \<Rightarrow> USER | Some r \<Rightarrow> r) (body_content req) w1))
          (appendUserMessage d (params_chatId req)
             (case body_role req of None \<Rightarrow> USER | Some r \<Rightarrow> r) (body_content req) w1)
        = (Inl error, w3)"
  note facts = sendAnonymousMessage_failure_after_append [OF h]
  show "fst (controller_sendAnonymousMessage d req w) =
          ServiceUnavailable
            ''The AI service is temporarily unavailable. Please try again in a few moments.''
            ''LLM_UNAVAILABLE'' (Some 60) None"
    by (rule facts(1))
  show "envelopeChatId (fst (controller_sendAnonymousMessage d req w)) = None"
    unfolding facts(1) by simp
  show "entryMessages (params_chatId req) (snd (controller_sendAnonymousMessage d req w)) =
            chat_messages anonymousChat"
    by (rule facts(2))
qed

theorem C2_rest_failure_after_persist_witness:
  "fst (controller_sendMessage downDeps durableRequest freshWorld) =
       ServiceUnavailable
         ''The AI service is temporarily unavailable. Please try again in a few moments.''
         ''LLM_UNAVAILABLE'' (Some 60) None
   \<and> fst (controller_sendAnonymousMessage downDeps anonymousRequest migrationWorld) =
       ServiceUnavailable
         ''The AI service is temporarily unavailable. Please try again in a few moments.''
         ''LLM_UNAVAILABLE'' (Some 60) None
   \<and> entryMessages (params_chatId anonymousRequest)
       (snd (controller_sendAnonymousMessage downDeps anonymousRequest migrationWorld)) =
       chat_messages anonymousA"
  using C2_rest_failure_after_persist
      [where d = downDeps and req = durableRequest and w = freshWorld,
        THEN conjunct1, THEN mp, OF down_sendMessage_steps]
    C2_rest_failure_after_persist
      [where d = downDeps and req = anonymousRequest and w = migrationWorld,
        THEN conjunct2, THEN mp, OF down_sendAnonymousMessage_steps]
  by simp

text \<open>
  C1 (as stated, refuted). The claim wants the error event of a streaming request that
  fails after the user message was stored to report the chat id. The chat \<^verbatim>\<open>chat_B\<close>
  exists, the user message is stored, the token stream breaks after the fragment
  \<^verbatim>\<open>Hel\<close>: the channel carries that chunk and then the error event, whose fields are
  \<^verbatim>\<open>type\<close> and \<^verbatim>\<open>error\<close>; it has no field \<^verbatim>\<open>chatId\<close>, and its text does not name the chat.
  The anonymous flow on the chat \<^verbatim>\<open>anonymous_1_a\<close> writes the same two events.
\<close>

theorem C1_stream_error_has_no_chat_id:
  "written (fst (controller_sendMessageStream downDeps durableRequest freshWorld))
     = [chunkEvent ''Hel'',
        [(''type'', SseString ''error''),
         (''error'', SseString
            ''The AI service is temporarily unavailable. Please try again in a few moments.'')]]
   \<and> map_of (last (written (fst (controller_sendMessageStream downDeps durableRequest freshWorld))))
        ''chatId'' = None
   \<and> written (fst (controller_sendAnonymousMessageStream downDeps anonymousRequest migrationWorld))
     = [chunkEvent ''Hel'',
        [(''type'', SseString ''error''),
         (''error'', SseString
            ''The AI service is temporarily unavailable. Please try again in a few moments.'')]]
   \<and> map_of (last (written (fst (controller_sendAnonymousMessageStream downDeps anonymousRequest
        migrationWorld)))) ''chatId'' = None"
proof -
  note a = sendMessageStream_failure_after_persist [OF down_sendMessageStream_steps]
  note b = sendAnonymousMessageStream_failure_after_append [OF down_sendAnonymousMessageStream_steps]
  show ?thesis
    unfolding a b by (simp add: errorEvent_def unavailable_def)
qed

text \<open>
  C1 (amended). For every streaming send-message request, authenticated or anonymous,
  in which the user message has already been stored (the database accepted it, or it
  was appended to the anonymous chat) and the token stream then fails, the channel
  carries the chunk events of the fragments that had arrived followed by one error
  event, and is ended; the error event has the fields \<^verbatim>\<open>type\<close> and \<^verbatim>\<open>error\<close> only, the
  latter being the fixed text that the AI service is temporarily unavailable, so it
  reports no chat id; and no \<^verbatim>\<open>done\<close> event is written on that channel.
\<close>

theorem C1_stream_failure_after_persist:
  "(\<not> (body_content req = [] \<or> trim (body_content req) = [])
     \<and> databaseService_getChat d (params_chatId req) (Some (user_userId req)) w = (Inr (Some chat), w1)
     \<and> handleModelSwitch d (body_model req) w1 = (Inr u, w2)
     \<and> databaseService_addMessage d (params_chatId req)
          (case body_role req of None \<Rightarrow> USER | Some r \<Rightarrow> r) (trim (body_content req)) None w2
        = (Inr userMessage, w3)
     \<and> databaseService_getMessages d (params_chatId req) w3 = (Inr chatHistory, w4)
     \<and> gemini_sendMessageStream d chatHistory w4 = ((chunks, Some error), w5)
    \<longrightarrow> written (fst (controller_sendMessageStream d req w))
          = map chunkEvent chunks @ [errorEvent unavailable]
        \<and> ended (fst (controller_sendMessageStream d req w))
        \<and> map fst (last (written (fst (controller_sendMessageStream d req w)))) = [''type'', ''error'']
        \<and> map_of (last (written (fst (controller_sendMessageStream d req w)))) ''error''
            = Some (SseString
                ''The AI service is temporarily unavailable. Please try again in a few moments.'')
        \<and> \<not> list_ex isDoneEvent (written (fst (controller_sendMessageStream d req w))))
   \<and> (\<not> (body_content req = [] \<or> trim (body_content req) = [])
     \<and> map_of (anonymousChats w) (params_chatId req) = Some anonymousChat
     \<and> handleModelSwitch d (body_model req) w = (Inr u, w1)
     \<and> gemini_sendMessageStream d
          (entryMessages (params_chatId req)
             (appendUserMessage d (params_chatId req)
                (case body_role req of None \<Rightarrow> USER | Some r \<Rightarrow> r) (body_content req) w1))
          (appendUserMessage d (params_chatId req)
             (case body_role req of None \<Rightarrow> USER | Some r \<Rightarrow> r) (body_content req) w1)
        = ((chunks, Some error), w3)
    \<longrightarrow> written (fst (controller_sendAnonymousMessageStream d req w))
          = map chunkEvent chunks @ [errorEvent unavailable]
        \<and> ended (fst (controller_sendAnonymousMessageStream d req w))
        \<and> map fst (last (written (fst (controller_sendAnonymousMessageStream d req w))))
            = [''type'', ''error'']
        \<and> map_of (last (written (fst (controller_sendAnonymousMessageStream d req w)))) ''error''
            = Some (SseString
                ''The AI service is temporarily unavailable. Please try again in a few moments.'')
        \<and> \<not> list_ex isDoneEvent (written (fst (controller_sendAnonymousMessageStream d req w))))"
proof (intro conjI impI)
  assume h: "\<not> (body_content req = [] \<or> trim (body_content req) = [])
     \<and> databaseService_getChat d (params_chatId req) (Some (user_userId req)) w = (Inr (Some chat), w1)
     \<and> handleModelSwitch d (body_model req) w1 = (Inr u, w2)
     \<and> databaseService_addMessage d (params_chatId req)
          (case body_role req of None \<Rightarrow> USER | Some r \<Rightarrow> r) (trim (body_content req)) None w2
        = (Inr userMessage, w3)
     \<and> databaseService_getMessages d (params_chatId req) w3 = (Inr chatHistory, w4)
     \<and> gemini_sendMessageStream d chatHistory w4 = ((chunks, Some error), w5)"
  note run = sendMessageStream_failure_after_persist [OF h]
  show "written (fst (controller_sendMessageStream d req w))
          = map chunkEvent chunks @ [errorEvent unavailable]"
    unfolding run by simp
  show "ended (fst (controller_sendMessageStream d req w))"
    unfolding run by simp
  show "map fst (last (written (fst (controller_sendMessageStream d req w)))) = [''type'', ''error'']"
    unfolding run by simp
  show "map_of (last (written (fst (controller_sendMessageStream d req w)))) ''error''
            = Some (SseString
                ''The AI service is temporarily unavailable. Please try again in a few moments.'')"
    unfolding run by (simp add: errorEvent_def unavailable_def)
  show "\<not> list_ex isDoneEvent (written (fst (controller_sendMessageStream d req w)))"
    unfolding run by simp
next
  assume h: "\<not> (body_content req = [] \<or> trim (body_content req) = [])
     \<and> map_of (anonymousChats w) (params_chatId req) = Some anonymousChat
     \<and> handleModelSwitch d (body_model req) w = (Inr u, w1)
     \<and> gemini_sendMessageStream d
          (entryMessages (params_chatId req)
             (appendUserMessage d (params_chatId req)
                (case body_role req of None \<Rightarrow> USER | Some r \<Rightarrow> r) (body_content req) w1))
          (appendUserMessage d (params_chatId req)
             (case body_role req of None \<Rightarrow> USER | Some r \<Rightarrow> r) (body_content req) w1)
        = ((chunks, Some error), w3)"
  note run = sendAnonymousMessageStream_failure_after_append [OF h]
  show "written (fst (controller_sendAnonymousMessageStream d req w))
          = map chunkEvent chunks @ [errorEvent unavailable]"
    unfolding run by simp
  show "ended (fst (controller_sendAnonymousMessageStream d req w))"
    unfolding run by simp
  show "map fst (last (written (fst (controller_sendAnonymousMessageStream d req w))))
            = [''type'', ''error'']"
    unfolding run by simp
  show "map_of (last (written (fst (controller_sendAnonymousMessageStream d req w)))) ''error''
            = Some (SseString
                ''The AI service is temporarily unavailable. Please try again in a few moments.'')"
    unfolding run by (simp add: errorEvent_def unavailable_def)
  show "\<not> list_ex isDoneEvent (written (fst (controller_sendAnonymousMessageStream d req w)))"
    unfolding run by simp
qed

theorem C1_stream_failure_after_persist_witness:
  "written (fst (controller_sendMessageStream downDeps durableRequest freshWorld))
     = [chunkEvent ''Hel'', errorEvent unavailable]
   \<and> \<not> list_ex isDoneEvent
         (written (fst (controller_sendMessageStream downDeps durableRequest freshWorld)))
   \<and> written (fst (controller_sendAnonymousMessageStream downDeps anonymousRequest migrationWorld))
     = [chunkEvent ''Hel'', errorEvent unavailable]
   \<and> \<not> list_ex isDoneEvent
         (written (fst (controller_sendAnonymousMessageStream downDeps anonymousRequest
            migrationWorld)))"
  using C1_stream_failure_after_persist
      [where d = downDeps and req = durableRequest and w = freshWorld,
        THEN conjunct1, THEN mp, OF down_sendMessageStream_steps]
    C1_stream_failure_after_persist
      [where d = downDeps and req = anonymousRequest and w = migrationWorld,
        THEN conjunct2, THEN mp, OF down_sendAnonymousMessageStream_steps]
  by simp

end
